theory Spec2Isabelle
  imports Main
begin

section \<open>Shared data: errors, buffers, nodes, transforms\<close>

text \<open>
  The reasons passed to \<open>xmlSecError\<close> in \<open>xmlenc.c\<close> and in the XSLT transform.
\<close>

datatype xmlSecErrorReason =
    XMLSEC_ERRORS_R_XMLSEC_FAILED
  | XMLSEC_ERRORS_R_MALLOC_FAILED
  | XMLSEC_ERRORS_R_XML_FAILED
  | XMLSEC_ERRORS_R_XSLT_FAILED
  | XMLSEC_ERRORS_R_INVALID_STATUS
  | XMLSEC_ERRORS_R_INVALID_NODE
  | XMLSEC_ERRORS_R_INVALID_NODE_CONTENT
  | XMLSEC_ERRORS_R_UNEXPECTED_NODE
  | XMLSEC_ERRORS_R_INVALID_DATA
  | XMLSEC_ERRORS_R_INVALID_TYPE
  | XMLSEC_ERRORS_R_KEY_NOT_FOUND

text \<open>
  The status of a transform instance. The enumeration is declared outside the two source
  files; the specification lists its four values (None, Working, Finished, Failed).
\<close>

datatype xmlSecTransformStatus =
    xmlSecTransformStatusNone
  | xmlSecTransformStatusWorking
  | xmlSecTransformStatusFinished
  | xmlSecTransformStatusFail

text \<open>
  The message of a report: \<open>XMLSEC_ERRORS_NO_MESSAGE\<close>, or a format string with its
  arguments.
\<close>

datatype xmlSecMsgArg = ArgS string | ArgN nat | ArgStatus xmlSecTransformStatus

datatype xmlSecMsg = XMLSEC_ERRORS_NO_MESSAGE | Msg string "xmlSecMsgArg list"

text \<open>
  What a failing call reports before it returns \<open>-1\<close> (or \<open>NULL\<close>): a call of
  \<open>xmlSecError(XMLSEC_ERRORS_HERE, errorObject, errorSubject, reason, msg, ...)\<close>, or
  a failed \<open>xmlSecAssert2(p, ret)\<close>, recorded with the text of \<open>p\<close>. A function
  that fails returns \<open>Inl\<close> of its reports, oldest first; \<open>Inr\<close> is the return
  value of a call that succeeds.

  The third entry is no report: \<open>xmlSecNullDereference p\<close> records that the code reads
  through the pointer \<open>p\<close> while it is \<open>NULL\<close>. The call does not return, so
  nothing follows this entry.
\<close>

datatype xmlSecReport =
    xmlSecError (errorObject: "string option") (errorSubject: "string option")
      (reason: xmlSecErrorReason) (msg: xmlSecMsg)
  | xmlSecAssertFailed string
  | xmlSecNullDereference string

fun reportsReason :: "xmlSecErrorReason \<Rightarrow> xmlSecReport \<Rightarrow> bool" where
  "reportsReason r (xmlSecError obj subj r' m) = (r' = r)"
| "reportsReason r (xmlSecAssertFailed p) = False"
| "reportsReason r (xmlSecNullDereference p) = False"

fun isNullDereference :: "xmlSecReport \<Rightarrow> bool" where
  "isNullDereference (xmlSecNullDereference p) = True"
| "isNullDereference e = False"

text \<open>
  The reports of a caller whose callee has left \<open>es\<close>: the caller adds its own report
  \<open>e\<close> and returns, unless the callee never returned.
\<close>

definition followedBy :: "xmlSecReport list \<Rightarrow> xmlSecReport \<Rightarrow> xmlSecReport list" where
  "followedBy es e = (if list_ex isNullDereference es then es else es @ [e])"

definition reported :: "xmlSecErrorReason \<Rightarrow> xmlSecReport list + 'a \<Rightarrow> bool" where
  "reported r res = (case res of Inl es \<Rightarrow> list_ex (reportsReason r) es | Inr v \<Rightarrow> False)"

definition failed :: "xmlSecReport list + 'a \<Rightarrow> bool" where
  "failed res = (case res of Inl es \<Rightarrow> True | Inr v \<Rightarrow> False)"

definition xmlSecErrorsSafeString :: "string option \<Rightarrow> string" where
  "xmlSecErrorsSafeString str = (case str of None \<Rightarrow> ''NULL'' | Some s \<Rightarrow> s)"

text \<open>
  An octet buffer. \<open>None\<close> is a buffer whose data pointer is \<open>NULL\<close> (nothing was ever
  stored, size 0); \<open>Some d\<close> holds the octets \<open>d\<close>. Octets are \<open>char\<close>s, as
  \<open>xmlChar\<close> and \<open>unsigned char\<close> are.
\<close>

type_synonym xmlSecBuffer = "string option"

definition xmlSecBufferGetSize :: "xmlSecBuffer \<Rightarrow> nat" where
  "xmlSecBufferGetSize buf = (case buf of None \<Rightarrow> 0 | Some d \<Rightarrow> length d)"

definition xmlSecBufferGetData :: "xmlSecBuffer \<Rightarrow> string option" where
  "xmlSecBufferGetData buf = buf"

text \<open>
  Modelled from the spec: \<open>xmlSecBufferRemoveHead\<close> and \<open>xmlSecBufferAppend\<close> live in
  the buffer module, which is not among the source files. The specification (4.1):
  \<open>removeHead(n)\<close> shifts the remaining bytes to the front; append grows the buffer on
  demand. Neither allocates on removal, so removal always returns \<open>0\<close>.
\<close>

definition xmlSecBufferRemoveHead :: "xmlSecBuffer \<Rightarrow> nat \<Rightarrow> xmlSecBuffer option" where
  "xmlSecBufferRemoveHead buf n =
     (case buf of None \<Rightarrow> Some None | Some d \<Rightarrow> Some (Some (drop n d)))"

definition xmlSecBufferAppend :: "xmlSecBuffer \<Rightarrow> string \<Rightarrow> xmlSecBuffer" where
  "xmlSecBufferAppend buf d = (case buf of None \<Rightarrow> Some d | Some d0 \<Rightarrow> Some (d0 @ d))"

text \<open>
  A DOM node: its kind, local name, namespace href (if any), attributes in document order,
  children in document order, and the text it carries.
\<close>

datatype xmlElementType = XML_ELEMENT_NODE | XML_TEXT_NODE | XML_COMMENT_NODE

datatype xmlNode =
  xmlNode (node_type: xmlElementType) (node_name: string) (node_ns: "string option")
    (node_properties: "(string \<times> string) list") (node_children: "xmlNode list")
    (node_content: string)

datatype xmlDoc = xmlDoc "xmlNode list"

text \<open>A compiled stylesheet owns the document it was compiled from.\<close>

datatype xsltStylesheet = xsltStylesheet xmlDoc

datatype xmlSecKey = xmlSecKey (key_name: string) (key_bits: nat)

datatype xmlSecKeyDataType = xmlSecKeyDataTypeUnknown | xmlSecKeyDataTypePublic

datatype xmlSecKeyReq =
  xmlSecKeyReq (keyId: string) (keyType: xmlSecKeyDataType) (keyBitsSize: nat)

text \<open>
  The klass of a transform: the two klasses the source files name, and any other
  registered klass, identified by its name.
\<close>

datatype xmlSecTransformId =
    xmlSecTransformBase64Id
  | xmlSecTransformXsltId
  | xmlSecTransformKlass string

definition xmlSecNameXslt :: string where
  "xmlSecNameXslt = ''xslt''"

definition xmlSecNameBase64 :: string where
  "xmlSecNameBase64 = ''base64''"

text \<open>
  A transform instance. The last two fields stand for the per-klass context placed after
  the base object: the stylesheet of \<open>xmlSecXsltCtx\<close>, and the key a cipher was given.
\<close>

record xmlSecTransform =
  transform_id :: xmlSecTransformId
  status :: xmlSecTransformStatus
  encode :: bool
  inBuf :: xmlSecBuffer
  outBuf :: xmlSecBuffer
  xslt :: "xsltStylesheet option"
  transform_key :: "xmlSecKey option"

definition xmlSecTransformGetName :: "xmlSecTransform \<Rightarrow> string option" where
  "xmlSecTransformGetName transform =
     (case transform_id transform of
        xmlSecTransformBase64Id \<Rightarrow> Some xmlSecNameBase64
      | xmlSecTransformXsltId \<Rightarrow> Some xmlSecNameXslt
      | xmlSecTransformKlass n \<Rightarrow> Some n)"

section \<open>The XSLT transform\<close>

text \<open>
  The library calls the XSLT transform makes, as functions of their arguments: libxml2 and
  libxslt are outside the repository, \<open>xmlSecParseMemory\<close> and \<open>xmlSecBufferSetData\<close>
  outside the two source files. \<open>None\<close> and \<open>False\<close> stand for the failure of the call
  (\<open>NULL\<close>, or a negative return).
\<close>

record xslt_env =
  xmlBufferCreate_ok :: bool
  xmlNodeDump :: "xmlNode \<Rightarrow> string"
  xmlSecParseMemory :: "string \<Rightarrow> xmlDoc option"
  xsltParseStylesheetDoc :: "xmlDoc \<Rightarrow> xsltStylesheet option"
  xsltApplyStylesheet :: "xsltStylesheet \<Rightarrow> xmlDoc \<Rightarrow> xmlDoc option"
  xmlAllocOutputBuffer_ok :: bool
  xsltSaveResultTo :: "xmlDoc \<Rightarrow> xsltStylesheet \<Rightarrow> string option"
  xmlSecBufferSetData_ok :: bool

text \<open>\<open>xmlSecXsltInitialize\<close>: \<open>memset(ctx, 0, sizeof(xmlSecXsltCtx))\<close>.\<close>

definition xmlSecXsltInitialize ::
  "xmlSecTransform \<Rightarrow> (xmlSecReport list + unit) \<times> xmlSecTransform" where
  "xmlSecXsltInitialize transform =
     (if transform_id transform \<noteq> xmlSecTransformXsltId then
        (Inl [xmlSecAssertFailed ''xmlSecTransformCheckId(transform, xmlSecTransformXsltId)''],
         transform)
      else (Inr (), transform\<lparr>xslt := None\<rparr>))"

text \<open>
  \<open>xmlSecXsltReadNode\<close>. The buffer receives the dump of every child of the node; it is
  parsed, and the document compiled into the stylesheet.
\<close>

definition xmlSecXsltReadNode ::
  "xslt_env \<Rightarrow> xmlSecTransform \<Rightarrow> xmlNode \<Rightarrow> (xmlSecReport list + unit) \<times> xmlSecTransform" where
  "xmlSecXsltReadNode env transform node =
     (if transform_id transform \<noteq> xmlSecTransformXsltId then
        (Inl [xmlSecAssertFailed ''xmlSecTransformCheckId(transform, xmlSecTransformXsltId)''],
         transform)
      else if xslt transform \<noteq> None then
        (Inl [xmlSecAssertFailed ''ctx->xslt == NULL''], transform)
      else if \<not> xmlBufferCreate_ok env then
        (Inl [xmlSecError (Some (xmlSecErrorsSafeString (xmlSecTransformGetName transform)))
                (Some ''xmlBufferCreate'') XMLSEC_ERRORS_R_XML_FAILED XMLSEC_ERRORS_NO_MESSAGE],
         transform)
      else
        let buffer = concat (map (xmlNodeDump env) (node_children node)) in
        (case xmlSecParseMemory env buffer of
           None \<Rightarrow>
             (Inl [xmlSecError (Some (xmlSecErrorsSafeString (xmlSecTransformGetName transform)))
                     (Some ''xmlSecParseMemory'') XMLSEC_ERRORS_R_XMLSEC_FAILED
                     XMLSEC_ERRORS_NO_MESSAGE],
              transform)
         | Some doc \<Rightarrow>
             (case xsltParseStylesheetDoc env doc of
                None \<Rightarrow>
                  (Inl [xmlSecError
                          (Some (xmlSecErrorsSafeString (xmlSecTransformGetName transform)))
                          (Some ''xsltParseStylesheetDoc'') XMLSEC_ERRORS_R_XSLT_FAILED
                          XMLSEC_ERRORS_NO_MESSAGE],
                   transform)
              | Some sheet \<Rightarrow> (Inr (), transform\<lparr>xslt := Some sheet\<rparr>))))"

text \<open>
  \<open>xmlSecXslProcess(in, out, stylesheet)\<close>: returns the reports or success, and the
  output buffer as the call leaves it.
\<close>

definition xmlSecXslProcess ::
  "xslt_env \<Rightarrow> xmlSecBuffer \<Rightarrow> xmlSecBuffer \<Rightarrow> xsltStylesheet \<Rightarrow>
     (xmlSecReport list + unit) \<times> xmlSecBuffer" where
  "xmlSecXslProcess env inb out stylesheet =
     (case xmlSecParseMemory env (case xmlSecBufferGetData inb of None \<Rightarrow> [] | Some d \<Rightarrow> d) of
        None \<Rightarrow>
          (Inl [xmlSecError None (Some ''xmlSecParseMemory'') XMLSEC_ERRORS_R_XMLSEC_FAILED
                  XMLSEC_ERRORS_NO_MESSAGE], out)
      | Some docIn \<Rightarrow>
          (case xsltApplyStylesheet env stylesheet docIn of
             None \<Rightarrow>
               (Inl [xmlSecError None (Some ''xsltApplyStylesheet'') XMLSEC_ERRORS_R_XSLT_FAILED
                       XMLSEC_ERRORS_NO_MESSAGE], out)
           | Some docOut \<Rightarrow>
               if \<not> xmlAllocOutputBuffer_ok env then
                 (Inl [xmlSecError None (Some ''xmlAllocOutputBuffer'')
                         XMLSEC_ERRORS_R_XML_FAILED XMLSEC_ERRORS_NO_MESSAGE], out)
               else
                 (case xsltSaveResultTo env docOut stylesheet of
                    None \<Rightarrow>
                      (Inl [xmlSecError None (Some ''xsltSaveResultTo'')
                              XMLSEC_ERRORS_R_XSLT_FAILED XMLSEC_ERRORS_NO_MESSAGE], out)
                  | Some bytes \<Rightarrow>
                      if \<not> xmlSecBufferSetData_ok env then
                        (Inl [xmlSecError None (Some ''xmlSecBufferSetData'')
                                XMLSEC_ERRORS_R_XMLSEC_FAILED XMLSEC_ERRORS_NO_MESSAGE], out)
                      else (Inr (), Some bytes))))"

text \<open>
  \<open>xmlSecXsltExecute(transform, last, transformCtx)\<close>. The sizes are read at entry; the
  promotion from None to Working happens before the branches and stays when a branch
  fails.
\<close>

definition xmlSecXsltExecute ::
  "xslt_env \<Rightarrow> xmlSecTransform \<Rightarrow> int \<Rightarrow> (xmlSecReport list + unit) \<times> xmlSecTransform" where
  "xmlSecXsltExecute env transform0 lastArg =
     (if transform_id transform0 \<noteq> xmlSecTransformXsltId then
        (Inl [xmlSecAssertFailed ''xmlSecTransformCheckId(transform, xmlSecTransformXsltId)''],
         transform0)
      else
        (case xslt transform0 of
           None \<Rightarrow> (Inl [xmlSecAssertFailed ''ctx->xslt != NULL''], transform0)
         | Some sheet \<Rightarrow>
             let inSize = xmlSecBufferGetSize (inBuf transform0);
                 outSize = xmlSecBufferGetSize (outBuf transform0);
                 transform =
                   (if status transform0 = xmlSecTransformStatusNone
                    then transform0\<lparr>status := xmlSecTransformStatusWorking\<rparr>
                    else transform0)
             in
               if status transform = xmlSecTransformStatusWorking \<and> lastArg = 0 then
                 (if outSize \<noteq> 0 then (Inl [xmlSecAssertFailed ''outSize == 0''], transform)
                  else (Inr (), transform))
               else if status transform = xmlSecTransformStatusWorking \<and> lastArg \<noteq> 0 then
                 (if outSize \<noteq> 0 then (Inl [xmlSecAssertFailed ''outSize == 0''], transform)
                  else
                    (case xmlSecXslProcess env (inBuf transform) (outBuf transform) sheet of
                       (Inl es, out) \<Rightarrow>
                         (Inl (es @
                            [xmlSecError
                               (Some (xmlSecErrorsSafeString (xmlSecTransformGetName transform)))
                               (Some ''xmlSecXslProcess'') XMLSEC_ERRORS_R_XMLSEC_FAILED
                               XMLSEC_ERRORS_NO_MESSAGE]),
                          transform\<lparr>outBuf := out\<rparr>)
                     | (Inr u, out) \<Rightarrow>
                         (case xmlSecBufferRemoveHead (inBuf transform) inSize of
                            None \<Rightarrow>
                              (Inl [xmlSecError
                                      (Some (xmlSecErrorsSafeString
                                         (xmlSecTransformGetName transform)))
                                      (Some ''xmlSecBufferRemoveHead'')
                                      XMLSEC_ERRORS_R_XMLSEC_FAILED
                                      (Msg ''size=%d'' [ArgN inSize])],
                               transform\<lparr>outBuf := out\<rparr>)
                          | Some inb \<Rightarrow>
                              (Inr (),
                               transform\<lparr>outBuf := out, inBuf := inb,
                                 status := xmlSecTransformStatusFinished\<rparr>))))
               else if status transform = xmlSecTransformStatusFinished then
                 (if inSize \<noteq> 0 then (Inl [xmlSecAssertFailed ''inSize == 0''], transform)
                  else (Inr (), transform))
               else
                 (Inl [xmlSecError
                         (Some (xmlSecErrorsSafeString (xmlSecTransformGetName transform)))
                         None XMLSEC_ERRORS_R_INVALID_STATUS
                         (Msg ''status=%d'' [ArgStatus (status transform)])],
                  transform)))"

section \<open>The encryption context\<close>

subsection \<open>Names declared outside the source files\<close>

text \<open>
  Modelled from the spec: the string constants below are declared in the library's string
  table, which is not among the source files. Their values are the element, attribute and
  namespace names of XML Encryption that the specification uses (sections 4.6 and 8).
\<close>

definition xmlSecEncNs :: string where
  "xmlSecEncNs = ''http://www.w3.org/2001/04/xmlenc#''"

definition xmlSecDSigNs :: string where
  "xmlSecDSigNs = ''http://www.w3.org/2000/09/xmldsig#''"

definition xmlSecTypeEncElement :: string where
  "xmlSecTypeEncElement = ''http://www.w3.org/2001/04/xmlenc#Element''"

definition xmlSecTypeEncContent :: string where
  "xmlSecTypeEncContent = ''http://www.w3.org/2001/04/xmlenc#Content''"

definition xmlSecNodeEncryptionMethod :: string where
  "xmlSecNodeEncryptionMethod = ''EncryptionMethod''"

definition xmlSecNodeKeyInfo :: string where
  "xmlSecNodeKeyInfo = ''KeyInfo''"

definition xmlSecNodeCipherData :: string where
  "xmlSecNodeCipherData = ''CipherData''"

definition xmlSecNodeCipherValue :: string where
  "xmlSecNodeCipherValue = ''CipherValue''"

definition xmlSecNodeCipherReference :: string where
  "xmlSecNodeCipherReference = ''CipherReference''"

definition xmlSecNodeEncryptionProperties :: string where
  "xmlSecNodeEncryptionProperties = ''EncryptionProperties''"

definition xmlSecNodeReferenceList :: string where
  "xmlSecNodeReferenceList = ''ReferenceList''"

definition xmlSecNodeCarriedKeyName :: string where
  "xmlSecNodeCarriedKeyName = ''CarriedKeyName''"

definition xmlSecNodeTransforms :: string where
  "xmlSecNodeTransforms = ''Transforms''"

definition xmlSecAttrId :: string where
  "xmlSecAttrId = ''Id''"

definition xmlSecAttrType :: string where
  "xmlSecAttrType = ''Type''"

definition xmlSecAttrMimeType :: string where
  "xmlSecAttrMimeType = ''MimeType''"

definition xmlSecAttrEncoding :: string where
  "xmlSecAttrEncoding = ''Encoding''"

definition xmlSecAttrRecipient :: string where
  "xmlSecAttrRecipient = ''Recipient''"

definition xmlSecAttrURI :: string where
  "xmlSecAttrURI = ''URI''"

subsection \<open>DOM helpers\<close>

text \<open>
  Modelled from the spec: the helpers of the XML tree module are not among the source
  files. A cursor \<open>cur\<close> is the list of the siblings from \<open>cur\<close> on, \<open>[]\<close> being
  \<open>NULL\<close>; \<open>cur->next\<close> is \<open>tl cur\<close>. The specification speaks of the element
  children of a node, examined in order: \<open>xmlSecGetNextElementNode\<close> skips what is not
  an element, \<open>xmlSecCheckNodeName\<close> compares local name and namespace.
\<close>

definition xmlSecGetNextElementNode :: "xmlNode list \<Rightarrow> xmlNode list" where
  "xmlSecGetNextElementNode cur = dropWhile (\<lambda>n. node_type n \<noteq> XML_ELEMENT_NODE) cur"

definition xmlSecCheckNodeName :: "xmlNode \<Rightarrow> string \<Rightarrow> string \<Rightarrow> bool" where
  "xmlSecCheckNodeName cur name ns = (node_name cur = name \<and> node_ns cur = Some ns)"

text \<open>The test \<open>(cur != NULL) && xmlSecCheckNodeName(cur, name, ns)\<close> on a cursor.\<close>

definition curIs :: "xmlNode list \<Rightarrow> string \<Rightarrow> string \<Rightarrow> bool" where
  "curIs cur name ns = (case cur of [] \<Rightarrow> False | n # rest \<Rightarrow> xmlSecCheckNodeName n name ns)"

definition xmlSecNodeGetName :: "xmlNode list \<Rightarrow> string option" where
  "xmlSecNodeGetName cur = (case cur of [] \<Rightarrow> None | n # rest \<Rightarrow> Some (node_name n))"

definition xmlGetProp :: "xmlNode \<Rightarrow> string \<Rightarrow> string option" where
  "xmlGetProp node name = map_of (node_properties node) name"

subsection \<open>The context and the world around it\<close>

datatype xmlEncCtxMode = xmlEncCtxModeEncryptedData | xmlEncCtxModeEncryptedKey

datatype xmlSecTransformUsage =
  xmlSecTransformUsageDSigTransform | xmlSecTransformUsageEncryptionMethod

datatype xmlSecKeyInfoMode = xmlSecKeyInfoModeRead | xmlSecKeyInfoModeWrite

text \<open>
  The keys manager with its \<open>getKey\<close> hook (\<open>None\<close>: the hook is \<open>NULL\<close>). The hook
  receives the \<open>KeyInfo\<close> node and the key requirements of the reading context.
\<close>

record xmlSecKeysMngr =
  getKey :: "(xmlNode \<Rightarrow> xmlSecKeyReq \<Rightarrow> xmlSecKey option) option"

text \<open>
  A key-info context holds a pointer to the keys manager: \<open>None\<close> is the \<open>NULL\<close>
  pointer, \<open>Some m\<close> points to the manager \<open>m\<close>.
\<close>

type_synonym xmlSecKeysMngrPtr = "xmlSecKeysMngr option"

record xmlSecKeyInfoCtx =
  keyInfoCtx_mode :: xmlSecKeyInfoMode
  keysMngr :: xmlSecKeysMngrPtr
  keyReq :: xmlSecKeyReq

text \<open>A transform pointer is an index into the store of transform instances.\<close>

type_synonym xmlSecTransformPtr = nat

text \<open>
  The transform context: the chain from head to tail, the URI of the input source, the
  first (source) transform and the result buffer.
\<close>

record xmlSecTransformCtx =
  tctx_chain :: "xmlSecTransformPtr list"
  tctx_uri :: "string option"
  tctx_first :: "xmlSecTransformPtr option"
  tctx_result :: "xmlSecBuffer option"

text \<open>
  The calls that reach outside the context, recorded in the order they are made, with
  their arguments: what is done to the documents, the execution of the chain (with the
  chain as it is at the call), and the release of resources.
\<close>

datatype effect =
    E_AddIDs xmlNode
  | E_BinaryExecute "xmlSecTransformPtr list" string
  | E_Execute "xmlSecTransformPtr list" "string option"
  | E_NodeDumpOutput "xmlSecTransformPtr list" xmlNode
  | E_OutputBufferClose "xmlSecTransformPtr list"
  | E_NodeSetContentLen xmlNode string
  | E_KeyInfoNodeWrite xmlNode xmlSecKey
  | E_ReplaceNode xmlNode xmlNode
  | E_ReplaceContent xmlNode xmlNode
  | E_ReplaceNodeBuffer xmlNode string
  | E_TransformCtxFinalize "xmlSecTransformPtr list"
  | E_KeyInfoCtxFinalize xmlSecKeyInfoMode
  | E_TransformDestroy xmlSecTransformPtr
  | E_KeyDestroy xmlSecKey
  | E_Free string

text \<open>
  \<open>struct _xmlSecEncCtx\<close>, followed by two components that stand for the world the
  context points into: the store of transform instances (\<open>heap\<close>, a pointer being an
  index) and the calls made so far (\<open>effects\<close>). The node fields hold the node pointed
  to. The fields \<open>id\<close> and \<open>type\<close> are \<open>ctx_id\<close> and \<open>ctx_type\<close>.
\<close>

record xmlSecEncCtx =
  mode :: xmlEncCtxMode
  encrypt :: bool
  ctx_id :: "string option"
  ctx_type :: "string option"
  mimeType :: "string option"
  encoding :: "string option"
  recipient :: "string option"
  carriedKeyName :: "string option"
  encMethodNode :: "xmlNode option"
  keyInfoNode :: "xmlNode option"
  cipherValueNode :: "xmlNode option"
  encMethod :: "xmlSecTransformPtr option"
  dontDestroyEncMethod :: bool
  encKey :: "xmlSecKey option"
  keyInfoReadCtx :: xmlSecKeyInfoCtx
  keyInfoWriteCtx :: xmlSecKeyInfoCtx
  encTransformCtx :: xmlSecTransformCtx
  encResult :: "xmlSecBuffer option"
  replaced :: bool
  resultBase64Encoded :: bool
  heap :: "xmlSecTransform list"
  effects :: "effect list"

definition deref :: "xmlSecEncCtx \<Rightarrow> xmlSecTransformPtr \<Rightarrow> xmlSecTransform option" where
  "deref ctx p = (if p < length (heap ctx) then Some (heap ctx ! p) else None)"

text \<open>
  A write through a transform pointer. A pointer outside the store is undefined behaviour
  in C; here the write is dropped.
\<close>

definition poke ::
  "xmlSecTransformPtr \<Rightarrow> (xmlSecTransform \<Rightarrow> xmlSecTransform) \<Rightarrow> xmlSecEncCtx \<Rightarrow> xmlSecEncCtx" where
  "poke p f ctx =
     (if p < length (heap ctx) then ctx\<lparr>heap := (heap ctx)[p := f (heap ctx ! p)]\<rparr> else ctx)"

definition emit :: "effect \<Rightarrow> xmlSecEncCtx \<Rightarrow> xmlSecEncCtx" where
  "emit e ctx = ctx\<lparr>effects := effects ctx @ [e]\<rparr>"

definition chainTransforms :: "xmlSecEncCtx \<Rightarrow> xmlSecTransform list" where
  "chainTransforms ctx = List.map_filter (deref ctx) (tctx_chain (encTransformCtx ctx))"

text \<open>
  The result of driving the chain: the call failed, or it returned \<open>0\<close> and left the
  given result pointer in the transform context.
\<close>

datatype exec_result = ExecFailed | ExecOk "xmlSecBuffer option"

datatype chain_input = InputBin string | InputUri "string option"

text \<open>
  The calls the encryption context makes into the rest of the library (transforms, keys,
  key info, XML tree) and into libxml2, as functions of their arguments. \<open>None\<close>,
  \<open>False\<close> and \<open>ExecFailed\<close> stand for the failure of the call.
  \<open>sizeof_xmlSecEncCtx\<close> is the size of the context struct, whose declaration is
  outside the source files.
\<close>

record enc_env =
  xmlMalloc_ok :: bool
  sizeof_xmlSecEncCtx :: nat
  keyInfoCtxInitialize_ok :: "xmlSecKeyInfoMode \<Rightarrow> bool"
  transformCtxInitialize_ok :: bool
  transformNodeRead :: "xmlNode \<Rightarrow> xmlSecTransformUsage \<Rightarrow> xmlSecTransform option"
  transformNodesListRead :: "xmlNode \<Rightarrow> xmlSecTransformUsage \<Rightarrow> xmlSecTransform list option"
  transformCreate_ok :: "xmlSecTransformId \<Rightarrow> bool"
  transformCtxAppend_ok :: "xmlSecTransform \<Rightarrow> bool"
  transformCtxSetUri :: "string \<Rightarrow> xmlNode \<Rightarrow> xmlSecTransform option"
  transformSetKeyReq :: "xmlSecTransform \<Rightarrow> xmlSecKeyReq option"
  keyMatch :: "xmlSecKey \<Rightarrow> xmlSecKeyReq \<Rightarrow> bool"
  transformSetKey_ok :: "xmlSecTransform \<Rightarrow> xmlSecKey \<Rightarrow> bool"
  transformCtxPrepare_ok :: "xmlSecTransform list \<Rightarrow> bool"
  createOutputBuffer_ok :: bool
  nodeDump :: "xmlNode \<Rightarrow> string"
  chainRun :: "xmlSecTransform list \<Rightarrow> chain_input \<Rightarrow> exec_result"
  xmlNodeGetContent :: "xmlNode \<Rightarrow> string option"
  keyInfoNodeWrite_ok :: "xmlNode \<Rightarrow> xmlSecKey \<Rightarrow> bool"
  replaceNode_ok :: "xmlNode \<Rightarrow> xmlNode \<Rightarrow> bool"
  replaceContent_ok :: "xmlNode \<Rightarrow> xmlNode \<Rightarrow> bool"
  replaceNodeBuffer_ok :: "xmlNode \<Rightarrow> string \<Rightarrow> bool"

subsection \<open>The transform context\<close>

text \<open>
  Modelled from the spec: the transform context module is not among the source files.
  The specification (4.5): append and prepend insert a transform at the tail and at the
  head of the chain; createAndAppend and createAndPrepend allocate an instance of the
  klass, initialize it and link it; nodeRead instantiates a transform from an
  \<open>EncryptionMethod\<close> or \<open>Transform\<close> element and (section 2) makes it a stage of
  the chain; nodesListRead reads a sequence of \<open>Transform\<close> children; setUri installs
  the source transform for the URI at the head of the chain; prepare materializes the
  chain; execute and binaryExecute drive the chain and leave the result buffer. Reports
  made inside these calls are not recorded: a failing call returns \<open>None\<close>.
\<close>

definition xmlSecTransformCreate :: "xmlSecTransformId \<Rightarrow> xmlSecTransform" where
  "xmlSecTransformCreate klass =
     \<lparr>transform_id = klass, status = xmlSecTransformStatusNone, encode = False,
      inBuf = None, outBuf = None, xslt = None, transform_key = None\<rparr>"

definition chainAppend :: "xmlSecTransformPtr \<Rightarrow> xmlSecEncCtx \<Rightarrow> xmlSecEncCtx" where
  "chainAppend p ctx =
     ctx\<lparr>encTransformCtx := (encTransformCtx ctx)
       \<lparr>tctx_chain := tctx_chain (encTransformCtx ctx) @ [p]\<rparr>\<rparr>"

definition chainPrepend :: "xmlSecTransformPtr \<Rightarrow> xmlSecEncCtx \<Rightarrow> xmlSecEncCtx" where
  "chainPrepend p ctx =
     ctx\<lparr>encTransformCtx := (encTransformCtx ctx)
       \<lparr>tctx_chain := p # tctx_chain (encTransformCtx ctx)\<rparr>\<rparr>"

definition xmlSecTransformCtxAppend ::
  "enc_env \<Rightarrow> xmlSecEncCtx \<Rightarrow> xmlSecTransformPtr \<Rightarrow> unit option \<times> xmlSecEncCtx" where
  "xmlSecTransformCtxAppend env ctx p =
     (case deref ctx p of
        None \<Rightarrow> (None, ctx)
      | Some t \<Rightarrow> if transformCtxAppend_ok env t then (Some (), chainAppend p ctx)
                  else (None, ctx))"

definition xmlSecTransformCtxCreateAndAppend ::
  "enc_env \<Rightarrow> xmlSecEncCtx \<Rightarrow> xmlSecTransformId \<Rightarrow> xmlSecTransformPtr option \<times> xmlSecEncCtx" where
  "xmlSecTransformCtxCreateAndAppend env ctx klass =
     (if transformCreate_ok env klass then
        (Some (length (heap ctx)),
         chainAppend (length (heap ctx))
           (ctx\<lparr>heap := heap ctx @ [xmlSecTransformCreate klass]\<rparr>))
      else (None, ctx))"

definition xmlSecTransformCtxCreateAndPrepend ::
  "enc_env \<Rightarrow> xmlSecEncCtx \<Rightarrow> xmlSecTransformId \<Rightarrow> xmlSecTransformPtr option \<times> xmlSecEncCtx" where
  "xmlSecTransformCtxCreateAndPrepend env ctx klass =
     (if transformCreate_ok env klass then
        (Some (length (heap ctx)),
         chainPrepend (length (heap ctx))
           (ctx\<lparr>heap := heap ctx @ [xmlSecTransformCreate klass]\<rparr>))
      else (None, ctx))"

definition xmlSecTransformCtxNodeRead ::
  "enc_env \<Rightarrow> xmlSecEncCtx \<Rightarrow> xmlNode \<Rightarrow> xmlSecTransformUsage \<Rightarrow>
     xmlSecTransformPtr option \<times> xmlSecEncCtx" where
  "xmlSecTransformCtxNodeRead env ctx node usage =
     (case transformNodeRead env node usage of
        None \<Rightarrow> (None, ctx)
      | Some t \<Rightarrow>
          (Some (length (heap ctx)),
           chainAppend (length (heap ctx)) (ctx\<lparr>heap := heap ctx @ [t]\<rparr>)))"

definition xmlSecTransformCtxNodesListRead ::
  "enc_env \<Rightarrow> xmlSecEncCtx \<Rightarrow> xmlNode \<Rightarrow> xmlSecTransformUsage \<Rightarrow> unit option \<times> xmlSecEncCtx" where
  "xmlSecTransformCtxNodesListRead env ctx node usage =
     (case transformNodesListRead env node usage of
        None \<Rightarrow> (None, ctx)
      | Some ts \<Rightarrow>
          (Some (),
           ctx\<lparr>heap := heap ctx @ ts,
               encTransformCtx := (encTransformCtx ctx)
                 \<lparr>tctx_chain := tctx_chain (encTransformCtx ctx) @
                    [length (heap ctx) ..< length (heap ctx) + length ts]\<rparr>\<rparr>))"

definition xmlSecTransformCtxSetUri ::
  "enc_env \<Rightarrow> xmlSecEncCtx \<Rightarrow> string \<Rightarrow> xmlNode \<Rightarrow> unit option \<times> xmlSecEncCtx" where
  "xmlSecTransformCtxSetUri env ctx u hint =
     (case transformCtxSetUri env u hint of
        None \<Rightarrow> (None, ctx)
      | Some src \<Rightarrow>
          (Some (),
           ctx\<lparr>heap := heap ctx @ [src],
               encTransformCtx := (encTransformCtx ctx)
                 \<lparr>tctx_chain := length (heap ctx) # tctx_chain (encTransformCtx ctx),
                  tctx_uri := Some u\<rparr>\<rparr>))"

definition xmlSecTransformCtxPrepare ::
  "enc_env \<Rightarrow> xmlSecEncCtx \<Rightarrow> unit option \<times> xmlSecEncCtx" where
  "xmlSecTransformCtxPrepare env ctx =
     (if transformCtxPrepare_ok env (chainTransforms ctx) then
        (Some (),
         ctx\<lparr>encTransformCtx := (encTransformCtx ctx)
           \<lparr>tctx_first := (case tctx_chain (encTransformCtx ctx) of
                             [] \<Rightarrow> None | p # rest \<Rightarrow> Some p)\<rparr>\<rparr>)
      else (None, ctx))"

definition xmlSecTransformCtxBinaryExecute ::
  "enc_env \<Rightarrow> xmlSecEncCtx \<Rightarrow> string \<Rightarrow> unit option \<times> xmlSecEncCtx" where
  "xmlSecTransformCtxBinaryExecute env ctx dat =
     (case chainRun env (chainTransforms ctx) (InputBin dat) of
        ExecFailed \<Rightarrow>
          (None, emit (E_BinaryExecute (tctx_chain (encTransformCtx ctx)) dat) ctx)
      | ExecOk r \<Rightarrow>
          (Some (),
           (emit (E_BinaryExecute (tctx_chain (encTransformCtx ctx)) dat) ctx)
             \<lparr>encTransformCtx := (encTransformCtx ctx)\<lparr>tctx_result := r\<rparr>\<rparr>))"

definition xmlSecTransformCtxExecute ::
  "enc_env \<Rightarrow> xmlSecEncCtx \<Rightarrow> unit option \<times> xmlSecEncCtx" where
  "xmlSecTransformCtxExecute env ctx =
     (case chainRun env (chainTransforms ctx) (InputUri (tctx_uri (encTransformCtx ctx))) of
        ExecFailed \<Rightarrow>
          (None,
           emit (E_Execute (tctx_chain (encTransformCtx ctx)) (tctx_uri (encTransformCtx ctx)))
             ctx)
      | ExecOk r \<Rightarrow>
          (Some (),
           (emit (E_Execute (tctx_chain (encTransformCtx ctx))
                    (tctx_uri (encTransformCtx ctx))) ctx)
             \<lparr>encTransformCtx := (encTransformCtx ctx)\<lparr>tctx_result := r\<rparr>\<rparr>))"

text \<open>
  The output buffer created by \<open>xmlSecTransformCreateOutputBuffer\<close> feeds what is
  written to it into the chain; closing it signals the end of the input. The source
  ignores what \<open>xmlNodeDumpOutput\<close> and \<open>xmlOutputBufferClose\<close> return, so a run that
  fails leaves the result pointer as it was.
\<close>

definition outputBufferWrite :: "xmlNode list \<Rightarrow> xmlSecEncCtx \<Rightarrow> xmlSecEncCtx" where
  "outputBufferWrite nodes ctx =
     ctx\<lparr>effects := effects ctx @
       map (E_NodeDumpOutput (tctx_chain (encTransformCtx ctx))) nodes\<rparr>"

definition outputBufferClose :: "enc_env \<Rightarrow> string \<Rightarrow> xmlSecEncCtx \<Rightarrow> xmlSecEncCtx" where
  "outputBufferClose env written ctx =
     (case chainRun env (chainTransforms ctx) (InputBin written) of
        ExecFailed \<Rightarrow> emit (E_OutputBufferClose (tctx_chain (encTransformCtx ctx))) ctx
      | ExecOk r \<Rightarrow>
          (emit (E_OutputBufferClose (tctx_chain (encTransformCtx ctx))) ctx)
            \<lparr>encTransformCtx := (encTransformCtx ctx)\<lparr>tctx_result := r\<rparr>\<rparr>)"

definition xmlSecTransformSetKeyReq ::
  "enc_env \<Rightarrow> xmlSecEncCtx \<Rightarrow> xmlSecTransformPtr \<Rightarrow> xmlSecKeyReq option" where
  "xmlSecTransformSetKeyReq env ctx p =
     (case deref ctx p of None \<Rightarrow> None | Some t \<Rightarrow> transformSetKeyReq env t)"

definition xmlSecTransformSetKey ::
  "enc_env \<Rightarrow> xmlSecEncCtx \<Rightarrow> xmlSecTransformPtr \<Rightarrow> xmlSecKey \<Rightarrow> unit option \<times> xmlSecEncCtx" where
  "xmlSecTransformSetKey env ctx p k =
     (case deref ctx p of
        None \<Rightarrow> (None, ctx)
      | Some t \<Rightarrow>
          if transformSetKey_ok env t k
          then (Some (), poke p (\<lambda>t. t\<lparr>transform_key := Some k\<rparr>) ctx)
          else (None, ctx))"

definition transformName :: "xmlSecEncCtx \<Rightarrow> xmlSecTransformPtr option \<Rightarrow> string option" where
  "transformName ctx p =
     (case p of None \<Rightarrow> None
      | Some q \<Rightarrow> (case deref ctx q of None \<Rightarrow> None | Some t \<Rightarrow> xmlSecTransformGetName t))"

subsection \<open>Creation and destruction\<close>

text \<open>A keys manager without \<open>getKey\<close> hook.\<close>

definition hooklessKeysMngr :: xmlSecKeysMngr where
  "hooklessKeysMngr = \<lparr>getKey = None\<rparr>"

text \<open>
  A context whose struct is all zero, in a world with the given transform instances and
  the given calls made so far; \<open>memset(ctx, 0, sizeof(xmlSecEncCtx))\<close> zeroes the
  struct and leaves the world.
\<close>

definition zeroCtx :: "xmlSecTransform list \<Rightarrow> effect list \<Rightarrow> xmlSecEncCtx" where
  "zeroCtx store calls =
     \<lparr>mode = xmlEncCtxModeEncryptedData, encrypt = False,
      ctx_id = None, ctx_type = None, mimeType = None, encoding = None,
      recipient = None, carriedKeyName = None,
      encMethodNode = None, keyInfoNode = None, cipherValueNode = None,
      encMethod = None, dontDestroyEncMethod = False, encKey = None,
      keyInfoReadCtx =
        \<lparr>keyInfoCtx_mode = xmlSecKeyInfoModeRead, keysMngr = None,
         keyReq = xmlSecKeyReq [] xmlSecKeyDataTypeUnknown 0\<rparr>,
      keyInfoWriteCtx =
        \<lparr>keyInfoCtx_mode = xmlSecKeyInfoModeRead, keysMngr = None,
         keyReq = xmlSecKeyReq [] xmlSecKeyDataTypeUnknown 0\<rparr>,
      encTransformCtx =
        \<lparr>tctx_chain = [], tctx_uri = None, tctx_first = None, tctx_result = None\<rparr>,
      encResult = None, replaced = False, resultBase64Encoded = False,
      heap = store, effects = calls\<rparr>"

definition memset0 :: "xmlSecEncCtx \<Rightarrow> xmlSecEncCtx" where
  "memset0 ctx = zeroCtx (heap ctx) (effects ctx)"

text \<open>\<open>xmlSecEncCtxInitialize(ctx, keysMngr)\<close>.\<close>

definition xmlSecEncCtxInitialize ::
  "enc_env \<Rightarrow> xmlSecEncCtx \<Rightarrow> xmlSecKeysMngrPtr \<Rightarrow>
     (xmlSecReport list + unit) \<times> xmlSecEncCtx" where
  "xmlSecEncCtxInitialize env ctx0 mngr =
     (let ctx = memset0 ctx0 in
      if \<not> keyInfoCtxInitialize_ok env xmlSecKeyInfoModeRead then
        (Inl [xmlSecError None (Some ''xmlSecKeyInfoCtxInitialize'')
                XMLSEC_ERRORS_R_XMLSEC_FAILED XMLSEC_ERRORS_NO_MESSAGE], ctx)
      else
        let ctx1 = ctx\<lparr>keyInfoReadCtx :=
                     \<lparr>keyInfoCtx_mode = xmlSecKeyInfoModeRead, keysMngr = mngr,
                      keyReq = xmlSecKeyReq [] xmlSecKeyDataTypeUnknown 0\<rparr>\<rparr>
        in
          if \<not> keyInfoCtxInitialize_ok env xmlSecKeyInfoModeWrite then
            (Inl [xmlSecError None (Some ''xmlSecKeyInfoCtxInitialize'')
                    XMLSEC_ERRORS_R_XMLSEC_FAILED XMLSEC_ERRORS_NO_MESSAGE], ctx1)
          else
            let ctx2 = ctx1\<lparr>keyInfoWriteCtx :=
                         \<lparr>keyInfoCtx_mode = xmlSecKeyInfoModeWrite, keysMngr = mngr,
                          keyReq = xmlSecKeyReq [] xmlSecKeyDataTypePublic 0\<rparr>\<rparr>
            in
              if \<not> transformCtxInitialize_ok env then
                (Inl [xmlSecError None (Some ''xmlSecTransformCtxInitialize'')
                        XMLSEC_ERRORS_R_XMLSEC_FAILED XMLSEC_ERRORS_NO_MESSAGE], ctx2)
              else (Inr (), ctx2))"

text \<open>
  \<open>xmlSecEncCtxFinalize(ctx)\<close>: the releases, in the order of the source, then the
  \<open>memset\<close>. \<open>freed\<close> is \<open>if(s != NULL) xmlFree(s)\<close>.
\<close>

definition freed :: "string option \<Rightarrow> effect list" where
  "freed str = (case str of None \<Rightarrow> [] | Some v \<Rightarrow> [E_Free v])"

definition xmlSecEncCtxFinalize :: "xmlSecEncCtx \<Rightarrow> xmlSecEncCtx" where
  "xmlSecEncCtxFinalize ctx =
     (memset0 ctx)\<lparr>effects := effects ctx @
        [E_TransformCtxFinalize (tctx_chain (encTransformCtx ctx)),
         E_KeyInfoCtxFinalize (keyInfoCtx_mode (keyInfoReadCtx ctx)),
         E_KeyInfoCtxFinalize (keyInfoCtx_mode (keyInfoWriteCtx ctx))] @
        (case encMethod ctx of
           None \<Rightarrow> []
         | Some p \<Rightarrow> if dontDestroyEncMethod ctx then [E_TransformDestroy p] else []) @
        (case encKey ctx of None \<Rightarrow> [] | Some k \<Rightarrow> [E_KeyDestroy k]) @
        freed (ctx_id ctx) @ freed (ctx_type ctx) @ freed (mimeType ctx) @
        freed (encoding ctx) @ freed (recipient ctx) @ freed (carriedKeyName ctx)\<rparr>"

text \<open>\<open>xmlSecEncCtxDestroy(ctx)\<close>: finalize, then free the struct itself.\<close>

definition xmlSecEncCtxDestroy :: "xmlSecEncCtx \<Rightarrow> xmlSecEncCtx" where
  "xmlSecEncCtxDestroy ctx = xmlSecEncCtxFinalize ctx"

text \<open>
  \<open>xmlSecEncCtxCreate(keysMngr)\<close>, in a world with the given transform instances.
  When the initialization fails the context is destroyed and \<open>NULL\<close> returned.
\<close>

definition xmlSecEncCtxCreate ::
  "enc_env \<Rightarrow> xmlSecTransform list \<Rightarrow> xmlSecKeysMngrPtr \<Rightarrow>
     xmlSecReport list + xmlSecEncCtx" where
  "xmlSecEncCtxCreate env store mngr =
     (if \<not> xmlMalloc_ok env then
        Inl [xmlSecError None (Some ''xmlMalloc'') XMLSEC_ERRORS_R_MALLOC_FAILED
               (Msg ''sizeof(xmlSecEncCtx)=%d'' [ArgN (sizeof_xmlSecEncCtx env)])]
      else
        (case xmlSecEncCtxInitialize env (zeroCtx store []) mngr of
           (Inl es, ctx) \<Rightarrow>
             Inl (es @ [xmlSecError None (Some ''xmlSecEncCtxInitialize'')
                          XMLSEC_ERRORS_R_XMLSEC_FAILED XMLSEC_ERRORS_NO_MESSAGE])
         | (Inr u, ctx) \<Rightarrow> Inr ctx))"

subsection \<open>Reading the template\<close>

text \<open>\<open>xmlSecEncCtxCipherReferenceNodeRead(ctx, node)\<close>.\<close>

definition xmlSecEncCtxCipherReferenceNodeRead ::
  "enc_env \<Rightarrow> xmlSecEncCtx \<Rightarrow> xmlNode \<Rightarrow> (xmlSecReport list + unit) \<times> xmlSecEncCtx" where
  "xmlSecEncCtxCipherReferenceNodeRead env ctx node =
     (case (case xmlGetProp node xmlSecAttrURI of
              None \<Rightarrow> (Some (), ctx)
            | Some u \<Rightarrow> xmlSecTransformCtxSetUri env ctx u node) of
        (None, ctx1) \<Rightarrow>
          (Inl [xmlSecError None (Some ''xmlSecTransformCtxSetUri'')
                  XMLSEC_ERRORS_R_XMLSEC_FAILED
                  (Msg ''uri=%s''
                     [ArgS (xmlSecErrorsSafeString (xmlGetProp node xmlSecAttrURI))])], ctx1)
      | (Some u1, ctx1) \<Rightarrow>
          let cur = xmlSecGetNextElementNode (node_children node) in
          (case (if curIs cur xmlSecNodeTransforms xmlSecEncNs then
                   (case xmlSecTransformCtxNodesListRead env ctx1 (hd cur)
                           xmlSecTransformUsageDSigTransform of
                      (None, ctx2) \<Rightarrow>
                        (Inl [xmlSecError None (Some ''xmlSecTransformCtxNodesListRead'')
                                XMLSEC_ERRORS_R_XMLSEC_FAILED
                                (Msg ''node=%s''
                                   [ArgS (xmlSecErrorsSafeString
                                      (map_option node_name (encMethodNode ctx2)))])], ctx2)
                    | (Some u2, ctx2) \<Rightarrow> (Inr (xmlSecGetNextElementNode (tl cur)), ctx2))
                 else (Inr cur, ctx1)) of
             (Inl es, ctx2) \<Rightarrow> (Inl es, ctx2)
           | (Inr cur2, ctx2) \<Rightarrow>
               if cur2 \<noteq> [] then
                 (Inl [xmlSecError (Some (xmlSecErrorsSafeString (xmlSecNodeGetName cur2))) None
                         XMLSEC_ERRORS_R_UNEXPECTED_NODE XMLSEC_ERRORS_NO_MESSAGE], ctx2)
               else (Inr (), ctx2)))"

text \<open>\<open>xmlSecEncCtxCipherDataNodeRead(ctx, node)\<close>.\<close>

definition xmlSecEncCtxCipherDataNodeRead ::
  "enc_env \<Rightarrow> xmlSecEncCtx \<Rightarrow> xmlNode \<Rightarrow> (xmlSecReport list + unit) \<times> xmlSecEncCtx" where
  "xmlSecEncCtxCipherDataNodeRead env ctx node =
     (let cur = xmlSecGetNextElementNode (node_children node) in
      if cipherValueNode ctx \<noteq> None then
        (Inl [xmlSecAssertFailed ''ctx->cipherValueNode == NULL''], ctx)
      else
        (case (if curIs cur xmlSecNodeCipherValue xmlSecEncNs then
                 (case (if \<not> encrypt ctx then
                          (case xmlSecTransformCtxCreateAndPrepend env ctx
                                  xmlSecTransformBase64Id of
                             (None, ctx1) \<Rightarrow>
                               (Inl [xmlSecError None
                                       (Some ''xmlSecTransformCtxCreateAndPrepend'')
                                       XMLSEC_ERRORS_R_XMLSEC_FAILED XMLSEC_ERRORS_NO_MESSAGE],
                                ctx1)
                           | (Some base64Decode, ctx1) \<Rightarrow> (Inr (), ctx1))
                        else (Inr (), ctx)) of
                    (Inl es, ctx1) \<Rightarrow> (Inl es, ctx1)
                  | (Inr u, ctx1) \<Rightarrow>
                      (Inr (xmlSecGetNextElementNode (tl cur)),
                       ctx1\<lparr>cipherValueNode := Some (hd cur)\<rparr>))
               else if curIs cur xmlSecNodeCipherReference xmlSecEncNs then
                 (case (if \<not> encrypt ctx then
                          (case xmlSecEncCtxCipherReferenceNodeRead env ctx (hd cur) of
                             (Inl es, ctx1) \<Rightarrow>
                               (Inl (es @
                                  [xmlSecError None
                                     (Some ''xmlSecEncCtxCipherReferenceNodeRead'')
                                     XMLSEC_ERRORS_R_XMLSEC_FAILED
                                     (Msg ''node=%s''
                                        [ArgS (xmlSecErrorsSafeString
                                           (xmlSecNodeGetName cur))])]), ctx1)
                           | (Inr u, ctx1) \<Rightarrow> (Inr (), ctx1))
                        else (Inr (), ctx)) of
                    (Inl es, ctx1) \<Rightarrow> (Inl es, ctx1)
                  | (Inr u, ctx1) \<Rightarrow> (Inr (xmlSecGetNextElementNode (tl cur)), ctx1))
               else (Inr cur, ctx)) of
           (Inl es, ctx1) \<Rightarrow> (Inl es, ctx1)
         | (Inr cur1, ctx1) \<Rightarrow>
             if cur1 \<noteq> [] then
               (Inl [xmlSecError None (Some (xmlSecErrorsSafeString (xmlSecNodeGetName cur1)))
                       XMLSEC_ERRORS_R_INVALID_NODE XMLSEC_ERRORS_NO_MESSAGE], ctx1)
             else (Inr (), ctx1)))"

text \<open>
  \<open>xmlSecEncCtxEncDataNodeRead(ctx, node)\<close> is written in parts that follow the
  source from top to bottom. The first part (\<open>first read node data\<close>) checks that the
  fields are still \<open>NULL\<close> and reads the attributes.
\<close>

definition encDataNodeRead_attrs ::
  "xmlSecEncCtx \<Rightarrow> xmlNode \<Rightarrow> (xmlSecReport list + unit) \<times> xmlSecEncCtx" where
  "encDataNodeRead_attrs ctx0 node =
     (if ctx_id ctx0 \<noteq> None then (Inl [xmlSecAssertFailed ''ctx->id == NULL''], ctx0)
      else if ctx_type ctx0 \<noteq> None then (Inl [xmlSecAssertFailed ''ctx->type == NULL''], ctx0)
      else if mimeType ctx0 \<noteq> None then
        (Inl [xmlSecAssertFailed ''ctx->mimeType == NULL''], ctx0)
      else if encoding ctx0 \<noteq> None then
        (Inl [xmlSecAssertFailed ''ctx->encoding == NULL''], ctx0)
      else if recipient ctx0 \<noteq> None then
        (Inl [xmlSecAssertFailed ''ctx->recipient == NULL''], ctx0)
      else if carriedKeyName ctx0 \<noteq> None then
        (Inl [xmlSecAssertFailed ''ctx->carriedKeyName == NULL''], ctx0)
      else
        let ctx1 = ctx0\<lparr>ctx_id := xmlGetProp node xmlSecAttrId,
                        ctx_type := xmlGetProp node xmlSecAttrType,
                        mimeType := xmlGetProp node xmlSecAttrMimeType,
                        encoding := xmlGetProp node xmlSecAttrEncoding\<rparr>
        in
          (Inr (),
           if mode ctx1 = xmlEncCtxModeEncryptedKey
           then ctx1\<lparr>recipient := xmlGetProp node xmlSecAttrRecipient\<rparr>
           else ctx1))"

text \<open>
  The optional \<open>EncryptionMethod\<close> and \<open>KeyInfo\<close> children. The part returns the
  cursor \<open>cur\<close> as it stands before the check for \<open>CipherData\<close>.
\<close>

definition encDataNodeRead_optional ::
  "xmlSecEncCtx \<Rightarrow> xmlNode \<Rightarrow> (xmlSecReport list + xmlNode list) \<times> xmlSecEncCtx" where
  "encDataNodeRead_optional ctx2 node =
     (let cur = xmlSecGetNextElementNode (node_children node) in
      if encMethodNode ctx2 \<noteq> None then
        (Inl [xmlSecAssertFailed ''ctx->encMethodNode == NULL''], ctx2)
      else
        let ctx3 = (if curIs cur xmlSecNodeEncryptionMethod xmlSecEncNs
                    then ctx2\<lparr>encMethodNode := Some (hd cur)\<rparr> else ctx2);
            cur3 = (if curIs cur xmlSecNodeEncryptionMethod xmlSecEncNs
                    then xmlSecGetNextElementNode (tl cur) else cur)
        in
          if keyInfoNode ctx3 \<noteq> None then
            (Inl [xmlSecAssertFailed ''ctx->keyInfoNode == NULL''], ctx3)
          else if curIs cur3 xmlSecNodeKeyInfo xmlSecDSigNs then
            (Inr (xmlSecGetNextElementNode (tl cur3)), ctx3\<lparr>keyInfoNode := Some (hd cur3)\<rparr>)
          else (Inr cur3, ctx3))"

text \<open>
  The required \<open>CipherData\<close> child (\<open>next is required CipherData node\<close>), read by
  \<open>xmlSecEncCtxCipherDataNodeRead\<close>. The part returns the cursor after it.
\<close>

definition encDataNodeRead_cipherData ::
  "enc_env \<Rightarrow> xmlSecEncCtx \<Rightarrow> xmlNode list \<Rightarrow>
     (xmlSecReport list + xmlNode list) \<times> xmlSecEncCtx" where
  "encDataNodeRead_cipherData env ctx4 cur4 =
     (if \<not> curIs cur4 xmlSecNodeCipherData xmlSecEncNs then
        (Inl [xmlSecError None (Some (xmlSecErrorsSafeString (xmlSecNodeGetName cur4)))
                XMLSEC_ERRORS_R_INVALID_NODE
                (Msg ''node=%s'' [ArgS (xmlSecErrorsSafeString (Some xmlSecNodeCipherData))])],
         ctx4)
      else
        (case xmlSecEncCtxCipherDataNodeRead env ctx4 (hd cur4) of
           (Inl es, ctx5) \<Rightarrow>
             (Inl (es @ [xmlSecError None (Some ''xmlSecEncCtxCipherDataNodeRead'')
                           XMLSEC_ERRORS_R_XMLSEC_FAILED XMLSEC_ERRORS_NO_MESSAGE]), ctx5)
         | (Inr u, ctx5) \<Rightarrow> (Inr (xmlSecGetNextElementNode (tl cur4)), ctx5)))"

text \<open>
  The children after \<open>CipherData\<close>: the optional \<open>EncryptionProperties\<close>, for an
  \<open>EncryptedKey\<close> the optional \<open>ReferenceList\<close> and \<open>CarriedKeyName\<close>, and the
  check that nothing is left.
\<close>

definition encDataNodeRead_rest ::
  "enc_env \<Rightarrow> xmlSecEncCtx \<Rightarrow> xmlNode list \<Rightarrow> (xmlSecReport list + unit) \<times> xmlSecEncCtx" where
  "encDataNodeRead_rest env ctx5 cur5 =
     (let cur6 = (if curIs cur5 xmlSecNodeEncryptionProperties xmlSecEncNs
                  then xmlSecGetNextElementNode (tl cur5) else cur5)
      in
        (case (if mode ctx5 = xmlEncCtxModeEncryptedKey then
                 let cur7 = (if curIs cur6 xmlSecNodeReferenceList xmlSecEncNs
                             then xmlSecGetNextElementNode (tl cur6) else cur6)
                 in
                   if curIs cur7 xmlSecNodeCarriedKeyName xmlSecEncNs then
                     (case xmlNodeGetContent env (hd cur7) of
                        None \<Rightarrow>
                          (Inl [xmlSecError None
                                  (Some (xmlSecErrorsSafeString (xmlSecNodeGetName cur7)))
                                  XMLSEC_ERRORS_R_INVALID_NODE_CONTENT
                                  (Msg ''node=%s''
                                     [ArgS (xmlSecErrorsSafeString
                                        (Some xmlSecNodeCipherData))])], ctx5)
                      | Some v \<Rightarrow>
                          (Inr (xmlSecGetNextElementNode (tl cur7)),
                           ctx5\<lparr>carriedKeyName := Some v\<rparr>))
                   else (Inr cur7, ctx5)
               else (Inr cur6, ctx5)) of
           (Inl es, ctx8) \<Rightarrow> (Inl es, ctx8)
         | (Inr cur8, ctx8) \<Rightarrow>
             if cur8 \<noteq> [] then
               (Inl [xmlSecError (Some (xmlSecErrorsSafeString (xmlSecNodeGetName cur8))) None
                       XMLSEC_ERRORS_R_UNEXPECTED_NODE XMLSEC_ERRORS_NO_MESSAGE], ctx8)
             else (Inr (), ctx8)))"

text \<open>The walk over the children, from the attributes to the check for nodes left over.\<close>

definition encDataNodeRead_children ::
  "enc_env \<Rightarrow> xmlSecEncCtx \<Rightarrow> xmlNode \<Rightarrow> (xmlSecReport list + unit) \<times> xmlSecEncCtx" where
  "encDataNodeRead_children env ctx0 node =
     (case encDataNodeRead_attrs ctx0 node of
        (Inl es, ctx2) \<Rightarrow> (Inl es, ctx2)
      | (Inr u, ctx2) \<Rightarrow>
          (case encDataNodeRead_optional ctx2 node of
             (Inl es, ctx4) \<Rightarrow> (Inl es, ctx4)
           | (Inr cur4, ctx4) \<Rightarrow>
               (case encDataNodeRead_cipherData env ctx4 cur4 of
                  (Inl es, ctx5) \<Rightarrow> (Inl es, ctx5)
                | (Inr cur5, ctx5) \<Rightarrow> encDataNodeRead_rest env ctx5 cur5)))"

text \<open>
  The next part (\<open>now read the encryption method node\<close>) yields the pointer that
  \<open>ctx->encMethod\<close> holds from here on, and sets its \<open>encode\<close> flag.
\<close>

definition encDataNodeRead_method ::
  "enc_env \<Rightarrow> xmlSecEncCtx \<Rightarrow> (xmlSecReport list + xmlSecTransformPtr) \<times> xmlSecEncCtx" where
  "encDataNodeRead_method env ctx =
     (case (case (encMethod ctx, encMethodNode ctx) of
              (None, Some mnode) \<Rightarrow>
                (case xmlSecTransformCtxNodeRead env ctx mnode
                        xmlSecTransformUsageEncryptionMethod of
                   (None, ctx1) \<Rightarrow>
                     (Inl [xmlSecError None (Some ''xmlSecTransformCtxNodeRead'')
                             XMLSEC_ERRORS_R_XMLSEC_FAILED
                             (Msg ''node=%s''
                                [ArgS (xmlSecErrorsSafeString (Some (node_name mnode)))])],
                      ctx1)
                 | (Some p, ctx1) \<Rightarrow> (Inr p, ctx1\<lparr>encMethod := Some p\<rparr>))
            | (Some p, mnode) \<Rightarrow>
                (case xmlSecTransformCtxAppend env ctx p of
                   (None, ctx1) \<Rightarrow>
                     (Inl [xmlSecError None (Some ''xmlSecTransformCtxAppend'')
                             XMLSEC_ERRORS_R_XMLSEC_FAILED XMLSEC_ERRORS_NO_MESSAGE], ctx1)
                 | (Some u, ctx1) \<Rightarrow> (Inr p, ctx1\<lparr>dontDestroyEncMethod := True\<rparr>))
            | (None, None) \<Rightarrow>
                (Inl [xmlSecError None None XMLSEC_ERRORS_R_INVALID_DATA
                        (Msg ''encryption method not specified'' [])], ctx)) of
        (Inl es, ctx1) \<Rightarrow> (Inl es, ctx1)
      | (Inr p, ctx1) \<Rightarrow> (Inr p, poke p (\<lambda>t. t\<lparr>encode := encrypt ctx1\<rparr>) ctx1))"

text \<open>
  The key part (\<open>we have encryption method, find key\<close>): key requirements, the
  \<open>getKey\<close> hook, the match, and the key set on the transform \<open>p = ctx->encMethod\<close>.
\<close>

definition encDataNodeRead_key ::
  "enc_env \<Rightarrow> xmlSecEncCtx \<Rightarrow> xmlSecTransformPtr \<Rightarrow>
     (xmlSecReport list + unit) \<times> xmlSecEncCtx" where
  "encDataNodeRead_key env ctx0 p =
     (case xmlSecTransformSetKeyReq env ctx0 p of
        None \<Rightarrow>
          (Inl [xmlSecError None (Some ''xmlSecTransformSetKeyReq'')
                  XMLSEC_ERRORS_R_XMLSEC_FAILED
                  (Msg ''transform=%s''
                     [ArgS (xmlSecErrorsSafeString (transformName ctx0 (Some p)))])], ctx0)
      | Some req \<Rightarrow>
          let ctx1 = ctx0\<lparr>keyInfoReadCtx := (keyInfoReadCtx ctx0)\<lparr>keyReq := req\<rparr>\<rparr>
          in
          if encKey ctx1 = None \<and> keyInfoNode ctx1 \<noteq> None \<and>
             keysMngr (keyInfoReadCtx ctx1) = None then
            (Inl [xmlSecNullDereference ''ctx->keyInfoReadCtx.keysMngr''], ctx1)
          else
          let ctx2 = (case (encKey ctx1, keyInfoNode ctx1, keysMngr (keyInfoReadCtx ctx1)) of
                        (None, Some knode, Some mngr) \<Rightarrow>
                          (case getKey mngr of
                             None \<Rightarrow> ctx1
                           | Some hook \<Rightarrow>
                               ctx1\<lparr>encKey := hook knode (keyReq (keyInfoReadCtx ctx1))\<rparr>)
                      | other \<Rightarrow> ctx1)
          in
            (case encKey ctx2 of
               None \<Rightarrow>
                 (Inl [xmlSecError None None XMLSEC_ERRORS_R_KEY_NOT_FOUND
                         XMLSEC_ERRORS_NO_MESSAGE], ctx2)
             | Some k \<Rightarrow>
                 if \<not> keyMatch env k (keyReq (keyInfoReadCtx ctx2)) then
                   (Inl [xmlSecError None None XMLSEC_ERRORS_R_KEY_NOT_FOUND
                           XMLSEC_ERRORS_NO_MESSAGE], ctx2)
                 else
                   (case xmlSecTransformSetKey env ctx2 p k of
                      (None, ctx3) \<Rightarrow>
                        (Inl [xmlSecError None (Some ''xmlSecTransformSetKey'')
                                XMLSEC_ERRORS_R_XMLSEC_FAILED
                                (Msg ''transform=%s''
                                   [ArgS (xmlSecErrorsSafeString
                                      (transformName ctx3 (Some p)))])], ctx3)
                    | (Some u, ctx3) \<Rightarrow> (Inr (), ctx3))))"

text \<open>
  The last part (\<open>if we need to write result to xml node then we need base64 encode
  it\<close>).
\<close>

definition encDataNodeRead_base64 ::
  "enc_env \<Rightarrow> xmlSecEncCtx \<Rightarrow> (xmlSecReport list + unit) \<times> xmlSecEncCtx" where
  "encDataNodeRead_base64 env ctx =
     (if encrypt ctx \<and> cipherValueNode ctx \<noteq> None then
        (case xmlSecTransformCtxCreateAndAppend env ctx xmlSecTransformBase64Id of
           (None, ctx1) \<Rightarrow>
             (Inl [xmlSecError None (Some ''xmlSecTransformCtxCreateAndAppend'')
                     XMLSEC_ERRORS_R_XMLSEC_FAILED XMLSEC_ERRORS_NO_MESSAGE], ctx1)
         | (Some base64Encode, ctx1) \<Rightarrow>
             (Inr (),
              (poke base64Encode (\<lambda>t. t\<lparr>encode := True\<rparr>) ctx1)
                \<lparr>resultBase64Encoded := True\<rparr>))
      else (Inr (), ctx))"

definition xmlSecEncCtxEncDataNodeRead ::
  "enc_env \<Rightarrow> xmlSecEncCtx \<Rightarrow> xmlNode \<Rightarrow> (xmlSecReport list + unit) \<times> xmlSecEncCtx" where
  "xmlSecEncCtxEncDataNodeRead env ctx node =
     (case encDataNodeRead_children env ctx node of
        (Inl es, ctx1) \<Rightarrow> (Inl es, ctx1)
      | (Inr u, ctx1) \<Rightarrow>
          (case encDataNodeRead_method env ctx1 of
             (Inl es, ctx2) \<Rightarrow> (Inl es, ctx2)
           | (Inr p, ctx2) \<Rightarrow>
               (case encDataNodeRead_key env ctx2 p of
                  (Inl es, ctx3) \<Rightarrow> (Inl es, ctx3)
                | (Inr u, ctx3) \<Rightarrow> encDataNodeRead_base64 env ctx3)))"

subsection \<open>Writing the result, and the calls that touch the documents\<close>

definition xmlSecKeyInfoNodeWrite ::
  "enc_env \<Rightarrow> xmlSecEncCtx \<Rightarrow> xmlNode \<Rightarrow> xmlSecKey \<Rightarrow> unit option \<times> xmlSecEncCtx" where
  "xmlSecKeyInfoNodeWrite env ctx knode k =
     (if keyInfoNodeWrite_ok env knode k then (Some (), emit (E_KeyInfoNodeWrite knode k) ctx)
      else (None, emit (E_KeyInfoNodeWrite knode k) ctx))"

definition xmlSecReplaceNode ::
  "enc_env \<Rightarrow> xmlSecEncCtx \<Rightarrow> xmlNode \<Rightarrow> xmlNode \<Rightarrow> unit option \<times> xmlSecEncCtx" where
  "xmlSecReplaceNode env ctx node newNode =
     (if replaceNode_ok env node newNode then (Some (), emit (E_ReplaceNode node newNode) ctx)
      else (None, emit (E_ReplaceNode node newNode) ctx))"

definition xmlSecReplaceContent ::
  "enc_env \<Rightarrow> xmlSecEncCtx \<Rightarrow> xmlNode \<Rightarrow> xmlNode \<Rightarrow> unit option \<times> xmlSecEncCtx" where
  "xmlSecReplaceContent env ctx node newNode =
     (if replaceContent_ok env node newNode
      then (Some (), emit (E_ReplaceContent node newNode) ctx)
      else (None, emit (E_ReplaceContent node newNode) ctx))"

definition xmlSecReplaceNodeBuffer ::
  "enc_env \<Rightarrow> xmlSecEncCtx \<Rightarrow> xmlNode \<Rightarrow> string \<Rightarrow> unit option \<times> xmlSecEncCtx" where
  "xmlSecReplaceNodeBuffer env ctx node buffer =
     (if replaceNodeBuffer_ok env node buffer
      then (Some (), emit (E_ReplaceNodeBuffer node buffer) ctx)
      else (None, emit (E_ReplaceNodeBuffer node buffer) ctx))"

text \<open>\<open>xmlSecEncCtxCipherDataNodeWrite(ctx)\<close>.\<close>

definition xmlSecEncCtxCipherDataNodeWrite ::
  "enc_env \<Rightarrow> xmlSecEncCtx \<Rightarrow> (xmlSecReport list + unit) \<times> xmlSecEncCtx" where
  "xmlSecEncCtxCipherDataNodeWrite env ctx =
     (case encResult ctx of
        None \<Rightarrow> (Inl [xmlSecAssertFailed ''ctx->encResult != NULL''], ctx)
      | Some res \<Rightarrow>
          (case encKey ctx of
             None \<Rightarrow> (Inl [xmlSecAssertFailed ''ctx->encKey != NULL''], ctx)
           | Some k \<Rightarrow>
               (case (case cipherValueNode ctx of
                        None \<Rightarrow> (Inr (), ctx)
                      | Some cv \<Rightarrow>
                          (case xmlSecBufferGetData res of
                             None \<Rightarrow>
                               (Inl [xmlSecAssertFailed
                                       ''xmlSecBufferGetData(ctx->encResult) != NULL''], ctx)
                           | Some d \<Rightarrow>
                               (Inr (),
                                (emit (E_NodeSetContentLen cv (take (xmlSecBufferGetSize res) d))
                                   ctx)\<lparr>replaced := True\<rparr>))) of
                  (Inl es, ctx1) \<Rightarrow> (Inl es, ctx1)
                | (Inr u, ctx1) \<Rightarrow>
                    (case keyInfoNode ctx1 of
                       None \<Rightarrow> (Inr (), ctx1)
                     | Some knode \<Rightarrow>
                         (case xmlSecKeyInfoNodeWrite env ctx1 knode k of
                            (None, ctx2) \<Rightarrow>
                              (Inl [xmlSecError None (Some ''xmlSecKeyInfoNodeWrite'')
                                      XMLSEC_ERRORS_R_XMLSEC_FAILED XMLSEC_ERRORS_NO_MESSAGE],
                               ctx2)
                          | (Some u2, ctx2) \<Rightarrow> (Inr (), ctx2))))))"

subsection \<open>The top-level operations\<close>

text \<open>
  The arguments that the source asserts to be non-\<open>NULL\<close> (\<open>ctx\<close>, \<open>tmpl\<close>,
  \<open>node\<close>, \<open>data\<close>, \<open>uri\<close>, \<open>node->doc\<close>) are values here, so those assertions
  hold by the types. The assertion on \<open>ctx->encResult\<close> is a branch.
\<close>

definition xmlSecEncCtxBinaryEncrypt ::
  "enc_env \<Rightarrow> xmlSecEncCtx \<Rightarrow> xmlNode \<Rightarrow> string \<Rightarrow> (xmlSecReport list + unit) \<times> xmlSecEncCtx" where
  "xmlSecEncCtxBinaryEncrypt env ctx0 tmpl dat =
     (if encResult ctx0 \<noteq> None then
        (Inl [xmlSecAssertFailed ''ctx->encResult == NULL''], ctx0)
      else
        (case xmlSecEncCtxEncDataNodeRead env (emit (E_AddIDs tmpl) (ctx0\<lparr>encrypt := True\<rparr>))
                tmpl of
           (Inl es, ctx1) \<Rightarrow>
             (Inl (followedBy es
                   (xmlSecError None (Some ''xmlSecEncCtxEncDataNodeRead'')
                      XMLSEC_ERRORS_R_XMLSEC_FAILED XMLSEC_ERRORS_NO_MESSAGE)), ctx1)
         | (Inr u, ctx1) \<Rightarrow>
             (case xmlSecTransformCtxBinaryExecute env ctx1 dat of
                (None, ctx2) \<Rightarrow>
                  (Inl [xmlSecError None (Some ''xmlSecTransformCtxBinaryExecute'')
                          XMLSEC_ERRORS_R_XMLSEC_FAILED
                          (Msg ''dataSize=%d'' [ArgN (length dat)])], ctx2)
              | (Some u2, ctx2) \<Rightarrow>
                  let ctx3 = ctx2\<lparr>encResult := tctx_result (encTransformCtx ctx2)\<rparr> in
                  if encResult ctx3 = None then
                    (Inl [xmlSecAssertFailed ''ctx->encResult != NULL''], ctx3)
                  else
                    (case xmlSecEncCtxCipherDataNodeWrite env ctx3 of
                       (Inl es, ctx4) \<Rightarrow>
                         (Inl (es @
                            [xmlSecError None (Some ''xmlSecEncCtxCipherDataNodeWrite'')
                               XMLSEC_ERRORS_R_XMLSEC_FAILED XMLSEC_ERRORS_NO_MESSAGE]), ctx4)
                     | (Inr u3, ctx4) \<Rightarrow> (Inr (), ctx4)))))"

text \<open>
  \<open>xmlSecEncCtxXmlEncrypt(ctx, tmpl, node)\<close> is written in three parts. The first
  (\<open>push data thru\<close>) serializes the node, or its children, into the output buffer,
  closes the buffer and takes the result; for an unknown type it closes the buffer and
  fails.
\<close>

definition xmlEncrypt_push ::
  "enc_env \<Rightarrow> xmlSecEncCtx \<Rightarrow> xmlNode \<Rightarrow> (xmlSecReport list + unit) \<times> xmlSecEncCtx" where
  "xmlEncrypt_push env ctx2 node =
     (if ctx_type ctx2 \<noteq> Some xmlSecTypeEncElement \<and>
         ctx_type ctx2 \<noteq> Some xmlSecTypeEncContent then
        (Inl [xmlSecError None None XMLSEC_ERRORS_R_INVALID_TYPE
                (Msg ''type=\"%s\"'' [ArgS (xmlSecErrorsSafeString (ctx_type ctx2))])],
         outputBufferClose env [] ctx2)
      else
        let nodes = (if ctx_type ctx2 = Some xmlSecTypeEncElement then [node]
                     else node_children node);
            ctx3 = outputBufferClose env (concat (map (nodeDump env) nodes))
                     (outputBufferWrite nodes ctx2);
            ctx4 = ctx3\<lparr>encResult := tctx_result (encTransformCtx ctx3)\<rparr>
        in
          if encResult ctx4 = None then
            (Inl [xmlSecAssertFailed ''ctx->encResult != NULL''], ctx4)
          else (Inr (), ctx4))"

text \<open>
  The last part (\<open>now we need to update our original document\<close>): the host document
  is touched here only, by \<open>xmlSecReplaceNode\<close> or \<open>xmlSecReplaceContent\<close>.
\<close>

definition xmlEncrypt_replace ::
  "enc_env \<Rightarrow> xmlSecEncCtx \<Rightarrow> xmlNode \<Rightarrow> xmlNode \<Rightarrow>
     (xmlSecReport list + unit) \<times> xmlSecEncCtx" where
  "xmlEncrypt_replace env ctx5 tmpl node =
     (if ctx_type ctx5 = Some xmlSecTypeEncElement then
        (case xmlSecReplaceNode env ctx5 node tmpl of
           (None, ctx6) \<Rightarrow>
             (Inl [xmlSecError None (Some ''xmlSecReplaceNode'')
                     XMLSEC_ERRORS_R_XMLSEC_FAILED
                     (Msg ''node=%s''
                        [ArgS (xmlSecErrorsSafeString (Some (node_name node)))])], ctx6)
         | (Some u4, ctx6) \<Rightarrow> (Inr (), ctx6\<lparr>replaced := True\<rparr>))
      else if ctx_type ctx5 = Some xmlSecTypeEncContent then
        (case xmlSecReplaceContent env ctx5 node tmpl of
           (None, ctx6) \<Rightarrow>
             (Inl [xmlSecError None (Some ''xmlSecReplaceContent'')
                     XMLSEC_ERRORS_R_XMLSEC_FAILED
                     (Msg ''node=%s''
                        [ArgS (xmlSecErrorsSafeString (Some (node_name node)))])], ctx6)
         | (Some u4, ctx6) \<Rightarrow> (Inr (), ctx6\<lparr>replaced := True\<rparr>))
      else
        (Inl [xmlSecError None None XMLSEC_ERRORS_R_INVALID_TYPE
                (Msg ''type=\"%s\"'' [ArgS (xmlSecErrorsSafeString (ctx_type ctx5))])],
         ctx5))"

text \<open>The whole operation.\<close>

definition xmlSecEncCtxXmlEncrypt ::
  "enc_env \<Rightarrow> xmlSecEncCtx \<Rightarrow> xmlNode \<Rightarrow> xmlNode \<Rightarrow>
     (xmlSecReport list + unit) \<times> xmlSecEncCtx" where
  "xmlSecEncCtxXmlEncrypt env ctx0 tmpl node =
     (if encResult ctx0 \<noteq> None then
        (Inl [xmlSecAssertFailed ''ctx->encResult == NULL''], ctx0)
      else
        (case xmlSecEncCtxEncDataNodeRead env (emit (E_AddIDs tmpl) (ctx0\<lparr>encrypt := True\<rparr>))
                tmpl of
           (Inl es, ctx1) \<Rightarrow>
             (Inl (followedBy es
                   (xmlSecError None (Some ''xmlSecEncCtxEncDataNodeRead'')
                      XMLSEC_ERRORS_R_XMLSEC_FAILED XMLSEC_ERRORS_NO_MESSAGE)), ctx1)
         | (Inr u, ctx1) \<Rightarrow>
             (case xmlSecTransformCtxPrepare env ctx1 of
                (None, ctx2) \<Rightarrow>
                  (Inl [xmlSecError None (Some ''xmlSecTransformCtxPrepare'')
                          XMLSEC_ERRORS_R_XMLSEC_FAILED (Msg ''type=bin'' [])], ctx2)
              | (Some u2, ctx2) \<Rightarrow>
                  if tctx_first (encTransformCtx ctx2) = None then
                    (Inl [xmlSecAssertFailed ''ctx->encTransformCtx.first != NULL''], ctx2)
                  else if \<not> createOutputBuffer_ok env then
                    (Inl [xmlSecError
                            (Some (xmlSecErrorsSafeString
                               (transformName ctx2 (tctx_first (encTransformCtx ctx2)))))
                            (Some ''xmlSecTransformCreateOutputBuffer'')
                            XMLSEC_ERRORS_R_XMLSEC_FAILED XMLSEC_ERRORS_NO_MESSAGE], ctx2)
                  else
                    (case xmlEncrypt_push env ctx2 node of
                       (Inl es, ctx4) \<Rightarrow> (Inl es, ctx4)
                     | (Inr u3, ctx4) \<Rightarrow>
                         (case xmlSecEncCtxCipherDataNodeWrite env ctx4 of
                            (Inl es, ctx5) \<Rightarrow>
                              (Inl (es @
                                 [xmlSecError None (Some ''xmlSecEncCtxCipherDataNodeWrite'')
                                    XMLSEC_ERRORS_R_XMLSEC_FAILED XMLSEC_ERRORS_NO_MESSAGE]),
                               ctx5)
                          | (Inr u4, ctx5) \<Rightarrow> xmlEncrypt_replace env ctx5 tmpl node)))))"

definition xmlSecEncCtxUriEncrypt ::
  "enc_env \<Rightarrow> xmlSecEncCtx \<Rightarrow> xmlNode \<Rightarrow> string \<Rightarrow> (xmlSecReport list + unit) \<times> xmlSecEncCtx" where
  "xmlSecEncCtxUriEncrypt env ctx0 tmpl u =
     (if encResult ctx0 \<noteq> None then
        (Inl [xmlSecAssertFailed ''ctx->encResult == NULL''], ctx0)
      else
        (case xmlSecTransformCtxSetUri env (emit (E_AddIDs tmpl) (ctx0\<lparr>encrypt := True\<rparr>))
                u tmpl of
           (None, ctx1) \<Rightarrow>
             (Inl [xmlSecError None (Some ''xmlSecTransformCtxSetUri'')
                     XMLSEC_ERRORS_R_XMLSEC_FAILED (Msg ''uri=%s'' [ArgS u])], ctx1)
         | (Some u1, ctx1) \<Rightarrow>
             (case xmlSecEncCtxEncDataNodeRead env ctx1 tmpl of
                (Inl es, ctx2) \<Rightarrow>
                  (Inl (followedBy es
                   (xmlSecError None (Some ''xmlSecEncCtxEncDataNodeRead'')
                      XMLSEC_ERRORS_R_XMLSEC_FAILED XMLSEC_ERRORS_NO_MESSAGE)), ctx2)
              | (Inr u2, ctx2) \<Rightarrow>
                  (case xmlSecTransformCtxExecute env ctx2 of
                     (None, ctx3) \<Rightarrow>
                       (Inl [xmlSecError None (Some ''xmlSecTransformCtxExecute'')
                               XMLSEC_ERRORS_R_XMLSEC_FAILED XMLSEC_ERRORS_NO_MESSAGE], ctx3)
                   | (Some u3, ctx3) \<Rightarrow>
                       let ctx4 = ctx3\<lparr>encResult := tctx_result (encTransformCtx ctx3)\<rparr> in
                       if encResult ctx4 = None then
                         (Inl [xmlSecAssertFailed ''ctx->encResult != NULL''], ctx4)
                       else
                         (case xmlSecEncCtxCipherDataNodeWrite env ctx4 of
                            (Inl es, ctx5) \<Rightarrow>
                              (Inl (es @
                                 [xmlSecError None (Some ''xmlSecEncCtxCipherDataNodeWrite'')
                                    XMLSEC_ERRORS_R_XMLSEC_FAILED XMLSEC_ERRORS_NO_MESSAGE]),
                               ctx5)
                          | (Inr u4, ctx5) \<Rightarrow> (Inr (), ctx5))))))"

text \<open>
  \<open>xmlSecEncCtxDecryptToBuffer(ctx, node)\<close> returns the result buffer, \<open>Inl\<close> standing
  for \<open>NULL\<close>.
\<close>

definition xmlSecEncCtxDecryptToBuffer ::
  "enc_env \<Rightarrow> xmlSecEncCtx \<Rightarrow> xmlNode \<Rightarrow> (xmlSecReport list + xmlSecBuffer) \<times> xmlSecEncCtx" where
  "xmlSecEncCtxDecryptToBuffer env ctx0 node =
     (if encResult ctx0 \<noteq> None then
        (Inl [xmlSecAssertFailed ''ctx->encResult == NULL''], ctx0)
      else
        (case xmlSecEncCtxEncDataNodeRead env (emit (E_AddIDs node) (ctx0\<lparr>encrypt := False\<rparr>))
                node of
           (Inl es, ctx1) \<Rightarrow>
             (Inl (followedBy es
                   (xmlSecError None (Some ''xmlSecEncCtxEncDataNodeRead'')
                      XMLSEC_ERRORS_R_XMLSEC_FAILED XMLSEC_ERRORS_NO_MESSAGE)), ctx1)
         | (Inr u, ctx1) \<Rightarrow>
             (case (case cipherValueNode ctx1 of
                      Some cv \<Rightarrow>
                        (case xmlNodeGetContent env cv of
                           None \<Rightarrow>
                             (Inl [xmlSecError None (Some ''xmlNodeGetContent'')
                                     XMLSEC_ERRORS_R_INVALID_NODE_CONTENT
                                     (Msg ''node=%s''
                                        [ArgS (xmlSecErrorsSafeString
                                           (Some (node_name cv)))])], ctx1)
                         | Some dat \<Rightarrow>
                             (case xmlSecTransformCtxBinaryExecute env ctx1 dat of
                                (None, ctx2) \<Rightarrow>
                                  (Inl [xmlSecError None
                                          (Some ''xmlSecTransformCtxBinaryExecute'')
                                          XMLSEC_ERRORS_R_XMLSEC_FAILED
                                          XMLSEC_ERRORS_NO_MESSAGE], ctx2)
                              | (Some u2, ctx2) \<Rightarrow> (Inr (), ctx2)))
                    | None \<Rightarrow>
                        (case xmlSecTransformCtxExecute env ctx1 of
                           (None, ctx2) \<Rightarrow>
                             (Inl [xmlSecError None (Some ''xmlSecTransformCtxBinaryExecute'')
                                     XMLSEC_ERRORS_R_XMLSEC_FAILED XMLSEC_ERRORS_NO_MESSAGE],
                              ctx2)
                         | (Some u2, ctx2) \<Rightarrow> (Inr (), ctx2))) of
                (Inl es, ctx2) \<Rightarrow> (Inl es, ctx2)
              | (Inr u2, ctx2) \<Rightarrow>
                  (case tctx_result (encTransformCtx ctx2) of
                     None \<Rightarrow>
                       (Inl [xmlSecAssertFailed ''ctx->encResult != NULL''],
                        ctx2\<lparr>encResult := None\<rparr>)
                   | Some res \<Rightarrow> (Inr res, ctx2\<lparr>encResult := Some res\<rparr>)))))"

text \<open>\<open>xmlSecEncCtxDecrypt(ctx, node)\<close>.\<close>

definition xmlSecEncCtxDecrypt ::
  "enc_env \<Rightarrow> xmlSecEncCtx \<Rightarrow> xmlNode \<Rightarrow> (xmlSecReport list + unit) \<times> xmlSecEncCtx" where
  "xmlSecEncCtxDecrypt env ctx0 node =
     (case xmlSecEncCtxDecryptToBuffer env ctx0 node of
        (Inl es, ctx1) \<Rightarrow>
          (Inl (followedBy es
                   (xmlSecError None (Some ''xmlSecEncCtxDecryptToBuffer'')
                      XMLSEC_ERRORS_R_XMLSEC_FAILED XMLSEC_ERRORS_NO_MESSAGE)), ctx1)
      | (Inr buffer, ctx1) \<Rightarrow>
          if ctx_type ctx1 = Some xmlSecTypeEncElement then
            (case xmlSecReplaceNodeBuffer env ctx1 node
                    (take (xmlSecBufferGetSize buffer)
                       (case xmlSecBufferGetData buffer of None \<Rightarrow> [] | Some d \<Rightarrow> d)) of
               (None, ctx2) \<Rightarrow>
                 (Inl [xmlSecError None (Some ''xmlSecReplaceNodeBuffer'')
                         XMLSEC_ERRORS_R_XMLSEC_FAILED
                         (Msg ''node=%s''
                            [ArgS (xmlSecErrorsSafeString (Some (node_name node)))])], ctx2)
             | (Some u, ctx2) \<Rightarrow> (Inr (), ctx2\<lparr>replaced := True\<rparr>))
          else if ctx_type ctx1 = Some xmlSecTypeEncContent then
            (case xmlSecReplaceNodeBuffer env ctx1 node
                    (take (xmlSecBufferGetSize buffer)
                       (case xmlSecBufferGetData buffer of None \<Rightarrow> [] | Some d \<Rightarrow> d)) of
               (None, ctx2) \<Rightarrow>
                 (Inl [xmlSecError None (Some ''xmlSecReplaceNodeBuffer'')
                         XMLSEC_ERRORS_R_XMLSEC_FAILED
                         (Msg ''node=%s''
                            [ArgS (xmlSecErrorsSafeString (Some (node_name node)))])], ctx2)
             | (Some u, ctx2) \<Rightarrow> (Inr (), ctx2\<lparr>replaced := True\<rparr>))
          else (Inr (), ctx1))"

section \<open>Runs, operations and properties of templates\<close>

text \<open>
  A run of the XSLT stage as the default \<open>pushBin\<close> of the specification (4.2) drives
  it: each chunk is appended to \<open>inBuf\<close> and \<open>execute(last=0)\<close> is called; the run
  ends with one call of \<open>execute(last=1)\<close>.
\<close>

fun xsltPush ::
  "xslt_env \<Rightarrow> xmlSecTransform \<Rightarrow> string list \<Rightarrow> (xmlSecReport list + unit) \<times> xmlSecTransform" where
  "xsltPush env t [] = (Inr (), t)"
| "xsltPush env t (c # cs) =
     (case xmlSecXsltExecute env (t\<lparr>inBuf := xmlSecBufferAppend (inBuf t) c\<rparr>) 0 of
        (Inl es, t1) \<Rightarrow> (Inl es, t1)
      | (Inr u, t1) \<Rightarrow> xsltPush env t1 cs)"

definition xsltRun ::
  "xslt_env \<Rightarrow> xmlSecTransform \<Rightarrow> string list \<Rightarrow> (xmlSecReport list + unit) \<times> xmlSecTransform" where
  "xsltRun env t chunks =
     (case xsltPush env t chunks of
        (Inl es, t1) \<Rightarrow> (Inl es, t1)
      | (Inr u, t1) \<Rightarrow> xmlSecXsltExecute env t1 1)"

text \<open>The five top-level operations on a template (or ciphertext) node.\<close>

datatype operation =
    OpBinaryEncrypt string
  | OpXmlEncrypt xmlNode
  | OpUriEncrypt string
  | OpDecrypt
  | OpDecryptToBuffer

definition runOperation ::
  "enc_env \<Rightarrow> xmlSecEncCtx \<Rightarrow> operation \<Rightarrow> xmlNode \<Rightarrow>
     (xmlSecReport list + unit) \<times> xmlSecEncCtx" where
  "runOperation env ctx op tmpl =
     (case op of
        OpBinaryEncrypt dat \<Rightarrow> xmlSecEncCtxBinaryEncrypt env ctx tmpl dat
      | OpXmlEncrypt node \<Rightarrow> xmlSecEncCtxXmlEncrypt env ctx tmpl node
      | OpUriEncrypt u \<Rightarrow> xmlSecEncCtxUriEncrypt env ctx tmpl u
      | OpDecrypt \<Rightarrow> xmlSecEncCtxDecrypt env ctx tmpl
      | OpDecryptToBuffer \<Rightarrow>
          (case xmlSecEncCtxDecryptToBuffer env ctx tmpl of
             (Inl es, ctx1) \<Rightarrow> (Inl es, ctx1)
           | (Inr buffer, ctx1) \<Rightarrow> (Inr (), ctx1)))"

text \<open>
  The context with which an operation calls \<open>xmlSecEncCtxEncDataNodeRead\<close>; \<open>None\<close>
  when the operation returns before the call.
\<close>

definition readContext ::
  "enc_env \<Rightarrow> xmlSecEncCtx \<Rightarrow> operation \<Rightarrow> xmlNode \<Rightarrow> xmlSecEncCtx option" where
  "readContext env ctx op tmpl =
     (if encResult ctx \<noteq> None then None
      else
        (case op of
           OpBinaryEncrypt dat \<Rightarrow> Some (emit (E_AddIDs tmpl) (ctx\<lparr>encrypt := True\<rparr>))
         | OpXmlEncrypt node \<Rightarrow> Some (emit (E_AddIDs tmpl) (ctx\<lparr>encrypt := True\<rparr>))
         | OpUriEncrypt u \<Rightarrow>
             (case xmlSecTransformCtxSetUri env (emit (E_AddIDs tmpl) (ctx\<lparr>encrypt := True\<rparr>))
                     u tmpl of
                (None, ctx1) \<Rightarrow> None
              | (Some u1, ctx1) \<Rightarrow> Some ctx1)
         | OpDecrypt \<Rightarrow> Some (emit (E_AddIDs tmpl) (ctx\<lparr>encrypt := False\<rparr>))
         | OpDecryptToBuffer \<Rightarrow> Some (emit (E_AddIDs tmpl) (ctx\<lparr>encrypt := False\<rparr>))))"

text \<open>The calls that execute the transform chain (push bytes into it, or drive it).\<close>

fun isExecution :: "effect \<Rightarrow> bool" where
  "isExecution (E_BinaryExecute ch dat) = True"
| "isExecution (E_Execute ch u) = True"
| "isExecution (E_NodeDumpOutput ch n) = True"
| "isExecution (E_OutputBufferClose ch) = True"
| "isExecution e = False"

text \<open>
  A call that splices the host document and succeeded: \<open>xmlSecReplaceNode\<close>,
  \<open>xmlSecReplaceContent\<close> or \<open>xmlSecReplaceNodeBuffer\<close>.
\<close>

fun isSplice :: "enc_env \<Rightarrow> effect \<Rightarrow> bool" where
  "isSplice env (E_ReplaceNode n m) = replaceNode_ok env n m"
| "isSplice env (E_ReplaceContent n m) = replaceContent_ok env n m"
| "isSplice env (E_ReplaceNodeBuffer n b) = replaceNodeBuffer_ok env n b"
| "isSplice env e = False"

text \<open>Any call that replaces nodes of a document, successful or not.\<close>

fun isReplacement :: "effect \<Rightarrow> bool" where
  "isReplacement (E_ReplaceNode n m) = True"
| "isReplacement (E_ReplaceContent n m) = True"
| "isReplacement (E_ReplaceNodeBuffer n b) = True"
| "isReplacement e = False"

fun isSetContent :: "effect \<Rightarrow> bool" where
  "isSetContent (E_NodeSetContentLen n d) = True"
| "isSetContent e = False"

text \<open>
  The assertions at the entry of \<open>xmlSecEncCtxEncDataNodeRead\<close> and its callee: the
  fields the template is read into are still \<open>NULL\<close>.
\<close>

definition entryAssertions :: "xmlSecEncCtx \<Rightarrow> bool" where
  "entryAssertions ctx =
     (ctx_id ctx = None \<and> ctx_type ctx = None \<and> mimeType ctx = None \<and> encoding ctx = None \<and>
      recipient ctx = None \<and> carriedKeyName ctx = None \<and> encMethodNode ctx = None \<and>
      keyInfoNode ctx = None \<and> cipherValueNode ctx = None)"

text \<open>
  The element children of a template, read as the specification states the order
  (4.6.1): after an optional \<open>EncryptionMethod\<close> and an optional \<open>KeyInfo\<close>, the
  next element child must be \<open>CipherData\<close>.
\<close>

definition elementChildren :: "xmlNode \<Rightarrow> xmlNode list" where
  "elementChildren node = filter (\<lambda>n. node_type n = XML_ELEMENT_NODE) (node_children node)"

definition skipOptional :: "string \<Rightarrow> string \<Rightarrow> xmlNode list \<Rightarrow> xmlNode list" where
  "skipOptional name ns es =
     (case es of [] \<Rightarrow> [] | n # rest \<Rightarrow> if xmlSecCheckNodeName n name ns then rest else es)"

definition afterKeyInfo :: "xmlNode \<Rightarrow> xmlNode list" where
  "afterKeyInfo node =
     skipOptional xmlSecNodeKeyInfo xmlSecDSigNs
       (skipOptional xmlSecNodeEncryptionMethod xmlSecEncNs (elementChildren node))"

definition lacksCipherData :: "xmlNode \<Rightarrow> bool" where
  "lacksCipherData node =
     (case afterKeyInfo node of
        [] \<Rightarrow> True
      | n # rest \<Rightarrow> \<not> xmlSecCheckNodeName n xmlSecNodeCipherData xmlSecEncNs)"

text \<open>
  The \<open>CipherData\<close> child of a template, if it stands in its place; the first element
  child of a node; and what the first element child of \<open>CipherData\<close> says about the
  ciphertext: the \<open>CipherValue\<close> node, or the \<open>URI\<close> attribute of a
  \<open>CipherReference\<close>.
\<close>

definition cipherDataOf :: "xmlNode \<Rightarrow> xmlNode option" where
  "cipherDataOf node =
     (case afterKeyInfo node of
        [] \<Rightarrow> None
      | cd # rest \<Rightarrow>
          if xmlSecCheckNodeName cd xmlSecNodeCipherData xmlSecEncNs then Some cd else None)"

definition firstElement :: "xmlNode \<Rightarrow> xmlNode option" where
  "firstElement node = (case elementChildren node of [] \<Rightarrow> None | x # others \<Rightarrow> Some x)"

definition valueChoice :: "xmlNode \<Rightarrow> xmlNode option" where
  "valueChoice cd =
     (case firstElement cd of
        None \<Rightarrow> None
      | Some x \<Rightarrow>
          if xmlSecCheckNodeName x xmlSecNodeCipherValue xmlSecEncNs then Some x else None)"

definition referenceChoice :: "xmlNode \<Rightarrow> string option" where
  "referenceChoice cd =
     (case firstElement cd of
        None \<Rightarrow> None
      | Some x \<Rightarrow>
          if xmlSecCheckNodeName x xmlSecNodeCipherReference xmlSecEncNs
          then xmlGetProp x xmlSecAttrURI else None)"

definition cipherValueOf :: "xmlNode \<Rightarrow> xmlNode option" where
  "cipherValueOf node = (case cipherDataOf node of None \<Rightarrow> None | Some cd \<Rightarrow> valueChoice cd)"

definition cipherReferenceUri :: "xmlNode \<Rightarrow> string option" where
  "cipherReferenceUri node =
     (case cipherDataOf node of None \<Rightarrow> None | Some cd \<Rightarrow> referenceChoice cd)"

text \<open>
  The URI of the input source after a template was read: what a \<open>CipherReference\<close>
  with a \<open>URI\<close> sets when decrypting, and else what it was before.
\<close>

definition sourceAfter :: "bool \<Rightarrow> string option \<Rightarrow> string option \<Rightarrow> string option" where
  "sourceAfter encrypting reference before =
     (if encrypting then before
      else (case reference of None \<Rightarrow> before | Some u \<Rightarrow> Some u))"

text \<open>The transform chain and the store of transform instances.\<close>

definition machinery :: "xmlSecEncCtx \<Rightarrow> xmlSecTransformCtx \<times> xmlSecTransform list" where
  "machinery c = (encTransformCtx c, heap c)"

text \<open>
  The key step consults the keys manager: no key is preset and the template has a
  \<open>KeyInfo\<close> node.
\<close>

definition consultsKeysMngr :: "xmlSecEncCtx \<Rightarrow> bool" where
  "consultsKeysMngr ctx = (encKey ctx = None \<and> keyInfoNode ctx \<noteq> None)"

text \<open>
  The key that the key step works with, given the keys manager of the reading context:
  the preset key, or else what the \<open>getKey\<close> hook of the manager returns for the
  \<open>KeyInfo\<close> node (nothing, when the node or the hook is missing).
\<close>

definition resolvedKey ::
  "xmlSecEncCtx \<Rightarrow> xmlSecKeysMngr \<Rightarrow> xmlSecKeyReq \<Rightarrow> xmlSecKey option" where
  "resolvedKey ctx mngr req =
     (case encKey ctx of
        Some k \<Rightarrow> Some k
      | None \<Rightarrow>
          (case keyInfoNode ctx of
             None \<Rightarrow> None
           | Some knode \<Rightarrow>
               (case getKey mngr of
                  None \<Rightarrow> None
                | Some hook \<Rightarrow> hook knode req)))"

text \<open>
  The template is read up to the key step (children, encryption method and key
  requirements succeed), and there the key is missing or does not match the requirements:
  the key is the preset one when the key step does not consult the keys manager, and it
  is resolved with the manager of the reading context when it does. A context that has no
  keys manager where the key step consults it is not among these.
\<close>

definition keyStepFails :: "enc_env \<Rightarrow> xmlSecEncCtx \<Rightarrow> xmlNode \<Rightarrow> bool" where
  "keyStepFails env ctx node =
     (case encDataNodeRead_children env ctx node of
        (Inl es, ctx1) \<Rightarrow> False
      | (Inr u, ctx1) \<Rightarrow>
          (case encDataNodeRead_method env ctx1 of
             (Inl es, ctx2) \<Rightarrow> False
           | (Inr p, ctx2) \<Rightarrow>
               (case xmlSecTransformSetKeyReq env ctx2 p of
                  None \<Rightarrow> False
                | Some req \<Rightarrow>
                    (case keysMngr (keyInfoReadCtx ctx2) of
                       None \<Rightarrow>
                         \<not> consultsKeysMngr ctx2 \<and>
                         (case encKey ctx2 of
                            None \<Rightarrow> True
                          | Some k \<Rightarrow> \<not> keyMatch env k req)
                     | Some mngr \<Rightarrow>
                         (case resolvedKey ctx2 mngr req of
                            None \<Rightarrow> True
                          | Some k \<Rightarrow> \<not> keyMatch env k req)))))"

text \<open>
  What of a context is visible from outside while a template is read: the calls made, the
  \<open>replaced\<close> flag, the result, and the mode and direction the caller has set.
\<close>

definition outside ::
  "xmlSecEncCtx \<Rightarrow> effect list \<times> bool \<times> xmlSecBuffer option \<times> bool \<times> xmlEncCtxMode" where
  "outside c = (effects c, replaced c, encResult c, encrypt c, mode c)"

text \<open>
  What the walk over the children has found out and the later parts of the reader rely
  on: the \<open>Type\<close> attribute, the \<open>CipherValue\<close> node and the URI of the input.
\<close>

definition inner :: "xmlSecEncCtx \<Rightarrow> string option \<times> xmlNode option \<times> string option" where
  "inner c = (ctx_type c, cipherValueNode c, tctx_uri (encTransformCtx c))"

text \<open>The operations that decrypt; the other three encrypt.\<close>

definition decrypts :: "operation \<Rightarrow> bool" where
  "decrypts op = (case op of OpDecrypt \<Rightarrow> True | OpDecryptToBuffer \<Rightarrow> True | other \<Rightarrow> False)"

text \<open>
  A later context \<open>c'\<close> shows no splice beyond those of \<open>c\<close>: the successful splices
  are the same, and \<open>replaced\<close> is true in \<open>c'\<close> exactly if it was true in \<open>c\<close> or
  the content of a \<open>CipherValue\<close> node was set in between.
\<close>

definition unspliced :: "enc_env \<Rightarrow> xmlSecEncCtx \<Rightarrow> xmlSecEncCtx \<Rightarrow> bool" where
  "unspliced env c c' =
     (filter (isSplice env) (effects c') = filter (isSplice env) (effects c) \<and>
      length (filter isSetContent (effects c)) \<le> length (filter isSetContent (effects c')) \<and>
      replaced c' =
        (replaced c \<or>
         length (filter isSetContent (effects c)) < length (filter isSetContent (effects c'))))"

fun isDestroy :: "effect \<Rightarrow> bool" where
  "isDestroy (E_TransformDestroy p) = True"
| "isDestroy e = False"

section \<open>Example inputs\<close>

definition example_sheet_node :: xmlNode where
  "example_sheet_node =
     xmlNode XML_ELEMENT_NODE ''stylesheet'' (Some ''http://www.w3.org/1999/XSL/Transform'')
       [(''version'', ''1.0'')] [] []"

definition example_a_node :: xmlNode where
  "example_a_node = xmlNode XML_ELEMENT_NODE ''a'' None [] [] []"

definition example_xslt_env :: xslt_env where
  "example_xslt_env =
     \<lparr>xmlBufferCreate_ok = True,
      xmlNodeDump = (\<lambda>n. ''<'' @ node_name n @ ''/>''),
      xmlSecParseMemory =
        (\<lambda>s. if s = ''<a/>'' then Some (xmlDoc [example_a_node])
             else if s = ''<stylesheet/>'' then Some (xmlDoc [example_sheet_node])
             else None),
      xsltParseStylesheetDoc =
        (\<lambda>d. if d = xmlDoc [example_sheet_node] then Some (xsltStylesheet d) else None),
      xsltApplyStylesheet = (\<lambda>sheet d. Some d),
      xmlAllocOutputBuffer_ok = True,
      xsltSaveResultTo = (\<lambda>d sheet. Some ''<a/>''),
      xmlSecBufferSetData_ok = True\<rparr>"

text \<open>An XSLT transform whose stylesheet has been read.\<close>

definition example_xslt_transform :: xmlSecTransform where
  "example_xslt_transform =
     (xmlSecTransformCreate xmlSecTransformXsltId)
       \<lparr>xslt := Some (xsltStylesheet (xmlDoc [example_sheet_node]))\<rparr>"

definition encElement :: "string \<Rightarrow> (string \<times> string) list \<Rightarrow> xmlNode list \<Rightarrow> xmlNode" where
  "encElement name attrs kids = xmlNode XML_ELEMENT_NODE name (Some xmlSecEncNs) attrs kids []"

definition example_blank :: xmlNode where
  "example_blank = xmlNode XML_TEXT_NODE ''text'' None [] [] '' ''"

definition example_method :: xmlNode where
  "example_method =
     encElement ''EncryptionMethod''
       [(''Algorithm'', ''http://www.w3.org/2001/04/xmlenc#aes128-cbc'')] []"

definition example_keyInfo :: xmlNode where
  "example_keyInfo = xmlNode XML_ELEMENT_NODE ''KeyInfo'' (Some xmlSecDSigNs) [] [] []"

definition example_cipherValue :: xmlNode where
  "example_cipherValue =
     xmlNode XML_ELEMENT_NODE ''CipherValue'' (Some xmlSecEncNs) [] [] ''QUJD''"

text \<open>Templates: with a \<open>CipherValue\<close>, with a \<open>KeyInfo\<close> as well, with a
  \<open>CipherReference\<close> (with and without \<open>URI\<close>), and without \<open>CipherData\<close>.\<close>

definition example_tmpl_value :: xmlNode where
  "example_tmpl_value =
     encElement ''EncryptedData'' [(''Type'', xmlSecTypeEncElement)]
       [example_blank, example_method, example_blank,
        encElement ''CipherData'' [] [example_blank, example_cipherValue]]"

definition example_tmpl_keyInfo :: xmlNode where
  "example_tmpl_keyInfo =
     encElement ''EncryptedData'' [(''Type'', xmlSecTypeEncElement)]
       [example_method, example_keyInfo, encElement ''CipherData'' [] [example_cipherValue]]"

definition example_tmpl_reference :: xmlNode where
  "example_tmpl_reference =
     encElement ''EncryptedData'' []
       [example_method,
        encElement ''CipherData'' []
          [encElement ''CipherReference'' [(''URI'', ''http://example.org/cipher.bin'')] []]]"

definition example_tmpl_reference_nouri :: xmlNode where
  "example_tmpl_reference_nouri =
     encElement ''EncryptedData'' []
       [example_method, encElement ''CipherData'' [] [encElement ''CipherReference'' [] []]]"

definition example_tmpl_nodata :: xmlNode where
  "example_tmpl_nodata =
     encElement ''EncryptedData'' [] [example_method, example_keyInfo]"

definition example_secret :: xmlNode where
  "example_secret = xmlNode XML_ELEMENT_NODE ''secret'' None [] [] ''42''"

definition example_aes :: xmlSecTransform where
  "example_aes = xmlSecTransformCreate (xmlSecTransformKlass ''aes128-cbc'')"

definition example_key :: xmlSecKey where
  "example_key = xmlSecKey ''aes'' 128"

text \<open>
  An environment in which every call succeeds: the registry knows AES-128-CBC, which
  requires a 128-bit key named \<open>aes\<close>; the chain yields \<open>QUJD\<close>.
\<close>

definition example_enc_env :: enc_env where
  "example_enc_env =
     \<lparr>xmlMalloc_ok = True,
      sizeof_xmlSecEncCtx = 512,
      keyInfoCtxInitialize_ok = (\<lambda>m. True),
      transformCtxInitialize_ok = True,
      transformNodeRead =
        (\<lambda>n usage. if xmlGetProp n ''Algorithm''
                        = Some ''http://www.w3.org/2001/04/xmlenc#aes128-cbc''
                     then Some example_aes else None),
      transformNodesListRead = (\<lambda>n usage. Some []),
      transformCreate_ok = (\<lambda>klass. True),
      transformCtxAppend_ok = (\<lambda>t. True),
      transformCtxSetUri =
        (\<lambda>u hint. Some (xmlSecTransformCreate (xmlSecTransformKlass ''input-uri''))),
      transformSetKeyReq = (\<lambda>t. Some (xmlSecKeyReq ''aes'' xmlSecKeyDataTypeUnknown 128)),
      keyMatch = (\<lambda>k req. key_name k = keyId req \<and> key_bits k = keyBitsSize req),
      transformSetKey_ok = (\<lambda>t k. True),
      transformCtxPrepare_ok = (\<lambda>ts. True),
      createOutputBuffer_ok = True,
      nodeDump = (\<lambda>n. ''<'' @ node_name n @ ''/>''),
      chainRun = (\<lambda>ts input. ExecOk (Some (Some ''QUJD''))),
      xmlNodeGetContent = (\<lambda>n. Some (node_content n)),
      keyInfoNodeWrite_ok = (\<lambda>n k. True),
      replaceNode_ok = (\<lambda>n m. True),
      replaceContent_ok = (\<lambda>n m. True),
      replaceNodeBuffer_ok = (\<lambda>n b. True)\<rparr>"

text \<open>
  A context as \<open>xmlSecEncCtxInitialize\<close> leaves it, with a keys manager without hook,
  and the same context with a key preset by the caller.
\<close>

definition example_ctx :: xmlSecEncCtx where
  "example_ctx = snd (xmlSecEncCtxInitialize example_enc_env (zeroCtx [] [])
            (Some hooklessKeysMngr))"

definition example_ctx_key :: xmlSecEncCtx where
  "example_ctx_key = example_ctx\<lparr>encKey := Some example_key\<rparr>"

definition example_finished_transform :: xmlSecTransform where
  "example_finished_transform =
     example_xslt_transform\<lparr>status := xmlSecTransformStatusFinished, inBuf := Some ''<b/>''\<rparr>"

definition example_transform_node :: "xmlNode list \<Rightarrow> xmlNode" where
  "example_transform_node kids =
     xmlNode XML_ELEMENT_NODE ''Transform'' (Some xmlSecDSigNs) [] kids []"

text \<open>A context whose keys manager has a \<open>getKey\<close> hook that finds no key.\<close>

definition example_ctx_nokey :: xmlSecEncCtx where
  "example_ctx_nokey =
     snd (xmlSecEncCtxInitialize example_enc_env (zeroCtx [] [])
            (Some \<lparr>getKey = Some (\<lambda>knode req. None)\<rparr>))"

text \<open>A context initialized without keys manager (\<open>NULL\<close>), and without preset key.\<close>

definition example_ctx_nomngr :: xmlSecEncCtx where
  "example_ctx_nomngr = snd (xmlSecEncCtxInitialize example_enc_env (zeroCtx [] []) None)"

text \<open>An environment in which writing the \<open>KeyInfo\<close> node fails.\<close>

definition example_env_keyInfo_fails :: enc_env where
  "example_env_keyInfo_fails = example_enc_env\<lparr>keyInfoNodeWrite_ok := (\<lambda>n k. False)\<rparr>"

text \<open>
  A context for which the caller has created the cipher (at pointer 0) and preset it
  together with the key.
\<close>

definition example_ctx_preset :: xmlSecEncCtx where
  "example_ctx_preset =
     (snd (xmlSecEncCtxInitialize example_enc_env (zeroCtx [example_aes] [])
             (Some hooklessKeysMngr)))
       \<lparr>encMethod := Some 0, encKey := Some example_key\<rparr>"


section \<open>The XSLT stage\<close>

lemma xsltPush_ok:
  "transform_id t = xmlSecTransformXsltId \<Longrightarrow> xslt t = Some sheet \<Longrightarrow>
   xmlSecBufferGetSize (outBuf t) = 0 \<Longrightarrow>
   status t = xmlSecTransformStatusNone \<or> status t = xmlSecTransformStatusWorking \<Longrightarrow>
   xsltPush env t chunks =
     (Inr (), t\<lparr>status := (if chunks = [] then status t else xmlSecTransformStatusWorking),
               inBuf := foldl xmlSecBufferAppend (inBuf t) chunks\<rparr>)"
proof (induction chunks arbitrary: t)
  case Nil
  then show ?case by simp
next
  case (Cons c cs)
  let ?t1 = "t\<lparr>inBuf := xmlSecBufferAppend (inBuf t) c,
               status := xmlSecTransformStatusWorking\<rparr>"
  have step: "xmlSecXsltExecute env (t\<lparr>inBuf := xmlSecBufferAppend (inBuf t) c\<rparr>) 0
                = (Inr (), ?t1)"
    using Cons.prems by (auto simp: xmlSecXsltExecute_def Let_def)
  have "xsltPush env ?t1 cs =
     (Inr (), ?t1\<lparr>status := (if cs = [] then status ?t1 else xmlSecTransformStatusWorking),
               inBuf := foldl xmlSecBufferAppend (inBuf ?t1) cs\<rparr>)"
    by (rule Cons.IH) (use Cons.prems in simp_all)
  then show ?case using step by simp
qed

lemma xslProcess_fails:
  "\<not> (\<exists>docIn docOut bytes.
        xmlSecParseMemory env (case inb of None \<Rightarrow> [] | Some d \<Rightarrow> d) = Some docIn \<and>
        xsltApplyStylesheet env sheet docIn = Some docOut \<and>
        xmlAllocOutputBuffer_ok env \<and>
        xsltSaveResultTo env docOut sheet = Some bytes \<and>
        xmlSecBufferSetData_ok env) \<Longrightarrow>
   failed (fst (xmlSecXslProcess env inb out sheet)) \<and>
   snd (xmlSecXslProcess env inb out sheet) = out"
  by (auto simp: xmlSecXslProcess_def xmlSecBufferGetData_def failed_def
      split: option.splits)

text \<open>
  C6 (as amended). Take an XSLT transform in status None whose stylesheet has been read
  and whose \<open>outBuf\<close> is empty. Any number of chunks pushed with \<open>execute(last=0)\<close>
  succeed and leave \<open>outBuf\<close> as it was. If the buffered input parses, the stylesheet
  applies to it and the result is serialized and stored (the five library calls of
  \<open>xmlSecXslProcess\<close> succeed), then the final \<open>execute(last=1)\<close> succeeds and leaves
  the transform in status Finished, with \<open>inBuf\<close> of size 0 and \<open>outBuf\<close> holding the
  serialized result. Otherwise the final \<open>execute(last=1)\<close> fails, and leaves the
  transform in status Working, with the buffered input in \<open>inBuf\<close> and \<open>outBuf\<close> as it
  was.
\<close>

theorem xslt_run_finishes:
  assumes "transform_id t = xmlSecTransformXsltId"
    and "status t = xmlSecTransformStatusNone"
    and "xslt t = Some sheet"
    and "xmlSecBufferGetSize (outBuf t) = 0"
  shows "fst (xsltPush env t chunks) = Inr () \<and>
         outBuf (snd (xsltPush env t chunks)) = outBuf t \<and>
         (xmlSecParseMemory env
            (case foldl xmlSecBufferAppend (inBuf t) chunks of None \<Rightarrow> [] | Some d \<Rightarrow> d)
            = Some docIn \<and>
          xsltApplyStylesheet env sheet docIn = Some docOut \<and>
          xmlAllocOutputBuffer_ok env \<and>
          xsltSaveResultTo env docOut sheet = Some bytes \<and>
          xmlSecBufferSetData_ok env \<longrightarrow>
            fst (xsltRun env t chunks) = Inr () \<and>
            status (snd (xsltRun env t chunks)) = xmlSecTransformStatusFinished \<and>
            xmlSecBufferGetSize (inBuf (snd (xsltRun env t chunks))) = 0 \<and>
            outBuf (snd (xsltRun env t chunks)) = Some bytes) \<and>
         (\<not> (\<exists>dIn dOut b.
                xmlSecParseMemory env
                  (case foldl xmlSecBufferAppend (inBuf t) chunks of None \<Rightarrow> [] | Some d \<Rightarrow> d)
                  = Some dIn \<and>
                xsltApplyStylesheet env sheet dIn = Some dOut \<and>
                xmlAllocOutputBuffer_ok env \<and>
                xsltSaveResultTo env dOut sheet = Some b \<and>
                xmlSecBufferSetData_ok env) \<longrightarrow>
            failed (fst (xsltRun env t chunks)) \<and>
            status (snd (xsltRun env t chunks)) = xmlSecTransformStatusWorking \<and>
            inBuf (snd (xsltRun env t chunks)) = foldl xmlSecBufferAppend (inBuf t) chunks \<and>
            outBuf (snd (xsltRun env t chunks)) = outBuf t)"
proof -
  let ?t1 = "t\<lparr>status := (if chunks = [] then status t else xmlSecTransformStatusWorking),
               inBuf := foldl xmlSecBufferAppend (inBuf t) chunks\<rparr>"
  let ?w = "?t1\<lparr>status := xmlSecTransformStatusWorking\<rparr>"
  have push: "xsltPush env t chunks = (Inr (), ?t1)"
    using assms(1-4) by (intro xsltPush_ok) simp_all
  have run: "xsltRun env t chunks = xmlSecXsltExecute env ?t1 1"
    using push by (simp add: xsltRun_def)
  obtain r out where p: "xmlSecXslProcess env (inBuf ?t1) (outBuf t) sheet = (r, out)"
    by force
  have size: "xmlSecBufferGetSize (outBuf ?t1) = 0" "transform_id ?t1 = xmlSecTransformXsltId"
    "xslt ?t1 = Some sheet"
    "status ?t1 = xmlSecTransformStatusNone \<or> status ?t1 = xmlSecTransformStatusWorking"
    using assms(1-4) by simp_all
  have ok: "xmlSecXsltExecute env ?t1 1 =
       (Inr (),
        ?w\<lparr>outBuf := out,
           inBuf := (case inBuf ?t1 of None \<Rightarrow> None | Some d \<Rightarrow> Some (drop (length d) d)),
           status := xmlSecTransformStatusFinished\<rparr>)" if "r = Inr ()"
    using size p that assms(2)
    by (cases "chunks = []")
      (simp_all add: xmlSecXsltExecute_def Let_def xmlSecBufferRemoveHead_def
        xmlSecBufferGetSize_def split: option.splits)
  have ko: "failed (fst (xmlSecXsltExecute env ?t1 1)) \<and>
      snd (xmlSecXsltExecute env ?t1 1) = ?w\<lparr>outBuf := out\<rparr>" if "r = Inl es" for es
    using size p that assms(2)
    by (cases "chunks = []")
      (simp_all add: xmlSecXsltExecute_def Let_def failed_def)
  have good: "fst (xsltRun env t chunks) = Inr () \<and>
            status (snd (xsltRun env t chunks)) = xmlSecTransformStatusFinished \<and>
            xmlSecBufferGetSize (inBuf (snd (xsltRun env t chunks))) = 0 \<and>
            outBuf (snd (xsltRun env t chunks)) = Some bytes"
    if "xmlSecParseMemory env
            (case foldl xmlSecBufferAppend (inBuf t) chunks of None \<Rightarrow> [] | Some d \<Rightarrow> d)
            = Some docIn"
      "xsltApplyStylesheet env sheet docIn = Some docOut"
      "xmlAllocOutputBuffer_ok env"
      "xsltSaveResultTo env docOut sheet = Some bytes"
      "xmlSecBufferSetData_ok env"
  proof -
    have "xmlSecXslProcess env (inBuf ?t1) (outBuf t) sheet = (Inr (), Some bytes)"
      using that by (simp add: xmlSecXslProcess_def xmlSecBufferGetData_def)
    with p have "r = Inr ()" "out = Some bytes" by simp_all
    then show ?thesis
      using run ok by (simp add: xmlSecBufferGetSize_def split: option.splits)
  qed
  have bad: "failed (fst (xsltRun env t chunks)) \<and>
            status (snd (xsltRun env t chunks)) = xmlSecTransformStatusWorking \<and>
            inBuf (snd (xsltRun env t chunks)) = foldl xmlSecBufferAppend (inBuf t) chunks \<and>
            outBuf (snd (xsltRun env t chunks)) = outBuf t"
    if "\<not> (\<exists>dIn dOut b.
                xmlSecParseMemory env
                  (case foldl xmlSecBufferAppend (inBuf t) chunks of None \<Rightarrow> [] | Some d \<Rightarrow> d)
                  = Some dIn \<and>
                xsltApplyStylesheet env sheet dIn = Some dOut \<and>
                xmlAllocOutputBuffer_ok env \<and>
                xsltSaveResultTo env dOut sheet = Some b \<and>
                xmlSecBufferSetData_ok env)"
  proof -
    have "failed (fst (xmlSecXslProcess env (inBuf ?t1) (outBuf t) sheet)) \<and>
        snd (xmlSecXslProcess env (inBuf ?t1) (outBuf t) sheet) = outBuf t"
      using that by (intro xslProcess_fails) simp
    with p obtain es where "r = Inl es" "out = outBuf t"
      by (cases r) (simp_all add: failed_def)
    then show ?thesis
      using run ko [of es] by simp
  qed
  show ?thesis
    using push good bad by simp
qed

theorem xslt_run_finishes_witness:
  "fst (xsltRun example_xslt_env example_xslt_transform [''<a'', ''/>'']) = Inr () \<and>
   status (snd (xsltRun example_xslt_env example_xslt_transform [''<a'', ''/>'']))
     = xmlSecTransformStatusFinished \<and>
   xmlSecBufferGetSize (inBuf (snd (xsltRun example_xslt_env example_xslt_transform
     [''<a'', ''/>'']))) = 0 \<and>
   outBuf (snd (xsltRun example_xslt_env example_xslt_transform [''<a'', ''/>'']))
     = Some ''<a/>'' \<and>
   failed (fst (xsltRun example_xslt_env example_xslt_transform [''<a'', ''>''])) \<and>
   status (snd (xsltRun example_xslt_env example_xslt_transform [''<a'', ''>'']))
     = xmlSecTransformStatusWorking \<and>
   inBuf (snd (xsltRun example_xslt_env example_xslt_transform [''<a'', ''>'']))
     = Some ''<a>'' \<and>
   outBuf (snd (xsltRun example_xslt_env example_xslt_transform [''<a'', ''>''])) = None"
  using xslt_run_finishes [of example_xslt_transform
      "xsltStylesheet (xmlDoc [example_sheet_node])" example_xslt_env "[''<a'', ''/>'']"
      "xmlDoc [example_a_node]" "xmlDoc [example_a_node]" "''<a/>''"]
    xslt_run_finishes [of example_xslt_transform
      "xsltStylesheet (xmlDoc [example_sheet_node])" example_xslt_env "[''<a'', ''>'']"]
  by (simp add: example_xslt_transform_def example_xslt_env_def xmlSecTransformCreate_def
      xmlSecBufferAppend_def xmlSecBufferGetSize_def)

text \<open>
  C6 as stated fails: with the stylesheet read, a run whose buffered input \<open><a>\<close> does
  not parse ends in failure, in status Working, with the input still in \<open>inBuf\<close>.
\<close>

theorem xslt_run_counterexample:
  "failed (fst (xsltRun example_xslt_env example_xslt_transform [''<a'', ''>''])) \<and>
   status (snd (xsltRun example_xslt_env example_xslt_transform [''<a'', ''>'']))
     = xmlSecTransformStatusWorking \<and>
   inBuf (snd (xsltRun example_xslt_env example_xslt_transform [''<a'', ''>''])) = Some ''<a>''"
  by (simp add: xsltRun_def xmlSecXsltExecute_def xmlSecXslProcess_def Let_def failed_def
      example_xslt_transform_def example_xslt_env_def xmlSecTransformCreate_def
      xmlSecBufferAppend_def xmlSecBufferGetSize_def xmlSecBufferGetData_def)

lemma xslProcess_no_invalid_status:
  "\<not> reported XMLSEC_ERRORS_R_INVALID_STATUS (fst (xmlSecXslProcess env inb out sheet))"
  by (simp add: xmlSecXslProcess_def reported_def split: option.splits)

lemma xslProcess_reports:
  "xmlSecXslProcess env inb out sheet = (Inl es, out1) \<Longrightarrow>
   \<not> list_ex (reportsReason XMLSEC_ERRORS_R_INVALID_STATUS) es"
  using xslProcess_no_invalid_status [of env inb out sheet] by (simp add: reported_def)

text \<open>
  C7 (as amended). On an XSLT transform whose stylesheet has been read: \<open>execute\<close> on a
  Finished transform with non-empty \<open>inBuf\<close> fails through the assertion
  \<open>inSize == 0\<close> and leaves the transform as it is; \<open>execute\<close> on a transform in
  status Fail reports \<open>INVALID_STATUS\<close>; and \<open>INVALID_STATUS\<close> is reported in no
  other status.
\<close>

theorem xslt_execute_finished_nonempty:
  assumes "transform_id t = xmlSecTransformXsltId"
    and "xslt t = Some sheet"
  shows "(status t = xmlSecTransformStatusFinished \<and> xmlSecBufferGetSize (inBuf t) \<noteq> 0 \<longrightarrow>
            xmlSecXsltExecute env t lastArg = (Inl [xmlSecAssertFailed ''inSize == 0''], t)) \<and>
         (status t = xmlSecTransformStatusFail \<longrightarrow>
            xmlSecXsltExecute env t lastArg =
              (Inl [xmlSecError (Some xmlSecNameXslt) None XMLSEC_ERRORS_R_INVALID_STATUS
                      (Msg ''status=%d'' [ArgStatus xmlSecTransformStatusFail])], t)) \<and>
         (reported XMLSEC_ERRORS_R_INVALID_STATUS (fst (xmlSecXsltExecute env t lastArg))
            = (status t = xmlSecTransformStatusFail))"
proof (intro conjI impI)
  assume "status t = xmlSecTransformStatusFinished \<and> xmlSecBufferGetSize (inBuf t) \<noteq> 0"
  then show "xmlSecXsltExecute env t lastArg = (Inl [xmlSecAssertFailed ''inSize == 0''], t)"
    using assms by (simp add: xmlSecXsltExecute_def Let_def)
next
  assume "status t = xmlSecTransformStatusFail"
  then show "xmlSecXsltExecute env t lastArg =
              (Inl [xmlSecError (Some xmlSecNameXslt) None XMLSEC_ERRORS_R_INVALID_STATUS
                      (Msg ''status=%d'' [ArgStatus xmlSecTransformStatusFail])], t)"
    using assms
    by (simp add: xmlSecXsltExecute_def Let_def xmlSecTransformGetName_def
        xmlSecErrorsSafeString_def)
next
  show "reported XMLSEC_ERRORS_R_INVALID_STATUS (fst (xmlSecXsltExecute env t lastArg))
            = (status t = xmlSecTransformStatusFail)"
  proof (cases "status t")
    case xmlSecTransformStatusNone
    then show ?thesis using assms
      by (auto simp: xmlSecXsltExecute_def Let_def reported_def xmlSecBufferRemoveHead_def
          dest: xslProcess_reports split: prod.splits sum.splits option.splits)
  next
    case xmlSecTransformStatusWorking
    then show ?thesis using assms
      by (auto simp: xmlSecXsltExecute_def Let_def reported_def xmlSecBufferRemoveHead_def
          dest: xslProcess_reports split: prod.splits sum.splits option.splits)
  next
    case xmlSecTransformStatusFinished
    then show ?thesis using assms
      by (simp add: xmlSecXsltExecute_def Let_def reported_def)
  next
    case xmlSecTransformStatusFail
    then show ?thesis using assms
      by (simp add: xmlSecXsltExecute_def Let_def reported_def)
  qed
qed

theorem xslt_execute_finished_nonempty_witness:
  "xmlSecXsltExecute example_xslt_env example_finished_transform 0
     = (Inl [xmlSecAssertFailed ''inSize == 0''], example_finished_transform) \<and>
   reported XMLSEC_ERRORS_R_INVALID_STATUS
     (fst (xmlSecXsltExecute example_xslt_env
        (example_xslt_transform\<lparr>status := xmlSecTransformStatusFail\<rparr>) 0))"
  using xslt_execute_finished_nonempty [of example_finished_transform
      "xsltStylesheet (xmlDoc [example_sheet_node])" example_xslt_env 0]
    xslt_execute_finished_nonempty [of "example_xslt_transform\<lparr>status := xmlSecTransformStatusFail\<rparr>"
      "xsltStylesheet (xmlDoc [example_sheet_node])" example_xslt_env 0]
  by (simp add: example_finished_transform_def example_xslt_transform_def
      xmlSecTransformCreate_def xmlSecBufferGetSize_def reported_def)

text \<open>
  C7 as stated fails: the call on a Finished transform holding \<open><b/>\<close> in \<open>inBuf\<close>
  fails, and no report of it has the reason \<open>INVALID_STATUS\<close>.
\<close>

theorem xslt_execute_finished_counterexample:
  "failed (fst (xmlSecXsltExecute example_xslt_env example_finished_transform 0)) \<and>
   \<not> reported XMLSEC_ERRORS_R_INVALID_STATUS
       (fst (xmlSecXsltExecute example_xslt_env example_finished_transform 0))"
  by (simp add: xmlSecXsltExecute_def Let_def failed_def reported_def
      example_finished_transform_def example_xslt_transform_def xmlSecTransformCreate_def
      xmlSecBufferGetSize_def)

text \<open>
  C8 (as amended). In \<open>readNode\<close> of the XSLT stage, on a transform without stylesheet:
  when the dump buffer cannot be created, the report is \<open>XML_FAILED\<close> with subject
  \<open>xmlBufferCreate\<close>, and \<open>XML_FAILED\<close> is reported in no other case; when parsing
  the serialized children fails, the report is \<open>XMLSEC_FAILED\<close> with subject
  \<open>xmlSecParseMemory\<close>; when compiling the parsed document fails, the report is
  \<open>XSLT_FAILED\<close>. In each case the transform is left without stylesheet.
\<close>

theorem xslt_readNode_failures:
  assumes "transform_id t = xmlSecTransformXsltId"
    and "xslt t = None"
  shows "(\<not> xmlBufferCreate_ok env \<longrightarrow>
            xmlSecXsltReadNode env t node =
              (Inl [xmlSecError (Some xmlSecNameXslt) (Some ''xmlBufferCreate'')
                      XMLSEC_ERRORS_R_XML_FAILED XMLSEC_ERRORS_NO_MESSAGE], t)) \<and>
         (xmlBufferCreate_ok env \<and>
          xmlSecParseMemory env (concat (map (xmlNodeDump env) (node_children node))) = None \<longrightarrow>
            xmlSecXsltReadNode env t node =
              (Inl [xmlSecError (Some xmlSecNameXslt) (Some ''xmlSecParseMemory'')
                      XMLSEC_ERRORS_R_XMLSEC_FAILED XMLSEC_ERRORS_NO_MESSAGE], t)) \<and>
         (xmlBufferCreate_ok env \<and>
          xmlSecParseMemory env (concat (map (xmlNodeDump env) (node_children node))) = Some doc \<and>
          xsltParseStylesheetDoc env doc = None \<longrightarrow>
            xmlSecXsltReadNode env t node =
              (Inl [xmlSecError (Some xmlSecNameXslt) (Some ''xsltParseStylesheetDoc'')
                      XMLSEC_ERRORS_R_XSLT_FAILED XMLSEC_ERRORS_NO_MESSAGE], t)) \<and>
         reported XMLSEC_ERRORS_R_XML_FAILED (fst (xmlSecXsltReadNode env t node))
           = (\<not> xmlBufferCreate_ok env)"
  using assms
  by (simp add: xmlSecXsltReadNode_def Let_def xmlSecTransformGetName_def
      xmlSecErrorsSafeString_def reported_def split: option.splits)

theorem xslt_readNode_failures_witness:
  "xmlSecXsltReadNode (example_xslt_env\<lparr>xmlBufferCreate_ok := False\<rparr>)
       (xmlSecTransformCreate xmlSecTransformXsltId) (example_transform_node [example_a_node])
     = (Inl [xmlSecError (Some xmlSecNameXslt) (Some ''xmlBufferCreate'')
               XMLSEC_ERRORS_R_XML_FAILED XMLSEC_ERRORS_NO_MESSAGE],
        xmlSecTransformCreate xmlSecTransformXsltId) \<and>
   xmlSecXsltReadNode example_xslt_env (xmlSecTransformCreate xmlSecTransformXsltId)
       (example_transform_node [example_blank])
     = (Inl [xmlSecError (Some xmlSecNameXslt) (Some ''xmlSecParseMemory'')
               XMLSEC_ERRORS_R_XMLSEC_FAILED XMLSEC_ERRORS_NO_MESSAGE],
        xmlSecTransformCreate xmlSecTransformXsltId) \<and>
   xmlSecXsltReadNode example_xslt_env (xmlSecTransformCreate xmlSecTransformXsltId)
       (example_transform_node [example_a_node])
     = (Inl [xmlSecError (Some xmlSecNameXslt) (Some ''xsltParseStylesheetDoc'')
               XMLSEC_ERRORS_R_XSLT_FAILED XMLSEC_ERRORS_NO_MESSAGE],
        xmlSecTransformCreate xmlSecTransformXsltId)"
  using xslt_readNode_failures [of "xmlSecTransformCreate xmlSecTransformXsltId"
      "example_xslt_env\<lparr>xmlBufferCreate_ok := False\<rparr>"
      "example_transform_node [example_a_node]" "xmlDoc [example_a_node]"]
    xslt_readNode_failures [of "xmlSecTransformCreate xmlSecTransformXsltId"
      example_xslt_env "example_transform_node [example_blank]" "xmlDoc [example_a_node]"]
    xslt_readNode_failures [of "xmlSecTransformCreate xmlSecTransformXsltId"
      example_xslt_env "example_transform_node [example_a_node]" "xmlDoc [example_a_node]"]
  by (simp add: example_xslt_env_def xmlSecTransformCreate_def example_transform_node_def
      example_blank_def example_a_node_def example_sheet_node_def)

text \<open>
  C8 as stated fails: when the children do not parse, \<open>readNode\<close> fails and no report
  has the reason \<open>XML_FAILED\<close>.
\<close>

theorem xslt_readNode_counterexample:
  "failed (fst (xmlSecXsltReadNode example_xslt_env (xmlSecTransformCreate xmlSecTransformXsltId)
       (example_transform_node [example_blank]))) \<and>
   \<not> reported XMLSEC_ERRORS_R_XML_FAILED
       (fst (xmlSecXsltReadNode example_xslt_env (xmlSecTransformCreate xmlSecTransformXsltId)
          (example_transform_node [example_blank])))"
  by (simp add: xmlSecXsltReadNode_def Let_def failed_def reported_def example_xslt_env_def
      xmlSecTransformCreate_def example_transform_node_def example_blank_def)

section \<open>Reading the children of a template\<close>

lemma GetNext_cases:
  "(xmlSecGetNextElementNode c = [] \<and> filter (\<lambda>n. node_type n = XML_ELEMENT_NODE) c = []) \<or>
   (\<exists>n r. xmlSecGetNextElementNode c = n # r \<and> node_type n = XML_ELEMENT_NODE \<and>
      filter (\<lambda>n. node_type n = XML_ELEMENT_NODE) c
        = n # filter (\<lambda>n. node_type n = XML_ELEMENT_NODE) r)"
  unfolding xmlSecGetNextElementNode_def
  by (induction c) auto

lemma elems_GetNext:
  "filter (\<lambda>n. node_type n = XML_ELEMENT_NODE) (xmlSecGetNextElementNode c)
     = filter (\<lambda>n. node_type n = XML_ELEMENT_NODE) c"
  using GetNext_cases [of c] by auto

lemma elems_tl_GetNext:
  "filter (\<lambda>n. node_type n = XML_ELEMENT_NODE) (tl (xmlSecGetNextElementNode c))
     = tl (filter (\<lambda>n. node_type n = XML_ELEMENT_NODE) c)"
  using GetNext_cases [of c] by auto

lemma curIs_GetNext:
  "curIs (xmlSecGetNextElementNode c) name ns =
     (case filter (\<lambda>n. node_type n = XML_ELEMENT_NODE) c of
        [] \<Rightarrow> False | n # r \<Rightarrow> xmlSecCheckNodeName n name ns)"
  using GetNext_cases [of c] by (auto simp: curIs_def)

lemma getName_GetNext:
  "xmlSecNodeGetName (xmlSecGetNextElementNode c) =
     (case filter (\<lambda>n. node_type n = XML_ELEMENT_NODE) c of
        [] \<Rightarrow> None | n # r \<Rightarrow> Some (node_name n))"
  using GetNext_cases [of c] by (auto simp: xmlSecNodeGetName_def)

lemma hd_GetNext:
  "filter (\<lambda>n. node_type n = XML_ELEMENT_NODE) c = n # r \<Longrightarrow>
   hd (xmlSecGetNextElementNode c) = n"
  using GetNext_cases [of c] by auto

text \<open>Where the walk stands before the check for CipherData.\<close>

lemma optional_cursor:
  assumes "encDataNodeRead_optional ctx node = (Inr cur, ctx1)"
  shows "\<exists>c. cur = xmlSecGetNextElementNode c \<and>
           filter (\<lambda>n. node_type n = XML_ELEMENT_NODE) c = afterKeyInfo node"
proof -
  let ?E = "filter (\<lambda>n. node_type n = XML_ELEMENT_NODE)"
  let ?c0 = "node_children node"
  let ?cur = "xmlSecGetNextElementNode ?c0"
  let ?m = "curIs ?cur xmlSecNodeEncryptionMethod xmlSecEncNs"
  define c3 where "c3 = (if ?m then tl ?cur else ?c0)"
  have cur3: "(if ?m then xmlSecGetNextElementNode (tl ?cur) else ?cur)
                = xmlSecGetNextElementNode c3"
    by (simp add: c3_def)
  have e3: "?E c3 = skipOptional xmlSecNodeEncryptionMethod xmlSecEncNs (elementChildren node)"
    by (auto simp: c3_def curIs_GetNext elems_tl_GetNext skipOptional_def elementChildren_def
        split: list.splits)
  let ?k = "curIs (xmlSecGetNextElementNode c3) xmlSecNodeKeyInfo xmlSecDSigNs"
  define c4 where "c4 = (if ?k then tl (xmlSecGetNextElementNode c3) else c3)"
  have e4: "?E c4 = afterKeyInfo node"
    unfolding afterKeyInfo_def e3 [symmetric]
    by (auto simp: c4_def curIs_GetNext elems_tl_GetNext skipOptional_def split: list.splits)
  have "cur = xmlSecGetNextElementNode c4"
    using assms unfolding encDataNodeRead_optional_def Let_def cur3
    by (auto simp: c4_def split: if_splits)
  with e4 show ?thesis by blast
qed

lemma cipherData_lacks:
  assumes "filter (\<lambda>n. node_type n = XML_ELEMENT_NODE) c = afterKeyInfo node"
    and "lacksCipherData node"
  shows "fst (encDataNodeRead_cipherData env ctx (xmlSecGetNextElementNode c)) =
     Inl [xmlSecError None
            (Some (xmlSecErrorsSafeString
               (case afterKeyInfo node of [] \<Rightarrow> None | n # r \<Rightarrow> Some (node_name n))))
            XMLSEC_ERRORS_R_INVALID_NODE (Msg ''node=%s'' [ArgS xmlSecNodeCipherData])]"
  using assms
  by (auto simp: encDataNodeRead_cipherData_def lacksCipherData_def curIs_GetNext
      getName_GetNext xmlSecErrorsSafeString_def split: list.splits)

lemma attrs_entry:
  "entryAssertions ctx \<Longrightarrow>
   \<exists>ctx2. encDataNodeRead_attrs ctx node = (Inr (), ctx2) \<and> encMethodNode ctx2 = None \<and>
      keyInfoNode ctx2 = None"
  by (simp add: encDataNodeRead_attrs_def entryAssertions_def Let_def)

lemma optional_entry:
  "encMethodNode ctx = None \<Longrightarrow> keyInfoNode ctx = None \<Longrightarrow>
   \<exists>cur ctx1. encDataNodeRead_optional ctx node = (Inr cur, ctx1)"
  by (simp add: encDataNodeRead_optional_def Let_def)

lemma children_lacks:
  assumes "entryAssertions ctx" and "lacksCipherData node"
  shows "fst (encDataNodeRead_children env ctx node) =
     Inl [xmlSecError None
            (Some (xmlSecErrorsSafeString
               (case afterKeyInfo node of [] \<Rightarrow> None | n # r \<Rightarrow> Some (node_name n))))
            XMLSEC_ERRORS_R_INVALID_NODE (Msg ''node=%s'' [ArgS xmlSecNodeCipherData])]"
proof -
  obtain ctx2 where a: "encDataNodeRead_attrs ctx node = (Inr (), ctx2)"
    and n: "encMethodNode ctx2 = None" "keyInfoNode ctx2 = None"
    using attrs_entry [OF assms(1)] by blast
  obtain cur ctx4 where o: "encDataNodeRead_optional ctx2 node = (Inr cur, ctx4)"
    using optional_entry [OF n] by blast
  obtain c where c: "cur = xmlSecGetNextElementNode c"
      "filter (\<lambda>n. node_type n = XML_ELEMENT_NODE) c = afterKeyInfo node"
    using optional_cursor [OF o] by blast
  show ?thesis
    using cipherData_lacks [OF c(2) assms(2), of env ctx4] a o c(1)
    by (auto simp: encDataNodeRead_children_def split: prod.splits sum.splits)
qed

section \<open>What reading a template leaves untouched\<close>

lemma outside_upd [simp]:
  "outside (c\<lparr>ctx_id := a1\<rparr>) = outside c"
  "outside (c\<lparr>ctx_type := a2\<rparr>) = outside c"
  "outside (c\<lparr>mimeType := a3\<rparr>) = outside c"
  "outside (c\<lparr>encoding := a4\<rparr>) = outside c"
  "outside (c\<lparr>recipient := a5\<rparr>) = outside c"
  "outside (c\<lparr>carriedKeyName := a6\<rparr>) = outside c"
  "outside (c\<lparr>encMethodNode := a7\<rparr>) = outside c"
  "outside (c\<lparr>keyInfoNode := a8\<rparr>) = outside c"
  "outside (c\<lparr>cipherValueNode := a9\<rparr>) = outside c"
  "outside (c\<lparr>encMethod := b1\<rparr>) = outside c"
  "outside (c\<lparr>dontDestroyEncMethod := b2\<rparr>) = outside c"
  "outside (c\<lparr>encKey := b3\<rparr>) = outside c"
  "outside (c\<lparr>keyInfoReadCtx := b4\<rparr>) = outside c"
  "outside (c\<lparr>encTransformCtx := b5\<rparr>) = outside c"
  "outside (c\<lparr>resultBase64Encoded := b6\<rparr>) = outside c"
  "outside (c\<lparr>heap := b7\<rparr>) = outside c"
  by (simp_all add: outside_def)

lemma outside_poke [simp]: "outside (poke p f c) = outside c"
  by (simp add: poke_def)

lemma outside_chain [simp]:
  "outside (chainAppend p c) = outside c" "outside (chainPrepend p c) = outside c"
  by (simp_all add: chainAppend_def chainPrepend_def)

lemma outside_SetUri [simp]:
  "outside (snd (xmlSecTransformCtxSetUri env c u hint)) = outside c"
  by (simp add: xmlSecTransformCtxSetUri_def split: option.split)

lemma outside_NodesListRead [simp]:
  "outside (snd (xmlSecTransformCtxNodesListRead env c n usage)) = outside c"
  by (simp add: xmlSecTransformCtxNodesListRead_def split: option.split)

lemma outside_NodeRead [simp]:
  "outside (snd (xmlSecTransformCtxNodeRead env c n usage)) = outside c"
  by (simp add: xmlSecTransformCtxNodeRead_def split: option.split)

lemma outside_Append [simp]:
  "outside (snd (xmlSecTransformCtxAppend env c p)) = outside c"
  by (simp add: xmlSecTransformCtxAppend_def split: option.split)

lemma outside_CreateAndAppend [simp]:
  "outside (snd (xmlSecTransformCtxCreateAndAppend env c klass)) = outside c"
  by (simp add: xmlSecTransformCtxCreateAndAppend_def)

lemma outside_CreateAndPrepend [simp]:
  "outside (snd (xmlSecTransformCtxCreateAndPrepend env c klass)) = outside c"
  by (simp add: xmlSecTransformCtxCreateAndPrepend_def)

lemma outside_SetKey [simp]:
  "outside (snd (xmlSecTransformSetKey env c p k)) = outside c"
  by (simp add: xmlSecTransformSetKey_def split: option.split)


lemma curIs_Nil [simp]: "curIs [] name ns = False"
  by (simp add: curIs_def)

lemma outside_CipherReferenceNodeRead [simp]:
  "outside (snd (xmlSecEncCtxCipherReferenceNodeRead env c node)) = outside c"
proof -
  obtain r1 c1 where e1:
    "(case xmlGetProp node xmlSecAttrURI of
        None \<Rightarrow> (Some (), c)
      | Some u \<Rightarrow> xmlSecTransformCtxSetUri env c u node) = (r1, c1)"
    by force
  have o1: "outside c1 = outside c"
    using e1 outside_SetUri [of env c _ node]
    by (auto split: option.splits dest!: arg_cong [where f=snd])
  obtain r2 c2 where e2:
    "xmlSecTransformCtxNodesListRead env c1
       (hd (xmlSecGetNextElementNode (node_children node)))
       xmlSecTransformUsageDSigTransform = (r2, c2)"
    by force
  have o2: "outside c2 = outside c"
    using e2 outside_NodesListRead [of env c1] o1 by (metis snd_conv)
  show ?thesis
    unfolding xmlSecEncCtxCipherReferenceNodeRead_def Let_def e1
    by (cases r1; cases r2) (simp_all add: e2 o1 o2)
qed

lemma outside_CipherDataNodeRead [simp]:
  "outside (snd (xmlSecEncCtxCipherDataNodeRead env c node)) = outside c"
proof -
  obtain r1 c1 where e1:
    "xmlSecTransformCtxCreateAndPrepend env c xmlSecTransformBase64Id = (r1, c1)"
    by force
  have o1: "outside c1 = outside c"
    using e1 outside_CreateAndPrepend [of env c] by (metis snd_conv)
  obtain r2 c2 where e2:
    "xmlSecEncCtxCipherReferenceNodeRead env c
       (hd (xmlSecGetNextElementNode (node_children node))) = (r2, c2)"
    by force
  have o2: "outside c2 = outside c"
    using e2 outside_CipherReferenceNodeRead [of env c] by (metis snd_conv)
  show ?thesis
    unfolding xmlSecEncCtxCipherDataNodeRead_def Let_def
    by (cases r1; cases r2) (simp_all add: e1 e2 o1 o2)
qed


lemma outside_attrs [simp]: "outside (snd (encDataNodeRead_attrs c node)) = outside c"
  by (simp add: encDataNodeRead_attrs_def Let_def)

lemma outside_optional [simp]: "outside (snd (encDataNodeRead_optional c node)) = outside c"
  by (simp add: encDataNodeRead_optional_def Let_def)

lemma outside_cipherData [simp]:
  "outside (snd (encDataNodeRead_cipherData env c cur)) = outside c"
proof -
  obtain r1 c1 where e1: "xmlSecEncCtxCipherDataNodeRead env c (hd cur) = (r1, c1)"
    by force
  have o1: "outside c1 = outside c"
    using e1 outside_CipherDataNodeRead [of env c] by (metis snd_conv)
  show ?thesis
    unfolding encDataNodeRead_cipherData_def
    by (cases r1) (simp_all add: e1 o1)
qed

lemma outside_rest [simp]: "outside (snd (encDataNodeRead_rest env c cur)) = outside c"
  unfolding encDataNodeRead_rest_def Let_def
  by (simp split: option.split)

lemma outside_children [simp]:
  "outside (snd (encDataNodeRead_children env c node)) = outside c"
proof -
  obtain r1 c1 where e1: "encDataNodeRead_attrs c node = (r1, c1)" by force
  have o1: "outside c1 = outside c"
    using e1 outside_attrs [of c node] by (metis snd_conv)
  obtain r2 c2 where e2: "encDataNodeRead_optional c1 node = (r2, c2)" by force
  have o2: "outside c2 = outside c"
    using e2 outside_optional [of c1 node] o1 by (metis snd_conv)
  show ?thesis
  proof (cases r2)
    case (Inl es)
    then show ?thesis
      unfolding encDataNodeRead_children_def by (cases r1) (simp_all add: e1 e2 o1 o2)
  next
    case (Inr cur)
    obtain r3 c3 where e3: "encDataNodeRead_cipherData env c2 cur = (r3, c3)" by force
    have o3: "outside c3 = outside c"
      using e3 outside_cipherData [of env c2 cur] o2 by (metis snd_conv)
    show ?thesis
      unfolding encDataNodeRead_children_def
      by (cases r1; cases r3) (simp_all add: e1 e2 e3 o1 o2 o3 Inr)
  qed
qed

lemma outside_method [simp]: "outside (snd (encDataNodeRead_method env c)) = outside c"
  unfolding encDataNodeRead_method_def
  by (cases "encMethod c"; cases "encMethodNode c")
    (simp_all add: case_prod_beta split: option.split)

lemma outside_key [simp]: "outside (snd (encDataNodeRead_key env c p)) = outside c"
  unfolding encDataNodeRead_key_def Let_def
  by (simp add: case_prod_beta split: option.split)

lemma outside_base64 [simp]: "outside (snd (encDataNodeRead_base64 env c)) = outside c"
  by (simp add: encDataNodeRead_base64_def case_prod_beta split: option.split)

lemma outside_EncDataNodeRead [simp]:
  "outside (snd (xmlSecEncCtxEncDataNodeRead env c node)) = outside c"
proof -
  obtain r1 c1 where e1: "encDataNodeRead_children env c node = (r1, c1)" by force
  have o1: "outside c1 = outside c"
    using e1 outside_children [of env c node] by (metis snd_conv)
  obtain r2 c2 where e2: "encDataNodeRead_method env c1 = (r2, c2)" by force
  have o2: "outside c2 = outside c"
    using e2 outside_method [of env c1] o1 by (metis snd_conv)
  show ?thesis
  proof (cases r2)
    case (Inl es)
    then show ?thesis
      unfolding xmlSecEncCtxEncDataNodeRead_def by (cases r1) (simp_all add: e1 e2 o1 o2)
  next
    case (Inr p)
    obtain r3 c3 where e3: "encDataNodeRead_key env c2 p = (r3, c3)" by force
    have o3: "outside c3 = outside c"
      using e3 outside_key [of env c2 p] o2 by (metis snd_conv)
    show ?thesis
      unfolding xmlSecEncCtxEncDataNodeRead_def
      by (cases r1; cases r3) (simp_all add: e1 e2 e3 o1 o2 o3 Inr)
  qed
qed

section \<open>The operations and a template that cannot be read\<close>

lemma effects_EncDataNodeRead:
  "effects (snd (xmlSecEncCtxEncDataNodeRead env c node)) = effects c"
  "replaced (snd (xmlSecEncCtxEncDataNodeRead env c node)) = replaced c"
  "encResult (snd (xmlSecEncCtxEncDataNodeRead env c node)) = encResult c"
  using outside_EncDataNodeRead [of env c node] by (simp_all add: outside_def)

lemma readContext_Some:
  assumes "readContext env ctx op tmpl = Some c"
  shows "effects c = effects ctx @ [E_AddIDs tmpl]" and "replaced c = replaced ctx"
    and "encResult ctx = None" and "encResult c = None"
    and "entryAssertions c = entryAssertions ctx"
  using assms
  by (cases op;
      simp add: readContext_def emit_def xmlSecTransformCtxSetUri_def entryAssertions_def
        split: if_splits option.splits;
      force)+

lemma readContext_None:
  assumes "readContext env ctx op tmpl = None"
  shows "failed (fst (runOperation env ctx op tmpl))"
proof (cases "encResult ctx")
  case None
  then obtain u where op: "op = OpUriEncrypt u"
    and uri: "fst (xmlSecTransformCtxSetUri env (emit (E_AddIDs tmpl) (ctx\<lparr>encrypt := True\<rparr>))
                 u tmpl) = None"
    using assms by (cases op) (auto simp: readContext_def split: prod.splits option.splits)
  obtain c1 where "xmlSecTransformCtxSetUri env (emit (E_AddIDs tmpl) (ctx\<lparr>encrypt := True\<rparr>))
                 u tmpl = (None, c1)"
    using uri by (metis fst_conv surj_pair)
  then show ?thesis
    using None by (simp add: op runOperation_def xmlSecEncCtxUriEncrypt_def failed_def)
next
  case (Some res)
  then show ?thesis
    by (cases op)
      (simp_all add: runOperation_def xmlSecEncCtxBinaryEncrypt_def xmlSecEncCtxXmlEncrypt_def
        xmlSecEncCtxUriEncrypt_def xmlSecEncCtxDecrypt_def xmlSecEncCtxDecryptToBuffer_def
        failed_def)
qed

lemma runOperation_read_failed:
  assumes "readContext env ctx op tmpl = Some c"
    and "xmlSecEncCtxEncDataNodeRead env c tmpl = (Inl es, c')"
    and "\<not> list_ex isNullDereference es"
  shows "runOperation env ctx op tmpl =
     (Inl (es @ xmlSecError None (Some ''xmlSecEncCtxEncDataNodeRead'')
                  XMLSEC_ERRORS_R_XMLSEC_FAILED XMLSEC_ERRORS_NO_MESSAGE #
             (if op = OpDecrypt
              then [xmlSecError None (Some ''xmlSecEncCtxDecryptToBuffer'')
                      XMLSEC_ERRORS_R_XMLSEC_FAILED XMLSEC_ERRORS_NO_MESSAGE]
              else [])), c')"
proof (cases op)
  case (OpBinaryEncrypt dat)
  then show ?thesis using assms
    by (simp add: followedBy_def readContext_def runOperation_def xmlSecEncCtxBinaryEncrypt_def
        split: if_splits)
next
  case (OpXmlEncrypt n)
  then show ?thesis using assms
    by (simp add: followedBy_def readContext_def runOperation_def xmlSecEncCtxXmlEncrypt_def
        split: if_splits)
next
  case (OpUriEncrypt u)
  then show ?thesis using assms
    by (auto simp: followedBy_def readContext_def runOperation_def xmlSecEncCtxUriEncrypt_def
        split: if_splits prod.splits option.splits)
next
  case OpDecrypt
  then show ?thesis using assms
    by (simp add: followedBy_def readContext_def runOperation_def xmlSecEncCtxDecrypt_def
        xmlSecEncCtxDecryptToBuffer_def split: if_splits)
next
  case OpDecryptToBuffer
  then show ?thesis using assms
    by (simp add: followedBy_def readContext_def runOperation_def xmlSecEncCtxDecryptToBuffer_def
        split: if_splits)
qed

lemma EncDataNodeRead_lacks:
  assumes "entryAssertions c" and "lacksCipherData node"
  shows "fst (xmlSecEncCtxEncDataNodeRead env c node) =
     Inl [xmlSecError None
            (Some (xmlSecErrorsSafeString
               (case afterKeyInfo node of [] \<Rightarrow> None | n # r \<Rightarrow> Some (node_name n))))
            XMLSEC_ERRORS_R_INVALID_NODE (Msg ''node=%s'' [ArgS xmlSecNodeCipherData])]"
proof -
  obtain r1 c1 where e1: "encDataNodeRead_children env c node = (r1, c1)" by force
  show ?thesis
    using children_lacks [OF assms, of env] e1
    by (simp add: xmlSecEncCtxEncDataNodeRead_def)
qed

text \<open>
  C9. Take a context whose template fields are still \<open>NULL\<close> (the entry assertions of
  the reader hold) and a template whose element children, after the optional
  \<open>EncryptionMethod\<close> and \<open>KeyInfo\<close>, do not continue with \<open>CipherData\<close>. Then
  \<open>encDataNodeRead\<close> fails with the single report \<open>INVALID_NODE\<close>, whose subject is
  the name of the node found instead (\<open>NULL\<close> when there is none) and whose message
  names \<open>CipherData\<close>; and each of the five top-level operations fails, with that
  report among its reports whenever it gets as far as reading the template.
\<close>

theorem missing_CipherData_fails:
  assumes "entryAssertions ctx" and "lacksCipherData node"
  shows "fst (xmlSecEncCtxEncDataNodeRead env ctx node) =
           Inl [xmlSecError None
                  (Some (xmlSecErrorsSafeString
                     (case afterKeyInfo node of [] \<Rightarrow> None | n # r \<Rightarrow> Some (node_name n))))
                  XMLSEC_ERRORS_R_INVALID_NODE (Msg ''node=%s'' [ArgS xmlSecNodeCipherData])] \<and>
         failed (fst (runOperation env ctx op node)) \<and>
         (readContext env ctx op node = None \<or>
          reported XMLSEC_ERRORS_R_INVALID_NODE (fst (runOperation env ctx op node)))"
proof (cases "readContext env ctx op node")
  case None
  then show ?thesis
    using EncDataNodeRead_lacks [OF assms, of env] readContext_None [OF None] by simp
next
  case (Some c)
  have "entryAssertions c" using readContext_Some(5) [OF Some] assms(1) by simp
  from EncDataNodeRead_lacks [OF this assms(2), of env]
  obtain c' where "xmlSecEncCtxEncDataNodeRead env c node =
      (Inl [xmlSecError None
              (Some (xmlSecErrorsSafeString
                 (case afterKeyInfo node of [] \<Rightarrow> None | n # r \<Rightarrow> Some (node_name n))))
              XMLSEC_ERRORS_R_INVALID_NODE (Msg ''node=%s'' [ArgS xmlSecNodeCipherData])], c')"
    by (metis fst_conv surj_pair)
  from runOperation_read_failed [OF Some this]
  have "runOperation env ctx op node =
     (Inl ([xmlSecError None
              (Some (xmlSecErrorsSafeString
                 (case afterKeyInfo node of [] \<Rightarrow> None | n # r \<Rightarrow> Some (node_name n))))
              XMLSEC_ERRORS_R_INVALID_NODE (Msg ''node=%s'' [ArgS xmlSecNodeCipherData])] @
           xmlSecError None (Some ''xmlSecEncCtxEncDataNodeRead'')
             XMLSEC_ERRORS_R_XMLSEC_FAILED XMLSEC_ERRORS_NO_MESSAGE #
           (if op = OpDecrypt
            then [xmlSecError None (Some ''xmlSecEncCtxDecryptToBuffer'')
                    XMLSEC_ERRORS_R_XMLSEC_FAILED XMLSEC_ERRORS_NO_MESSAGE]
            else [])), c')"
    by simp
  then show ?thesis
    using EncDataNodeRead_lacks [OF assms, of env]
    by (simp add: failed_def reported_def)
qed

theorem missing_CipherData_fails_witness:
  "fst (xmlSecEncCtxEncDataNodeRead example_enc_env example_ctx example_tmpl_nodata) =
     Inl [xmlSecError None (Some ''NULL'') XMLSEC_ERRORS_R_INVALID_NODE
            (Msg ''node=%s'' [ArgS ''CipherData''])] \<and>
   failed (fst (runOperation example_enc_env example_ctx OpDecrypt example_tmpl_nodata)) \<and>
   reported XMLSEC_ERRORS_R_INVALID_NODE
     (fst (runOperation example_enc_env example_ctx OpDecrypt example_tmpl_nodata))"
proof -
  have a: "entryAssertions example_ctx"
    by (simp add: entryAssertions_def example_ctx_def xmlSecEncCtxInitialize_def Let_def
        example_enc_env_def zeroCtx_def memset0_def)
  have k: "afterKeyInfo example_tmpl_nodata = []"
    by (simp add: afterKeyInfo_def skipOptional_def elementChildren_def
        example_tmpl_nodata_def encElement_def example_method_def example_keyInfo_def
        xmlSecCheckNodeName_def xmlSecNodeEncryptionMethod_def xmlSecNodeKeyInfo_def
        xmlSecEncNs_def xmlSecDSigNs_def)
  have l: "lacksCipherData example_tmpl_nodata"
    by (simp add: lacksCipherData_def k)
  have r: "readContext example_enc_env example_ctx OpDecrypt example_tmpl_nodata \<noteq> None"
    by (simp add: readContext_def example_ctx_def xmlSecEncCtxInitialize_def Let_def
        example_enc_env_def zeroCtx_def memset0_def)
  show ?thesis
    using missing_CipherData_fails [OF a l, of example_enc_env OpDecrypt] r
    by (simp add: k xmlSecErrorsSafeString_def xmlSecNodeCipherData_def)
qed

section \<open>The \<open>Type\<close> attribute and what the later parts keep\<close>

lemma ctx_type_CipherReferenceNodeRead [simp]:
  "ctx_type (snd (xmlSecEncCtxCipherReferenceNodeRead env c node)) = ctx_type c"
proof -
  obtain r1 c1 where e1:
    "(case xmlGetProp node xmlSecAttrURI of
        None \<Rightarrow> (Some (), c)
      | Some u \<Rightarrow> xmlSecTransformCtxSetUri env c u node) = (r1, c1)"
    by force
  have o1: "ctx_type c1 = ctx_type c"
    using e1 by (auto simp: xmlSecTransformCtxSetUri_def split: option.splits)
  obtain r2 c2 where e2:
    "xmlSecTransformCtxNodesListRead env c1
       (hd (xmlSecGetNextElementNode (node_children node)))
       xmlSecTransformUsageDSigTransform = (r2, c2)"
    by force
  have o2: "ctx_type c2 = ctx_type c"
    using e2 o1 by (auto simp: xmlSecTransformCtxNodesListRead_def split: option.splits)
  show ?thesis
    unfolding xmlSecEncCtxCipherReferenceNodeRead_def Let_def e1
    by (cases r1; cases r2) (simp_all add: e2 o1 o2)
qed

lemma ctx_type_CipherDataNodeRead [simp]:
  "ctx_type (snd (xmlSecEncCtxCipherDataNodeRead env c node)) = ctx_type c"
proof -
  obtain r1 c1 where e1:
    "xmlSecTransformCtxCreateAndPrepend env c xmlSecTransformBase64Id = (r1, c1)"
    by force
  have o1: "ctx_type c1 = ctx_type c"
    using e1
    by (auto simp: xmlSecTransformCtxCreateAndPrepend_def chainPrepend_def split: if_splits)
  obtain r2 c2 where e2:
    "xmlSecEncCtxCipherReferenceNodeRead env c
       (hd (xmlSecGetNextElementNode (node_children node))) = (r2, c2)"
    by force
  have o2: "ctx_type c2 = ctx_type c"
    using e2 ctx_type_CipherReferenceNodeRead [of env c] by (metis snd_conv)
  show ?thesis
    unfolding xmlSecEncCtxCipherDataNodeRead_def Let_def
    by (cases r1; cases r2) (simp_all add: e1 e2 o1 o2)
qed

lemma ctx_type_optional [simp]:
  "ctx_type (snd (encDataNodeRead_optional c node)) = ctx_type c"
  by (simp add: encDataNodeRead_optional_def Let_def)

lemma ctx_type_cipherData [simp]:
  "ctx_type (snd (encDataNodeRead_cipherData env c cur)) = ctx_type c"
proof -
  obtain r1 c1 where e1: "xmlSecEncCtxCipherDataNodeRead env c (hd cur) = (r1, c1)"
    by force
  have o1: "ctx_type c1 = ctx_type c"
    using e1 ctx_type_CipherDataNodeRead [of env c] by (metis snd_conv)
  show ?thesis
    unfolding encDataNodeRead_cipherData_def
    by (cases r1) (simp_all add: e1 o1)
qed

lemma attrs_type:
  "encDataNodeRead_attrs c node = (Inr u, c') \<Longrightarrow> ctx_type c' = xmlGetProp node xmlSecAttrType"
  by (auto simp: encDataNodeRead_attrs_def Let_def split: if_splits)

lemma inner_upd [simp]:
  "inner (c\<lparr>carriedKeyName := a6\<rparr>) = inner c"
  "inner (c\<lparr>encMethod := b1\<rparr>) = inner c"
  "inner (c\<lparr>dontDestroyEncMethod := b2\<rparr>) = inner c"
  "inner (c\<lparr>encKey := b3\<rparr>) = inner c"
  "inner (c\<lparr>keyInfoReadCtx := b4\<rparr>) = inner c"
  "inner (c\<lparr>resultBase64Encoded := b6\<rparr>) = inner c"
  "inner (c\<lparr>heap := b7\<rparr>) = inner c"
  "inner (poke p f c) = inner c"
  "inner (chainAppend p c) = inner c"
  by (simp_all add: inner_def poke_def chainAppend_def)

lemma inner_rest [simp]: "inner (snd (encDataNodeRead_rest env c cur)) = inner c"
  unfolding encDataNodeRead_rest_def Let_def
  by (simp split: option.split)

lemma inner_method [simp]: "inner (snd (encDataNodeRead_method env c)) = inner c"
  unfolding encDataNodeRead_method_def
  by (cases "encMethod c"; cases "encMethodNode c")
    (simp_all add: case_prod_beta xmlSecTransformCtxNodeRead_def xmlSecTransformCtxAppend_def
      split: option.split)

lemma inner_key [simp]: "inner (snd (encDataNodeRead_key env c p)) = inner c"
  unfolding encDataNodeRead_key_def Let_def
  by (simp add: case_prod_beta xmlSecTransformSetKey_def split: option.split)

lemma inner_base64 [simp]: "inner (snd (encDataNodeRead_base64 env c)) = inner c"
  by (simp add: encDataNodeRead_base64_def case_prod_beta
      xmlSecTransformCtxCreateAndAppend_def split: option.split)

text \<open>The parts of a read that succeeds.\<close>

lemma EncDataNodeRead_parts:
  assumes "xmlSecEncCtxEncDataNodeRead env c node = (Inr u, c')"
  obtains c1 p c2 c3 where "encDataNodeRead_children env c node = (Inr (), c1)"
    and "encDataNodeRead_method env c1 = (Inr p, c2)"
    and "encDataNodeRead_key env c2 p = (Inr (), c3)"
    and "encDataNodeRead_base64 env c3 = (Inr (), c')"
proof -
  obtain r1 c1 where e1: "encDataNodeRead_children env c node = (r1, c1)" by force
  obtain r2 c2 where e2: "encDataNodeRead_method env c1 = (r2, c2)" by force
  from assms e1 have r1: "r1 = Inr ()"
    by (cases r1) (simp_all add: xmlSecEncCtxEncDataNodeRead_def)
  from assms e1 e2 r1 obtain p where r2: "r2 = Inr p"
    by (cases r2) (simp_all add: xmlSecEncCtxEncDataNodeRead_def)
  obtain r3 c3 where e3: "encDataNodeRead_key env c2 p = (r3, c3)" by force
  from assms e1 e2 e3 r1 r2 have r3: "r3 = Inr ()"
    by (cases r3) (simp_all add: xmlSecEncCtxEncDataNodeRead_def)
  from assms e1 e2 e3 r1 r2 r3 have "encDataNodeRead_base64 env c3 = (Inr (), c')"
    by (simp add: xmlSecEncCtxEncDataNodeRead_def)
  with e1 e2 e3 r1 r2 r3 that show thesis by simp
qed

lemma children_parts:
  assumes "encDataNodeRead_children env c node = (Inr u, c')"
  obtains c2 cur4 c4 cur5 c5 where "encDataNodeRead_attrs c node = (Inr (), c2)"
    and "encDataNodeRead_optional c2 node = (Inr cur4, c4)"
    and "encDataNodeRead_cipherData env c4 cur4 = (Inr cur5, c5)"
    and "encDataNodeRead_rest env c5 cur5 = (Inr (), c')"
proof -
  obtain r1 c2 where e1: "encDataNodeRead_attrs c node = (r1, c2)" by force
  obtain r2 c4 where e2: "encDataNodeRead_optional c2 node = (r2, c4)" by force
  from assms e1 have r1: "r1 = Inr ()"
    by (cases r1) (simp_all add: encDataNodeRead_children_def)
  from assms e1 e2 r1 obtain cur4 where r2: "r2 = Inr cur4"
    by (cases r2) (simp_all add: encDataNodeRead_children_def)
  obtain r3 c5 where e3: "encDataNodeRead_cipherData env c4 cur4 = (r3, c5)" by force
  from assms e1 e2 e3 r1 r2 obtain cur5 where r3: "r3 = Inr cur5"
    by (cases r3) (simp_all add: encDataNodeRead_children_def)
  from assms e1 e2 e3 r1 r2 r3 have "encDataNodeRead_rest env c5 cur5 = (Inr (), c')"
    by (simp add: encDataNodeRead_children_def)
  with e1 e2 e3 r1 r2 r3 that show thesis by simp
qed

lemma EncDataNodeRead_type:
  assumes "xmlSecEncCtxEncDataNodeRead env c node = (Inr u, c')"
  shows "ctx_type c' = xmlGetProp node xmlSecAttrType"
proof -
  from assms obtain c1 p c2 c3 where
    1: "encDataNodeRead_children env c node = (Inr (), c1)" and
    2: "encDataNodeRead_method env c1 = (Inr p, c2)" and
    3: "encDataNodeRead_key env c2 p = (Inr (), c3)" and
    4: "encDataNodeRead_base64 env c3 = (Inr (), c')"
    by (rule EncDataNodeRead_parts)
  from 1 obtain k2 cur4 k4 cur5 k5 where
    a: "encDataNodeRead_attrs c node = (Inr (), k2)" and
    b: "encDataNodeRead_optional k2 node = (Inr cur4, k4)" and
    d: "encDataNodeRead_cipherData env k4 cur4 = (Inr cur5, k5)" and
    e: "encDataNodeRead_rest env k5 cur5 = (Inr (), c1)"
    by (rule children_parts)
  have "ctx_type k2 = xmlGetProp node xmlSecAttrType" using a by (rule attrs_type)
  moreover have "ctx_type k4 = ctx_type k2"
    using b ctx_type_optional [of k2 node] by (metis snd_conv)
  moreover have "ctx_type k5 = ctx_type k4"
    using d ctx_type_cipherData [of env k4 cur4] by (metis snd_conv)
  moreover have "inner c1 = inner k5" using e inner_rest [of env k5 cur5] by (metis snd_conv)
  moreover have "inner c2 = inner c1" using 2 inner_method [of env c1] by (metis snd_conv)
  moreover have "inner c3 = inner c2" using 3 inner_key [of env c2 p] by (metis snd_conv)
  moreover have "inner c' = inner c3" using 4 inner_base64 [of env c3] by (metis snd_conv)
  ultimately show ?thesis by (simp add: inner_def)
qed

section \<open>Decrypting a node of another type\<close>

lemma DecryptToBuffer_success:
  assumes "xmlSecEncCtxDecryptToBuffer env ctx node = (Inr buffer, ctx1)"
  shows "ctx_type ctx1 = xmlGetProp node xmlSecAttrType"
    and "replaced ctx1 = replaced ctx"
    and "encResult ctx1 = Some buffer"
    and "butlast (effects ctx1) = effects ctx @ [E_AddIDs node]"
    and "isExecution (last (effects ctx1))"
proof -
  let ?c0 = "emit (E_AddIDs node) (ctx\<lparr>encrypt := False\<rparr>)"
  obtain r1 c1 where e1: "xmlSecEncCtxEncDataNodeRead env ?c0 node = (r1, c1)" by force
  have nul: "encResult ctx = None"
    using assms by (auto simp: xmlSecEncCtxDecryptToBuffer_def split: if_splits)
  have r1: "r1 = Inr ()"
    using assms nul e1 by (cases r1) (simp_all add: xmlSecEncCtxDecryptToBuffer_def)
  have t1: "ctx_type c1 = xmlGetProp node xmlSecAttrType"
    using e1 r1 EncDataNodeRead_type by simp
  have f1: "effects c1 = effects ctx @ [E_AddIDs node]" "replaced c1 = replaced ctx"
    using effects_EncDataNodeRead(1,2) [of env ?c0 node] e1 by (simp_all add: emit_def)
  have rest: "(case (case cipherValueNode c1 of
                      Some cv \<Rightarrow>
                        (case xmlNodeGetContent env cv of
                           None \<Rightarrow>
                             (Inl [xmlSecError None (Some ''xmlNodeGetContent'')
                                     XMLSEC_ERRORS_R_INVALID_NODE_CONTENT
                                     (Msg ''node=%s''
                                        [ArgS (xmlSecErrorsSafeString
                                           (Some (node_name cv)))])], c1)
                         | Some dat \<Rightarrow>
                             (case xmlSecTransformCtxBinaryExecute env c1 dat of
                                (None, ctx2) \<Rightarrow>
                                  (Inl [xmlSecError None
                                          (Some ''xmlSecTransformCtxBinaryExecute'')
                                          XMLSEC_ERRORS_R_XMLSEC_FAILED
                                          XMLSEC_ERRORS_NO_MESSAGE], ctx2)
                              | (Some u2, ctx2) \<Rightarrow> (Inr (), ctx2)))
                    | None \<Rightarrow>
                        (case xmlSecTransformCtxExecute env c1 of
                           (None, ctx2) \<Rightarrow>
                             (Inl [xmlSecError None (Some ''xmlSecTransformCtxBinaryExecute'')
                                     XMLSEC_ERRORS_R_XMLSEC_FAILED XMLSEC_ERRORS_NO_MESSAGE],
                              ctx2)
                         | (Some u2, ctx2) \<Rightarrow> (Inr (), ctx2))) of
                (Inl es, ctx2) \<Rightarrow> (Inl es, ctx2)
              | (Inr u2, ctx2) \<Rightarrow>
                  (case tctx_result (encTransformCtx ctx2) of
                     None \<Rightarrow>
                       (Inl [xmlSecAssertFailed ''ctx->encResult != NULL''],
                        ctx2\<lparr>encResult := None\<rparr>)
                   | Some res \<Rightarrow> (Inr res, ctx2\<lparr>encResult := Some res\<rparr>))) = (Inr buffer, ctx1)"
    using assms nul e1 r1 by (simp add: xmlSecEncCtxDecryptToBuffer_def)
  have all: "ctx_type ctx1 = ctx_type c1 \<and> replaced ctx1 = replaced c1 \<and>
      encResult ctx1 = Some buffer \<and> butlast (effects ctx1) = effects c1 \<and>
      isExecution (last (effects ctx1))"
    using rest
    by (auto simp: xmlSecTransformCtxBinaryExecute_def xmlSecTransformCtxExecute_def emit_def
        split: option.splits prod.splits exec_result.splits)
  show "ctx_type ctx1 = xmlGetProp node xmlSecAttrType" using all t1 by simp
  show "replaced ctx1 = replaced ctx" using all f1 by simp
  show "encResult ctx1 = Some buffer" using all by simp
  show "butlast (effects ctx1) = effects ctx @ [E_AddIDs node]" using all f1 by simp
  show "isExecution (last (effects ctx1))" using all by simp
qed

text \<open>
  C10. Let \<open>DecryptToBuffer\<close> succeed on a node whose \<open>Type\<close> attribute is absent or
  is neither the Element nor the Content type URI. Then \<open>Decrypt\<close> returns success and
  leaves the context exactly as \<open>DecryptToBuffer\<close> leaves it: the \<open>replaced\<close> flag is
  what it was at entry, \<open>encResult\<close> holds the plaintext buffer, and the calls made are
  the registration of the ID attributes followed by one execution of the chain: no node
  is replaced and no content is set.
\<close>

theorem decrypt_other_type_keeps_document:
  assumes "xmlSecEncCtxDecryptToBuffer env ctx node = (Inr buffer, ctx1)"
    and "xmlGetProp node xmlSecAttrType \<noteq> Some xmlSecTypeEncElement"
    and "xmlGetProp node xmlSecAttrType \<noteq> Some xmlSecTypeEncContent"
  shows "xmlSecEncCtxDecrypt env ctx node = (Inr (), ctx1) \<and>
         replaced ctx1 = replaced ctx \<and>
         encResult ctx1 = Some buffer \<and>
         butlast (effects ctx1) = effects ctx @ [E_AddIDs node] \<and>
         isExecution (last (effects ctx1)) \<and>
         filter isReplacement (effects ctx1) = filter isReplacement (effects ctx) \<and>
         filter isSetContent (effects ctx1) = filter isSetContent (effects ctx)"
proof -
  note s = DecryptToBuffer_success [OF assms(1)]
  have d: "xmlSecEncCtxDecrypt env ctx node = (Inr (), ctx1)"
    using assms s(1) by (simp add: xmlSecEncCtxDecrypt_def)
  have ne: "effects ctx1 \<noteq> []"
    using s(4) by (cases "effects ctx1") auto
  have split: "effects ctx1 = (effects ctx @ [E_AddIDs node]) @ [last (effects ctx1)]"
    using append_butlast_last_id [OF ne] s(4) by simp
  have nr: "\<not> isReplacement (last (effects ctx1))" "\<not> isSetContent (last (effects ctx1))"
    using s(5) by (cases "last (effects ctx1)"; simp)+
  have f: "filter isReplacement (effects ctx1) = filter isReplacement (effects ctx)"
    "filter isSetContent (effects ctx1) = filter isSetContent (effects ctx)"
    by (subst split, simp add: nr)+
  show ?thesis using d s(2-5) f by simp
qed

lemma example_ctx_simps:
  "example_ctx = (zeroCtx [] [])
     \<lparr>keyInfoReadCtx := \<lparr>keyInfoCtx_mode = xmlSecKeyInfoModeRead, keysMngr = Some hooklessKeysMngr,
         keyReq = xmlSecKeyReq [] xmlSecKeyDataTypeUnknown 0\<rparr>,
      keyInfoWriteCtx := \<lparr>keyInfoCtx_mode = xmlSecKeyInfoModeWrite, keysMngr = Some hooklessKeysMngr,
         keyReq = xmlSecKeyReq [] xmlSecKeyDataTypePublic 0\<rparr>\<rparr>"
  by (simp add: example_ctx_def xmlSecEncCtxInitialize_def Let_def example_enc_env_def
      memset0_def zeroCtx_def)

lemma example_DecryptToBuffer:
  "fst (xmlSecEncCtxDecryptToBuffer example_enc_env example_ctx_key example_tmpl_reference)
     = Inr (Some ''QUJD'')"
  by code_simp

theorem decrypt_other_type_keeps_document_witness:
  "fst (xmlSecEncCtxDecrypt example_enc_env example_ctx_key example_tmpl_reference) = Inr () \<and>
   replaced (snd (xmlSecEncCtxDecryptToBuffer example_enc_env example_ctx_key
      example_tmpl_reference)) = False \<and>
   encResult (snd (xmlSecEncCtxDecryptToBuffer example_enc_env example_ctx_key
      example_tmpl_reference)) = Some (Some ''QUJD'') \<and>
   filter isReplacement (effects (snd (xmlSecEncCtxDecryptToBuffer example_enc_env
      example_ctx_key example_tmpl_reference))) = []"
proof -
  obtain c1 where d: "xmlSecEncCtxDecryptToBuffer example_enc_env example_ctx_key
      example_tmpl_reference = (Inr (Some ''QUJD''), c1)"
    using example_DecryptToBuffer by (metis fst_conv surj_pair)
  have t: "xmlGetProp example_tmpl_reference xmlSecAttrType = None"
    by (simp add: xmlGetProp_def example_tmpl_reference_def encElement_def)
  have z: "replaced example_ctx_key = False" "effects example_ctx_key = []"
    by (simp_all add: example_ctx_key_def example_ctx_simps zeroCtx_def)
  show ?thesis
    using decrypt_other_type_keeps_document [OF d] t z by (simp add: d)
qed

section \<open>A key that is missing or does not match\<close>

lemma key_not_found:
  assumes "xmlSecTransformSetKeyReq env c p = Some req"
    and "(case keysMngr (keyInfoReadCtx c) of
            None \<Rightarrow>
              \<not> consultsKeysMngr c \<and>
              (case encKey c of None \<Rightarrow> True | Some k \<Rightarrow> \<not> keyMatch env k req)
          | Some mngr \<Rightarrow>
              (case resolvedKey c mngr req of
                 None \<Rightarrow> True
               | Some k \<Rightarrow> \<not> keyMatch env k req))"
  shows "fst (encDataNodeRead_key env c p) =
           Inl [xmlSecError None None XMLSEC_ERRORS_R_KEY_NOT_FOUND XMLSEC_ERRORS_NO_MESSAGE]"
proof (cases "keysMngr (keyInfoReadCtx c)")
  case None
  then show ?thesis
    using assms
    by (cases "encKey c"; cases "keyInfoNode c")
      (simp_all add: encDataNodeRead_key_def Let_def consultsKeysMngr_def)
next
  case (Some mngr)
  then show ?thesis
    using assms
    by (cases "encKey c"; cases "keyInfoNode c"; cases "getKey mngr")
      (auto simp: encDataNodeRead_key_def Let_def resolvedKey_def split: option.splits)
qed

text \<open>
  Where the key step consults the keys manager and the reading context has none, the
  code reads \<open>getKey\<close> through the \<open>NULL\<close> pointer.
\<close>

lemma key_null_manager:
  assumes "xmlSecTransformSetKeyReq env c p = Some req"
    and "consultsKeysMngr c"
    and "keysMngr (keyInfoReadCtx c) = None"
  shows "fst (encDataNodeRead_key env c p) =
           Inl [xmlSecNullDereference ''ctx->keyInfoReadCtx.keysMngr'']"
  using assms by (simp add: encDataNodeRead_key_def Let_def consultsKeysMngr_def)

lemma EncDataNodeRead_key_not_found:
  assumes "keyStepFails env c node"
  shows "fst (xmlSecEncCtxEncDataNodeRead env c node) =
           Inl [xmlSecError None None XMLSEC_ERRORS_R_KEY_NOT_FOUND XMLSEC_ERRORS_NO_MESSAGE]"
proof -
  obtain r1 c1 where e1: "encDataNodeRead_children env c node = (r1, c1)" by force
  obtain r2 c2 where e2: "encDataNodeRead_method env c1 = (r2, c2)" by force
  from assms e1 have r1: "r1 = Inr ()"
    by (cases r1) (simp_all add: keyStepFails_def)
  from assms e1 e2 r1 obtain p where r2: "r2 = Inr p"
    by (cases r2) (simp_all add: keyStepFails_def)
  from assms e1 e2 r1 r2 obtain req where
    q: "xmlSecTransformSetKeyReq env c2 p = Some req" and
    k: "(case keysMngr (keyInfoReadCtx c2) of
            None \<Rightarrow>
              \<not> consultsKeysMngr c2 \<and>
              (case encKey c2 of None \<Rightarrow> True | Some k \<Rightarrow> \<not> keyMatch env k req)
          | Some mngr \<Rightarrow>
              (case resolvedKey c2 mngr req of
                 None \<Rightarrow> True
               | Some k \<Rightarrow> \<not> keyMatch env k req))"
    by (cases "xmlSecTransformSetKeyReq env c2 p") (simp_all add: keyStepFails_def)
  obtain r3 c3 where e3: "encDataNodeRead_key env c2 p = (r3, c3)" by force
  show ?thesis
    using key_not_found [OF q k] e1 e2 e3 r1 r2
    by (simp add: xmlSecEncCtxEncDataNodeRead_def)
qed

text \<open>
  C5. Let an operation get as far as reading the template, and let the template be read up
  to the key step: the children, the encryption method and \<open>setKeyReq\<close> succeed. If there
  the key is missing (none is preset, and the \<open>KeyInfo\<close> node is absent, or the keys
  manager has no \<open>getKey\<close> hook or its hook returns nothing) or fails \<open>keyMatch\<close>
  against the requirements, then \<open>encDataNodeRead\<close> fails with the single report
  \<open>KEY_NOT_FOUND\<close>, the operation fails with that report, and the only call it has made
  is the registration of the ID attributes: the chain is not executed. The keys manager
  is the one the reading context points to; where the key step consults it, the context
  has one.
\<close>

theorem missing_key_fails:
  assumes "readContext env ctx op tmpl = Some c"
    and "keyStepFails env c tmpl"
  shows "fst (xmlSecEncCtxEncDataNodeRead env c tmpl) =
           Inl [xmlSecError None None XMLSEC_ERRORS_R_KEY_NOT_FOUND XMLSEC_ERRORS_NO_MESSAGE] \<and>
         failed (fst (runOperation env ctx op tmpl)) \<and>
         reported XMLSEC_ERRORS_R_KEY_NOT_FOUND (fst (runOperation env ctx op tmpl)) \<and>
         effects (snd (runOperation env ctx op tmpl)) = effects ctx @ [E_AddIDs tmpl] \<and>
         filter isExecution (effects (snd (runOperation env ctx op tmpl)))
           = filter isExecution (effects ctx)"
proof -
  note k = EncDataNodeRead_key_not_found [OF assms(2)]
  then obtain c' where r: "xmlSecEncCtxEncDataNodeRead env c tmpl =
      (Inl [xmlSecError None None XMLSEC_ERRORS_R_KEY_NOT_FOUND XMLSEC_ERRORS_NO_MESSAGE], c')"
    by (metis fst_conv surj_pair)
  have e: "effects c' = effects ctx @ [E_AddIDs tmpl]"
    using effects_EncDataNodeRead(1) [of env c tmpl] r readContext_Some(1) [OF assms(1)]
    by simp
  show ?thesis
    using runOperation_read_failed [OF assms(1) r] k e
    by (simp add: failed_def reported_def)
qed

lemma example_ctx_nokey_entry:
  "encResult example_ctx_nokey = None" "effects example_ctx_nokey = []"
  by (simp_all add: example_ctx_nokey_def xmlSecEncCtxInitialize_def Let_def
      example_enc_env_def memset0_def zeroCtx_def)

lemma example_keyStepFails:
  "keyStepFails example_enc_env
     (emit (E_AddIDs example_tmpl_keyInfo) (example_ctx_nokey\<lparr>encrypt := True\<rparr>))
     example_tmpl_keyInfo"
  by code_simp

theorem missing_key_fails_witness:
  "failed (fst (runOperation example_enc_env example_ctx_nokey
      (OpBinaryEncrypt ''Hello, World!'') example_tmpl_keyInfo)) \<and>
   reported XMLSEC_ERRORS_R_KEY_NOT_FOUND
     (fst (runOperation example_enc_env example_ctx_nokey (OpBinaryEncrypt ''Hello, World!'')
        example_tmpl_keyInfo)) \<and>
   effects (snd (runOperation example_enc_env example_ctx_nokey
      (OpBinaryEncrypt ''Hello, World!'') example_tmpl_keyInfo))
     = [E_AddIDs example_tmpl_keyInfo]"
proof -
  note z = example_ctx_nokey_entry
  have r: "readContext example_enc_env example_ctx_nokey (OpBinaryEncrypt ''Hello, World!'')
      example_tmpl_keyInfo
    = Some (emit (E_AddIDs example_tmpl_keyInfo) (example_ctx_nokey\<lparr>encrypt := True\<rparr>))"
    by (simp add: readContext_def z)
  show ?thesis
    using missing_key_fails [OF r example_keyStepFails] z by simp
qed

text \<open>
  With a template that has a \<open>KeyInfo\<close> node, a context without keys manager and
  without preset key reads \<open>getKey\<close> through the \<open>NULL\<close> pointer: the operation does
  not return, and nothing is reported.
\<close>

lemma example_null_manager:
  "fst (runOperation example_enc_env example_ctx_nomngr (OpBinaryEncrypt ''Hello, World!'')
          example_tmpl_keyInfo)
     = Inl [xmlSecNullDereference ''ctx->keyInfoReadCtx.keysMngr''] \<and>
   fst (runOperation example_enc_env example_ctx_nomngr OpDecrypt example_tmpl_keyInfo)
     = Inl [xmlSecNullDereference ''ctx->keyInfoReadCtx.keysMngr'']"
  by code_simp

section \<open>What the walk over the children finds\<close>

lemma firstElement_GetNext:
  "firstElement node =
     (case xmlSecGetNextElementNode (node_children node) of [] \<Rightarrow> None | x # r \<Rightarrow> Some x)"
  using GetNext_cases [of "node_children node"]
  by (auto simp: firstElement_def elementChildren_def)

lemma curIs_first:
  "curIs (xmlSecGetNextElementNode (node_children node)) name ns =
     (case firstElement node of None \<Rightarrow> False | Some x \<Rightarrow> xmlSecCheckNodeName x name ns)"
  by (simp add: firstElement_GetNext curIs_def split: list.split)

lemma hd_first:
  "firstElement node = Some x \<Longrightarrow> hd (xmlSecGetNextElementNode (node_children node)) = x"
  by (simp add: firstElement_GetNext split: list.splits)

lemma CipherReferenceNodeRead_found:
  assumes "xmlSecEncCtxCipherReferenceNodeRead env c x = (Inr u, c')"
  shows "cipherValueNode c' = cipherValueNode c"
    and "tctx_uri (encTransformCtx c') =
           (case xmlGetProp x xmlSecAttrURI of
              None \<Rightarrow> tctx_uri (encTransformCtx c) | Some v \<Rightarrow> Some v)"
proof -
  obtain r1 c1 where e1:
    "(case xmlGetProp x xmlSecAttrURI of
        None \<Rightarrow> (Some (), c)
      | Some v \<Rightarrow> xmlSecTransformCtxSetUri env c v x) = (r1, c1)"
    by force
  obtain r2 c2 where e2:
    "xmlSecTransformCtxNodesListRead env c1
       (hd (xmlSecGetNextElementNode (node_children x)))
       xmlSecTransformUsageDSigTransform = (r2, c2)"
    by force
  have r1: "r1 = Some ()"
    using assms unfolding xmlSecEncCtxCipherReferenceNodeRead_def Let_def e1
    by (cases r1) simp_all
  have o1: "cipherValueNode c1 = cipherValueNode c \<and>
      tctx_uri (encTransformCtx c1) =
        (case xmlGetProp x xmlSecAttrURI of
           None \<Rightarrow> tctx_uri (encTransformCtx c) | Some v \<Rightarrow> Some v)"
    using e1 r1 by (auto simp: xmlSecTransformCtxSetUri_def split: option.splits)
  have o2: "cipherValueNode c2 = cipherValueNode c1 \<and>
      tctx_uri (encTransformCtx c2) = tctx_uri (encTransformCtx c1)"
    using e2 by (auto simp: xmlSecTransformCtxNodesListRead_def split: option.splits)
  have "c' = c1 \<or> c' = c2"
    using assms unfolding xmlSecEncCtxCipherReferenceNodeRead_def Let_def e1 r1
    by (cases r2) (auto simp: e2 split: if_splits)
  with o1 o2 show "cipherValueNode c' = cipherValueNode c"
    and "tctx_uri (encTransformCtx c') =
           (case xmlGetProp x xmlSecAttrURI of
              None \<Rightarrow> tctx_uri (encTransformCtx c) | Some v \<Rightarrow> Some v)"
    by auto
qed

lemma CipherDataNodeRead_found:
  assumes "xmlSecEncCtxCipherDataNodeRead env c cd = (Inr u, c')"
  shows "cipherValueNode c' = valueChoice cd"
    and "tctx_uri (encTransformCtx c') =
           sourceAfter (encrypt c) (referenceChoice cd) (tctx_uri (encTransformCtx c))"
    and "firstElement cd = None \<or> valueChoice cd \<noteq> None \<or>
         (case firstElement cd of
            None \<Rightarrow> False
          | Some x \<Rightarrow> xmlSecCheckNodeName x xmlSecNodeCipherReference xmlSecEncNs)"
proof -
  let ?cur = "xmlSecGetNextElementNode (node_children cd)"
  obtain r1 c1 where e1:
    "xmlSecTransformCtxCreateAndPrepend env c xmlSecTransformBase64Id = (r1, c1)"
    by force
  have o1: "cipherValueNode c1 = cipherValueNode c \<and>
      tctx_uri (encTransformCtx c1) = tctx_uri (encTransformCtx c)"
    using e1
    by (auto simp: xmlSecTransformCtxCreateAndPrepend_def chainPrepend_def split: if_splits)
  obtain r2 c2 where e2: "xmlSecEncCtxCipherReferenceNodeRead env c (hd ?cur) = (r2, c2)"
    by force
  have nul: "cipherValueNode c = None"
    using assms unfolding xmlSecEncCtxCipherDataNodeRead_def Let_def
    by (auto split: if_splits)
  have names: "xmlSecNodeCipherValue \<noteq> xmlSecNodeCipherReference"
    by (simp add: xmlSecNodeCipherValue_def xmlSecNodeCipherReference_def)
  consider (val) "curIs ?cur xmlSecNodeCipherValue xmlSecEncNs"
    | (ref) "\<not> curIs ?cur xmlSecNodeCipherValue xmlSecEncNs"
        "curIs ?cur xmlSecNodeCipherReference xmlSecEncNs"
    | (none) "\<not> curIs ?cur xmlSecNodeCipherValue xmlSecEncNs"
        "\<not> curIs ?cur xmlSecNodeCipherReference xmlSecEncNs"
    by blast
  then have "cipherValueNode c' = valueChoice cd \<and>
    tctx_uri (encTransformCtx c') =
      sourceAfter (encrypt c) (referenceChoice cd) (tctx_uri (encTransformCtx c)) \<and>
    (firstElement cd = None \<or> valueChoice cd \<noteq> None \<or>
         (case firstElement cd of
            None \<Rightarrow> False
          | Some x \<Rightarrow> xmlSecCheckNodeName x xmlSecNodeCipherReference xmlSecEncNs))"
  proof cases
    case val
    then obtain x where x: "firstElement cd = Some x"
      "xmlSecCheckNodeName x xmlSecNodeCipherValue xmlSecEncNs"
      by (auto simp: curIs_first split: option.splits)
    have nr: "\<not> xmlSecCheckNodeName x xmlSecNodeCipherReference xmlSecEncNs"
      using x(2) names by (simp add: xmlSecCheckNodeName_def)
    have "cipherValueNode c' = Some x \<and>
        tctx_uri (encTransformCtx c') = tctx_uri (encTransformCtx c)"
      using assms val nul o1 hd_first [OF x(1)]
      unfolding xmlSecEncCtxCipherDataNodeRead_def Let_def
      by (cases r1) (auto simp: e1 split: if_splits)
    then show ?thesis
      using x nr by (simp add: valueChoice_def referenceChoice_def sourceAfter_def)
  next
    case ref
    then obtain x where x: "firstElement cd = Some x"
      "xmlSecCheckNodeName x xmlSecNodeCipherReference xmlSecEncNs"
      "\<not> xmlSecCheckNodeName x xmlSecNodeCipherValue xmlSecEncNs"
      by (auto simp: curIs_first split: option.splits)
    have hx: "hd ?cur = x" using hd_first [OF x(1)] .
    show ?thesis
    proof (cases "encrypt c")
      case True
      have "c' = c"
        using assms ref nul True unfolding xmlSecEncCtxCipherDataNodeRead_def Let_def
        by (auto split: if_splits)
      then show ?thesis
        using x nul True by (simp add: valueChoice_def referenceChoice_def sourceAfter_def)
    next
      case False
      have r2: "r2 = Inr ()" "c' = c2"
        using assms ref nul False unfolding xmlSecEncCtxCipherDataNodeRead_def Let_def
        by (cases r2; auto simp: e2 split: if_splits)+
      from CipherReferenceNodeRead_found [OF e2 [unfolded r2 hx]]
      show ?thesis
        using x nul False r2(2)
        by (simp add: valueChoice_def referenceChoice_def sourceAfter_def)
    qed
  next
    case none
    have "c' = c \<and> ?cur = []"
      using assms none nul unfolding xmlSecEncCtxCipherDataNodeRead_def Let_def
      by (auto split: if_splits)
    then have "c' = c" "firstElement cd = None"
      by (simp_all add: firstElement_GetNext)
    then show ?thesis
      using nul by (simp add: valueChoice_def referenceChoice_def sourceAfter_def)
  qed
  then show "cipherValueNode c' = valueChoice cd"
    and "tctx_uri (encTransformCtx c') =
           sourceAfter (encrypt c) (referenceChoice cd) (tctx_uri (encTransformCtx c))"
    and "firstElement cd = None \<or> valueChoice cd \<noteq> None \<or>
         (case firstElement cd of
            None \<Rightarrow> False
          | Some x \<Rightarrow> xmlSecCheckNodeName x xmlSecNodeCipherReference xmlSecEncNs)"
    by simp_all
qed


lemma cipherData_found:
  assumes "encDataNodeRead_cipherData env c (xmlSecGetNextElementNode cc) = (Inr cur5, c')"
    and "filter (\<lambda>n. node_type n = XML_ELEMENT_NODE) cc = afterKeyInfo node"
  obtains cd where "cipherDataOf node = Some cd"
    and "xmlSecEncCtxCipherDataNodeRead env c cd = (Inr (), c')"
proof -
  let ?cur = "xmlSecGetNextElementNode cc"
  have isCD: "curIs ?cur xmlSecNodeCipherData xmlSecEncNs"
    using assms(1) by (auto simp: encDataNodeRead_cipherData_def split: if_splits)
  then obtain cd rest where a: "afterKeyInfo node = cd # rest"
    "xmlSecCheckNodeName cd xmlSecNodeCipherData xmlSecEncNs"
    using assms(2) by (auto simp: curIs_GetNext split: list.splits)
  have hd: "hd ?cur = cd"
    using hd_GetNext [of cc cd rest] assms(2) a(1) by simp
  obtain r1 c1 where e1: "xmlSecEncCtxCipherDataNodeRead env c cd = (r1, c1)" by force
  have "r1 = Inr () \<and> c1 = c'"
    using assms(1) isCD hd e1 by (cases r1) (simp_all add: encDataNodeRead_cipherData_def)
  with e1 a that show thesis by (simp add: cipherDataOf_def)
qed

lemma attrs_keeps:
  "cipherValueNode (snd (encDataNodeRead_attrs c node)) = cipherValueNode c"
  "tctx_uri (encTransformCtx (snd (encDataNodeRead_attrs c node))) = tctx_uri (encTransformCtx c)"
  "machinery (snd (encDataNodeRead_attrs c node)) = machinery c"
  "resultBase64Encoded (snd (encDataNodeRead_attrs c node)) = resultBase64Encoded c"
  by (simp_all add: encDataNodeRead_attrs_def Let_def machinery_def)

lemma optional_keeps:
  "cipherValueNode (snd (encDataNodeRead_optional c node)) = cipherValueNode c"
  "tctx_uri (encTransformCtx (snd (encDataNodeRead_optional c node)))
     = tctx_uri (encTransformCtx c)"
  "machinery (snd (encDataNodeRead_optional c node)) = machinery c"
  "resultBase64Encoded (snd (encDataNodeRead_optional c node)) = resultBase64Encoded c"
  by (simp_all add: encDataNodeRead_optional_def Let_def machinery_def)

lemma rest_keeps:
  "machinery (snd (encDataNodeRead_rest env c cur)) = machinery c"
  "resultBase64Encoded (snd (encDataNodeRead_rest env c cur)) = resultBase64Encoded c"
  unfolding encDataNodeRead_rest_def Let_def machinery_def
  by (simp_all split: option.split)

lemma children_found:
  assumes "encDataNodeRead_children env c node = (Inr u, c')"
  shows "cipherValueNode c' = cipherValueOf node"
    and "tctx_uri (encTransformCtx c') =
           sourceAfter (encrypt c) (cipherReferenceUri node) (tctx_uri (encTransformCtx c))"
    and "\<exists>cd. cipherDataOf node = Some cd \<and>
           (firstElement cd = None \<or> valueChoice cd \<noteq> None \<or>
            (case firstElement cd of
               None \<Rightarrow> False
             | Some x \<Rightarrow> xmlSecCheckNodeName x xmlSecNodeCipherReference xmlSecEncNs))"
proof -
  from assms obtain c2 cur4 c4 cur5 c5 where
    a: "encDataNodeRead_attrs c node = (Inr (), c2)" and
    b: "encDataNodeRead_optional c2 node = (Inr cur4, c4)" and
    d: "encDataNodeRead_cipherData env c4 cur4 = (Inr cur5, c5)" and
    e: "encDataNodeRead_rest env c5 cur5 = (Inr (), c')"
    by (rule children_parts)
  obtain cc where cc: "cur4 = xmlSecGetNextElementNode cc"
    "filter (\<lambda>n. node_type n = XML_ELEMENT_NODE) cc = afterKeyInfo node"
    using optional_cursor [OF b] by blast
  obtain cd where cd: "cipherDataOf node = Some cd"
    "xmlSecEncCtxCipherDataNodeRead env c4 cd = (Inr (), c5)"
    using cipherData_found [OF d [unfolded cc(1)] cc(2)] by blast
  have k2: "tctx_uri (encTransformCtx c2) = tctx_uri (encTransformCtx c)" "encrypt c2 = encrypt c"
    using a attrs_keeps(2) [of c node] outside_attrs [of c node]
    by (simp_all add: outside_def)
  have k4: "tctx_uri (encTransformCtx c4) = tctx_uri (encTransformCtx c2)"
    "encrypt c4 = encrypt c2"
    using b optional_keeps(2) [of c2 node] outside_optional [of c2 node]
    by (simp_all add: outside_def)
  have k': "inner c' = inner c5"
    using e inner_rest [of env c5 cur5] by simp
  note f = CipherDataNodeRead_found [OF cd(2)]
  show "cipherValueNode c' = cipherValueOf node"
    using f(1) k' cd(1) by (simp add: inner_def cipherValueOf_def)
  show "tctx_uri (encTransformCtx c') =
           sourceAfter (encrypt c) (cipherReferenceUri node) (tctx_uri (encTransformCtx c))"
    using f(2) k' k2 k4 cd(1) by (simp add: inner_def cipherReferenceUri_def)
  show "\<exists>cd. cipherDataOf node = Some cd \<and>
           (firstElement cd = None \<or> valueChoice cd \<noteq> None \<or>
            (case firstElement cd of
               None \<Rightarrow> False
             | Some x \<Rightarrow> xmlSecCheckNodeName x xmlSecNodeCipherReference xmlSecEncNs))"
    using f(3) cd(1) by simp
qed

lemma EncDataNodeRead_found:
  assumes "xmlSecEncCtxEncDataNodeRead env c node = (Inr u, c')"
  shows "cipherValueNode c' = cipherValueOf node"
    and "tctx_uri (encTransformCtx c') =
           sourceAfter (encrypt c) (cipherReferenceUri node) (tctx_uri (encTransformCtx c))"
    and "\<exists>cd. cipherDataOf node = Some cd \<and>
           (firstElement cd = None \<or> valueChoice cd \<noteq> None \<or>
            (case firstElement cd of
               None \<Rightarrow> False
             | Some x \<Rightarrow> xmlSecCheckNodeName x xmlSecNodeCipherReference xmlSecEncNs))"
proof -
  from assms obtain c1 p c2 c3 where
    1: "encDataNodeRead_children env c node = (Inr (), c1)" and
    2: "encDataNodeRead_method env c1 = (Inr p, c2)" and
    3: "encDataNodeRead_key env c2 p = (Inr (), c3)" and
    4: "encDataNodeRead_base64 env c3 = (Inr (), c')"
    by (rule EncDataNodeRead_parts)
  have "inner c2 = inner c1" using 2 inner_method [of env c1] by simp
  moreover have "inner c3 = inner c2" using 3 inner_key [of env c2 p] by simp
  moreover have "inner c' = inner c3" using 4 inner_base64 [of env c3] by simp
  ultimately have i: "inner c' = inner c1" by simp
  note f = children_found [OF 1]
  show "cipherValueNode c' = cipherValueOf node" using f(1) i by (simp add: inner_def)
  show "tctx_uri (encTransformCtx c') =
           sourceAfter (encrypt c) (cipherReferenceUri node) (tctx_uri (encTransformCtx c))"
    using f(2) i by (simp add: inner_def)
  show "\<exists>cd. cipherDataOf node = Some cd \<and>
           (firstElement cd = None \<or> valueChoice cd \<noteq> None \<or>
            (case firstElement cd of
               None \<Rightarrow> False
             | Some x \<Rightarrow> xmlSecCheckNodeName x xmlSecNodeCipherReference xmlSecEncNs))"
    using f(3) .
qed

section \<open>The chain after an encrypt template was read\<close>

lemma CipherDataNodeRead_encrypt:
  assumes "encrypt c"
  shows "machinery (snd (xmlSecEncCtxCipherDataNodeRead env c cd)) = machinery c"
    and "resultBase64Encoded (snd (xmlSecEncCtxCipherDataNodeRead env c cd))
           = resultBase64Encoded c"
  using assms unfolding xmlSecEncCtxCipherDataNodeRead_def Let_def machinery_def
  by simp_all

lemma cipherData_encrypt:
  assumes "encrypt c"
  shows "machinery (snd (encDataNodeRead_cipherData env c cur)) = machinery c"
    and "resultBase64Encoded (snd (encDataNodeRead_cipherData env c cur))
           = resultBase64Encoded c"
proof -
  obtain r1 c1 where e1: "xmlSecEncCtxCipherDataNodeRead env c (hd cur) = (r1, c1)" by force
  have o: "machinery c1 = machinery c" "resultBase64Encoded c1 = resultBase64Encoded c"
    using CipherDataNodeRead_encrypt [OF assms, of env "hd cur"] e1 by simp_all
  show "machinery (snd (encDataNodeRead_cipherData env c cur)) = machinery c"
    and "resultBase64Encoded (snd (encDataNodeRead_cipherData env c cur))
           = resultBase64Encoded c"
    unfolding encDataNodeRead_cipherData_def
    by (cases r1; simp add: e1 o)+
qed

lemma children_encrypt:
  assumes "encrypt c" and "encDataNodeRead_children env c node = (Inr u, c')"
  shows "machinery c' = machinery c" and "resultBase64Encoded c' = resultBase64Encoded c"
    and "encrypt c'"
proof -
  from assms(2) obtain c2 cur4 c4 cur5 c5 where
    a: "encDataNodeRead_attrs c node = (Inr (), c2)" and
    b: "encDataNodeRead_optional c2 node = (Inr cur4, c4)" and
    d: "encDataNodeRead_cipherData env c4 cur4 = (Inr cur5, c5)" and
    e: "encDataNodeRead_rest env c5 cur5 = (Inr (), c')"
    by (rule children_parts)
  have k2: "machinery c2 = machinery c" "resultBase64Encoded c2 = resultBase64Encoded c"
    "encrypt c2"
    using a attrs_keeps(3,4) [of c node] outside_attrs [of c node] assms(1)
    by (simp_all add: outside_def)
  have k4: "machinery c4 = machinery c2" "resultBase64Encoded c4 = resultBase64Encoded c2"
    "encrypt c4"
    using b optional_keeps(3,4) [of c2 node] outside_optional [of c2 node] k2(3)
    by (simp_all add: outside_def)
  have k5: "machinery c5 = machinery c4" "resultBase64Encoded c5 = resultBase64Encoded c4"
    "encrypt c5"
    using d cipherData_encrypt [OF k4(3), of env cur4] outside_cipherData [of env c4 cur4]
      k4(3)
    by (simp_all add: outside_def)
  have k': "machinery c' = machinery c5" "resultBase64Encoded c' = resultBase64Encoded c5"
    "encrypt c'"
    using e rest_keeps [of env c5 cur5] outside_rest [of env c5 cur5] k5(3)
    by (simp_all add: outside_def)
  show "machinery c' = machinery c" and "resultBase64Encoded c' = resultBase64Encoded c"
    and "encrypt c'"
    using k2 k4 k5 k' by simp_all
qed

lemma method_chain:
  assumes "encDataNodeRead_method env c = (Inr p, c')"
  shows "tctx_chain (encTransformCtx c') = tctx_chain (encTransformCtx c) @ [p]"
    and "encMethod c' = Some p"
    and "resultBase64Encoded c' = resultBase64Encoded c"
    and "encrypt c' = encrypt c"
proof -
  have "tctx_chain (encTransformCtx c') = tctx_chain (encTransformCtx c) @ [p] \<and>
      encMethod c' = Some p \<and> resultBase64Encoded c' = resultBase64Encoded c \<and>
      encrypt c' = encrypt c"
  proof (cases "encMethod c")
    case None
    show ?thesis
    proof (cases "encMethodNode c")
      case n: None
      then show ?thesis using assms None by (simp add: encDataNodeRead_method_def)
    next
      case (Some mnode)
      then show ?thesis
        using assms None
        by (auto simp: encDataNodeRead_method_def xmlSecTransformCtxNodeRead_def
            chainAppend_def poke_def split: option.splits)
    qed
  next
    case (Some q)
    then show ?thesis
      using assms
      by (auto simp: encDataNodeRead_method_def xmlSecTransformCtxAppend_def
          chainAppend_def poke_def split: option.splits if_splits)
  qed
  then show "tctx_chain (encTransformCtx c') = tctx_chain (encTransformCtx c) @ [p]"
    and "encMethod c' = Some p"
    and "resultBase64Encoded c' = resultBase64Encoded c"
    and "encrypt c' = encrypt c"
    by simp_all
qed

lemma key_chain:
  "tctx_chain (encTransformCtx (snd (encDataNodeRead_key env c p)))
     = tctx_chain (encTransformCtx c)"
  "encMethod (snd (encDataNodeRead_key env c p)) = encMethod c"
  "resultBase64Encoded (snd (encDataNodeRead_key env c p)) = resultBase64Encoded c"
  unfolding encDataNodeRead_key_def Let_def
  by (simp_all add: case_prod_beta xmlSecTransformSetKey_def poke_def split: option.split)

lemma base64_chain:
  assumes "encDataNodeRead_base64 env c = (Inr u, c')"
  shows "encrypt c \<and> cipherValueNode c \<noteq> None \<Longrightarrow>
           tctx_chain (encTransformCtx c') = tctx_chain (encTransformCtx c) @ [length (heap c)] \<and>
           deref c' (length (heap c))
             = Some ((xmlSecTransformCreate xmlSecTransformBase64Id)\<lparr>encode := True\<rparr>) \<and>
           resultBase64Encoded c' \<and> encMethod c' = encMethod c"
    and "\<not> (encrypt c \<and> cipherValueNode c \<noteq> None) \<Longrightarrow> c' = c"
  using assms
  by (auto simp: encDataNodeRead_base64_def xmlSecTransformCtxCreateAndAppend_def
      chainAppend_def poke_def deref_def split: if_splits)

text \<open>
  C4. Let \<open>encDataNodeRead\<close> succeed on a context in encrypt mode. If the first element
  child of the template's \<open>CipherData\<close> is a \<open>CipherValue\<close>, the chain is what it was
  before, followed by the cipher (\<open>encMethod\<close>) and then by a newly created base64
  transform whose \<open>encode\<close> flag is set, and \<open>resultBase64Encoded\<close> is true. Otherwise
  (a \<open>CipherReference\<close>, or no node to write the result to) the chain is what it was
  before, followed by the cipher alone, and \<open>resultBase64Encoded\<close> is unchanged.
\<close>

theorem base64_appended_for_CipherValue:
  assumes "encrypt c"
    and "xmlSecEncCtxEncDataNodeRead env c node = (Inr u, c')"
  shows "cipherValueNode c' = cipherValueOf node \<and>
         (cipherValueOf node \<noteq> None \<longrightarrow>
            deref c' (last (tctx_chain (encTransformCtx c')))
              = Some ((xmlSecTransformCreate xmlSecTransformBase64Id)\<lparr>encode := True\<rparr>) \<and>
            map Some (butlast (tctx_chain (encTransformCtx c')))
              = map Some (tctx_chain (encTransformCtx c)) @ [encMethod c'] \<and>
            resultBase64Encoded c') \<and>
         (cipherValueOf node = None \<longrightarrow>
            map Some (tctx_chain (encTransformCtx c'))
              = map Some (tctx_chain (encTransformCtx c)) @ [encMethod c'] \<and>
            resultBase64Encoded c' = resultBase64Encoded c)"
proof -
  from assms(2) obtain c1 p c2 c3 where
    1: "encDataNodeRead_children env c node = (Inr (), c1)" and
    2: "encDataNodeRead_method env c1 = (Inr p, c2)" and
    3: "encDataNodeRead_key env c2 p = (Inr (), c3)" and
    4: "encDataNodeRead_base64 env c3 = (Inr (), c')"
    by (rule EncDataNodeRead_parts)
  note k1 = children_encrypt [OF assms(1) 1]
  note k2 = method_chain [OF 2]
  have k3: "tctx_chain (encTransformCtx c3) = tctx_chain (encTransformCtx c2)"
    "encMethod c3 = encMethod c2" "resultBase64Encoded c3 = resultBase64Encoded c2"
    using key_chain [of env c2 p] 3 by simp_all
  have e3: "encrypt c3"
    using outside_key [of env c2 p] 3 k2(4) k1(3) by (simp add: outside_def)
  have v: "cipherValueNode c' = cipherValueOf node"
    using EncDataNodeRead_found(1) [OF assms(2)] .
  have v3: "cipherValueNode c3 = cipherValueOf node"
    using v inner_base64 [of env c3] 4 by (simp add: inner_def)
  have chain3: "tctx_chain (encTransformCtx c3) = tctx_chain (encTransformCtx c) @ [p]"
    "encMethod c3 = Some p" "resultBase64Encoded c3 = resultBase64Encoded c"
    using k1(1,2) k2 k3 by (simp_all add: machinery_def)
  show ?thesis
  proof (cases "cipherValueOf node")
    case None
    then have "c' = c3" using base64_chain(2) [OF 4] v3 by simp
    then show ?thesis using None v chain3 by simp
  next
    case (Some cv)
    then have "tctx_chain (encTransformCtx c') = tctx_chain (encTransformCtx c3) @ [length (heap c3)] \<and>
           deref c' (length (heap c3))
             = Some ((xmlSecTransformCreate xmlSecTransformBase64Id)\<lparr>encode := True\<rparr>) \<and>
           resultBase64Encoded c' \<and> encMethod c' = encMethod c3"
      using base64_chain(1) [OF 4] v3 e3 by simp
    then show ?thesis using Some v chain3 by (simp add: butlast_append)
  qed
qed

lemma example_readValue:
  "fst (xmlSecEncCtxEncDataNodeRead example_enc_env
     (emit (E_AddIDs example_tmpl_value) (example_ctx_key\<lparr>encrypt := True\<rparr>))
     example_tmpl_value) = Inr ()"
  by code_simp

lemma example_readReference:
  "fst (xmlSecEncCtxEncDataNodeRead example_enc_env
     (emit (E_AddIDs example_tmpl_reference) (example_ctx_key\<lparr>encrypt := True\<rparr>))
     example_tmpl_reference) = Inr ()"
  by code_simp

lemma example_cipherValueOf:
  "cipherValueOf example_tmpl_value = Some example_cipherValue"
  "cipherValueOf example_tmpl_reference = None"
  by code_simp+

theorem base64_appended_for_CipherValue_witness:
  "deref (snd (xmlSecEncCtxEncDataNodeRead example_enc_env
       (emit (E_AddIDs example_tmpl_value) (example_ctx_key\<lparr>encrypt := True\<rparr>))
       example_tmpl_value))
     (last (tctx_chain (encTransformCtx (snd (xmlSecEncCtxEncDataNodeRead example_enc_env
       (emit (E_AddIDs example_tmpl_value) (example_ctx_key\<lparr>encrypt := True\<rparr>))
       example_tmpl_value)))))
     = Some ((xmlSecTransformCreate xmlSecTransformBase64Id)\<lparr>encode := True\<rparr>) \<and>
   resultBase64Encoded (snd (xmlSecEncCtxEncDataNodeRead example_enc_env
       (emit (E_AddIDs example_tmpl_value) (example_ctx_key\<lparr>encrypt := True\<rparr>))
       example_tmpl_value)) \<and>
   map Some (tctx_chain (encTransformCtx (snd (xmlSecEncCtxEncDataNodeRead example_enc_env
       (emit (E_AddIDs example_tmpl_reference) (example_ctx_key\<lparr>encrypt := True\<rparr>))
       example_tmpl_reference))))
     = [encMethod (snd (xmlSecEncCtxEncDataNodeRead example_enc_env
       (emit (E_AddIDs example_tmpl_reference) (example_ctx_key\<lparr>encrypt := True\<rparr>))
       example_tmpl_reference))]"
proof -
  let ?cv = "emit (E_AddIDs example_tmpl_value) (example_ctx_key\<lparr>encrypt := True\<rparr>)"
  let ?cr = "emit (E_AddIDs example_tmpl_reference) (example_ctx_key\<lparr>encrypt := True\<rparr>)"
  obtain c1 where 1: "xmlSecEncCtxEncDataNodeRead example_enc_env ?cv example_tmpl_value
      = (Inr (), c1)"
    using example_readValue by (metis fst_conv surj_pair)
  obtain c2 where 2: "xmlSecEncCtxEncDataNodeRead example_enc_env ?cr example_tmpl_reference
      = (Inr (), c2)"
    using example_readReference by (metis fst_conv surj_pair)
  have e: "encrypt ?cv" "encrypt ?cr" by (simp_all add: emit_def)
  have z: "tctx_chain (encTransformCtx ?cr) = []"
    by (simp add: emit_def example_ctx_key_def example_ctx_simps zeroCtx_def)
  show ?thesis
    using base64_appended_for_CipherValue [OF e(1) 1]
      base64_appended_for_CipherValue [OF e(2) 2] z
    by (simp add: 1 2 example_cipherValueOf)
qed

section \<open>The source of the ciphertext when the chain is executed\<close>

lemma readContext_encrypt:
  assumes "readContext env ctx op tmpl = Some c"
  shows "encrypt c = (\<not> decrypts op)"
    and "decrypts op \<Longrightarrow> tctx_uri (encTransformCtx c) = tctx_uri (encTransformCtx ctx)"
  using assms
  by (cases op;
      simp add: readContext_def emit_def xmlSecTransformCtxSetUri_def decrypts_def
        split: if_splits option.splits;
      force)+

text \<open>
  C3 (as amended). Let an operation have read its template, so that it goes on to execute
  the chain in the context \<open>c'\<close>, and let the template's \<open>CipherData\<close> have a first
  element child \<open>x\<close>. Then either \<open>x\<close> is a \<open>CipherValue\<close>, \<open>cipherValueNode\<close> is
  \<open>x\<close> and reading the template has installed no source (the URI of the input is what
  it was before the template was read); or \<open>x\<close> is a \<open>CipherReference\<close>,
  \<open>cipherValueNode\<close> is \<open>NULL\<close>, and the URI of the input is that of the \<open>URI\<close>
  attribute of \<open>x\<close> when the operation decrypts and the attribute is there, and else
  what it was before. The two are never set together by reading a template.
\<close>

theorem cipher_source_at_execution:
  assumes "readContext env ctx op tmpl = Some c"
    and "xmlSecEncCtxEncDataNodeRead env c tmpl = (Inr u, c')"
    and "cipherDataOf tmpl = Some cd"
    and "firstElement cd = Some x"
  shows "(xmlSecCheckNodeName x xmlSecNodeCipherValue xmlSecEncNs \<and>
          cipherValueNode c' = Some x \<and>
          tctx_uri (encTransformCtx c') = tctx_uri (encTransformCtx c)) \<or>
         (xmlSecCheckNodeName x xmlSecNodeCipherReference xmlSecEncNs \<and>
          cipherValueNode c' = None \<and>
          tctx_uri (encTransformCtx c') =
            sourceAfter (\<not> decrypts op) (xmlGetProp x xmlSecAttrURI)
              (tctx_uri (encTransformCtx c)))"
proof -
  note f = EncDataNodeRead_found [OF assms(2)]
  note e = readContext_encrypt(1) [OF assms(1)]
  have names: "xmlSecNodeCipherValue \<noteq> xmlSecNodeCipherReference"
    by (simp add: xmlSecNodeCipherValue_def xmlSecNodeCipherReference_def)
  show ?thesis
  proof (cases "xmlSecCheckNodeName x xmlSecNodeCipherValue xmlSecEncNs")
    case True
    then have "\<not> xmlSecCheckNodeName x xmlSecNodeCipherReference xmlSecEncNs"
      using names by (simp add: xmlSecCheckNodeName_def)
    then show ?thesis
      using True f(1,2) assms(3,4)
      by (simp add: cipherValueOf_def cipherReferenceUri_def valueChoice_def
          referenceChoice_def sourceAfter_def)
  next
    case False
    then have "xmlSecCheckNodeName x xmlSecNodeCipherReference xmlSecEncNs"
      using f(3) assms(3,4) by (simp add: valueChoice_def)
    then show ?thesis
      using False f(1,2) assms(3,4) e
      by (simp add: cipherValueOf_def cipherReferenceUri_def valueChoice_def
          referenceChoice_def)
  qed
qed

lemma example_ctx_key_entry:
  "encResult example_ctx_key = None" "effects example_ctx_key = []"
  "replaced example_ctx_key = False"
  "tctx_uri (encTransformCtx example_ctx_key) = None"
  by (simp_all add: example_ctx_key_def example_ctx_simps zeroCtx_def)

lemma example_decrypt_reads:
  "fst (xmlSecEncCtxEncDataNodeRead example_enc_env
     (emit (E_AddIDs example_tmpl_value) (example_ctx_key\<lparr>encrypt := False\<rparr>))
     example_tmpl_value) = Inr ()"
  "fst (xmlSecEncCtxEncDataNodeRead example_enc_env
     (emit (E_AddIDs example_tmpl_reference) (example_ctx_key\<lparr>encrypt := False\<rparr>))
     example_tmpl_reference) = Inr ()"
  by code_simp+

lemma example_choices:
  "cipherDataOf example_tmpl_value
     = Some (encElement ''CipherData'' [] [example_blank, example_cipherValue])"
  "firstElement (encElement ''CipherData'' [] [example_blank, example_cipherValue])
     = Some example_cipherValue"
  "cipherDataOf example_tmpl_reference
     = Some (encElement ''CipherData'' []
          [encElement ''CipherReference'' [(''URI'', ''http://example.org/cipher.bin'')] []])"
  "firstElement (encElement ''CipherData'' []
          [encElement ''CipherReference'' [(''URI'', ''http://example.org/cipher.bin'')] []])
     = Some (encElement ''CipherReference'' [(''URI'', ''http://example.org/cipher.bin'')] [])"
  by code_simp+

theorem cipher_source_at_execution_witness:
  "cipherValueNode (snd (xmlSecEncCtxEncDataNodeRead example_enc_env
      (emit (E_AddIDs example_tmpl_value) (example_ctx_key\<lparr>encrypt := False\<rparr>))
      example_tmpl_value)) = Some example_cipherValue \<and>
   tctx_uri (encTransformCtx (snd (xmlSecEncCtxEncDataNodeRead example_enc_env
      (emit (E_AddIDs example_tmpl_value) (example_ctx_key\<lparr>encrypt := False\<rparr>))
      example_tmpl_value))) = None \<and>
   cipherValueNode (snd (xmlSecEncCtxEncDataNodeRead example_enc_env
      (emit (E_AddIDs example_tmpl_reference) (example_ctx_key\<lparr>encrypt := False\<rparr>))
      example_tmpl_reference)) = None \<and>
   tctx_uri (encTransformCtx (snd (xmlSecEncCtxEncDataNodeRead example_enc_env
      (emit (E_AddIDs example_tmpl_reference) (example_ctx_key\<lparr>encrypt := False\<rparr>))
      example_tmpl_reference))) = Some ''http://example.org/cipher.bin''"
proof -
  let ?cv = "emit (E_AddIDs example_tmpl_value) (example_ctx_key\<lparr>encrypt := False\<rparr>)"
  let ?cr = "emit (E_AddIDs example_tmpl_reference) (example_ctx_key\<lparr>encrypt := False\<rparr>)"
  have rv: "readContext example_enc_env example_ctx_key OpDecrypt example_tmpl_value = Some ?cv"
    and rr: "readContext example_enc_env example_ctx_key OpDecrypt example_tmpl_reference
      = Some ?cr"
    by (simp_all add: readContext_def example_ctx_key_entry)
  obtain c1 where 1: "xmlSecEncCtxEncDataNodeRead example_enc_env ?cv example_tmpl_value
      = (Inr (), c1)"
    using example_decrypt_reads(1) by (metis fst_conv surj_pair)
  obtain c2 where 2: "xmlSecEncCtxEncDataNodeRead example_enc_env ?cr example_tmpl_reference
      = (Inr (), c2)"
    using example_decrypt_reads(2) by (metis fst_conv surj_pair)
  have u: "tctx_uri (encTransformCtx ?cv) = None" "tctx_uri (encTransformCtx ?cr) = None"
    by (simp_all add: emit_def example_ctx_key_entry)
  have n: "\<not> xmlSecCheckNodeName example_cipherValue xmlSecNodeCipherReference xmlSecEncNs"
    "\<not> xmlSecCheckNodeName
        (encElement ''CipherReference'' [(''URI'', ''http://example.org/cipher.bin'')] [])
        xmlSecNodeCipherValue xmlSecEncNs"
    "xmlGetProp (encElement ''CipherReference'' [(''URI'', ''http://example.org/cipher.bin'')] [])
        xmlSecAttrURI = Some ''http://example.org/cipher.bin''"
    by code_simp+
  show ?thesis
    using cipher_source_at_execution [OF rv 1 example_choices(1,2)]
      cipher_source_at_execution [OF rr 2 example_choices(3,4)] u n
    by (simp add: 1 2 sourceAfter_def decrypts_def)
qed

text \<open>
  C3 as stated fails. Encrypting octets into a template whose \<open>CipherData\<close> holds a
  \<open>CipherReference\<close> executes the chain with \<open>cipherValueNode\<close> \<open>NULL\<close> and no
  source installed; so does decrypting a node whose \<open>CipherReference\<close> has no \<open>URI\<close>.
\<close>

theorem cipher_source_counterexample:
  "fst (xmlSecEncCtxBinaryEncrypt example_enc_env example_ctx_key example_tmpl_reference
          ''Hello, World!'') = Inr () \<and>
   filter isExecution (effects (snd (xmlSecEncCtxBinaryEncrypt example_enc_env example_ctx_key
          example_tmpl_reference ''Hello, World!''))) = [E_BinaryExecute [0] ''Hello, World!''] \<and>
   cipherValueNode (snd (xmlSecEncCtxBinaryEncrypt example_enc_env example_ctx_key
          example_tmpl_reference ''Hello, World!'')) = None \<and>
   tctx_uri (encTransformCtx (snd (xmlSecEncCtxBinaryEncrypt example_enc_env example_ctx_key
          example_tmpl_reference ''Hello, World!''))) = None \<and>
   fst (xmlSecEncCtxDecryptToBuffer example_enc_env example_ctx_key
          example_tmpl_reference_nouri) = Inr (Some ''QUJD'') \<and>
   filter isExecution (effects (snd (xmlSecEncCtxDecryptToBuffer example_enc_env
          example_ctx_key example_tmpl_reference_nouri))) = [E_Execute [0] None] \<and>
   cipherValueNode (snd (xmlSecEncCtxDecryptToBuffer example_enc_env example_ctx_key
          example_tmpl_reference_nouri)) = None \<and>
   tctx_uri (encTransformCtx (snd (xmlSecEncCtxDecryptToBuffer example_enc_env example_ctx_key
          example_tmpl_reference_nouri))) = None"
  by code_simp

section \<open>Failing operations and the host document\<close>

lemma unspliced_refl [simp]: "unspliced env c c"
  by (simp add: unspliced_def)

lemma unspliced_trans: "unspliced env a b \<Longrightarrow> unspliced env b c \<Longrightarrow> unspliced env a c"
  by (auto simp: unspliced_def)

lemma unspliced_outside: "outside c' = outside c \<Longrightarrow> unspliced env c c'"
  by (simp add: unspliced_def outside_def)

lemma unspliced_emit:
  "\<not> isSplice env e \<Longrightarrow> \<not> isSetContent e \<Longrightarrow> unspliced env c (emit e c)"
  by (simp add: unspliced_def emit_def)

lemma unspliced_upd [simp]:
  "unspliced env c (c'\<lparr>encTransformCtx := t\<rparr>) = unspliced env c c'"
  "unspliced env c (c'\<lparr>encResult := r\<rparr>) = unspliced env c c'"
  "unspliced env c (c'\<lparr>encrypt := b\<rparr>) = unspliced env c c'"
  by (simp_all add: unspliced_def)

lemma unspliced_Prepare: "unspliced env c (snd (xmlSecTransformCtxPrepare env c))"
  by (simp add: xmlSecTransformCtxPrepare_def)

lemma unspliced_BinaryExecute:
  "unspliced env c (snd (xmlSecTransformCtxBinaryExecute env c dat))"
  by (simp add: xmlSecTransformCtxBinaryExecute_def unspliced_emit split: exec_result.split)

lemma unspliced_Execute: "unspliced env c (snd (xmlSecTransformCtxExecute env c))"
  by (simp add: xmlSecTransformCtxExecute_def unspliced_emit split: exec_result.split)

lemma unspliced_Close: "unspliced env c (outputBufferClose env written c)"
  by (simp add: outputBufferClose_def unspliced_emit split: exec_result.split)

lemma filter_map_DumpOutput:
  "filter (isSplice env) (map (E_NodeDumpOutput ch) nodes) = []"
  "filter isSetContent (map (E_NodeDumpOutput ch) nodes) = []"
  by (induction nodes) simp_all

lemma unspliced_Write: "unspliced env c (outputBufferWrite nodes c)"
  by (simp add: outputBufferWrite_def unspliced_def filter_map_DumpOutput)

lemma unspliced_EncDataNodeRead:
  "unspliced env c (snd (xmlSecEncCtxEncDataNodeRead env c node))"
  by (simp add: unspliced_outside)

lemma unspliced_CipherDataNodeWrite:
  "unspliced env c (snd (xmlSecEncCtxCipherDataNodeWrite env c))"
  unfolding xmlSecEncCtxCipherDataNodeWrite_def
  by (cases "encResult c"; cases "encKey c"; cases "cipherValueNode c"; cases "keyInfoNode c")
    (simp_all add: unspliced_def emit_def xmlSecKeyInfoNodeWrite_def split: option.split)

lemma failed_ReplaceNode:
  "fst (xmlSecReplaceNode env c node tmpl) = None \<Longrightarrow>
   unspliced env c (snd (xmlSecReplaceNode env c node tmpl))"
  by (simp add: xmlSecReplaceNode_def unspliced_emit split: if_splits)

lemma failed_ReplaceContent:
  "fst (xmlSecReplaceContent env c node tmpl) = None \<Longrightarrow>
   unspliced env c (snd (xmlSecReplaceContent env c node tmpl))"
  by (simp add: xmlSecReplaceContent_def unspliced_emit split: if_splits)

lemma failed_ReplaceNodeBuffer:
  "fst (xmlSecReplaceNodeBuffer env c node b) = None \<Longrightarrow>
   unspliced env c (snd (xmlSecReplaceNodeBuffer env c node b))"
  by (simp add: xmlSecReplaceNodeBuffer_def unspliced_emit split: if_splits)

lemma unspliced_push: "unspliced env c (snd (xmlEncrypt_push env c node))"
proof -
  have "unspliced env c (outputBufferClose env w (outputBufferWrite ns c))" for w ns
    using unspliced_trans [OF unspliced_Write unspliced_Close] .
  then show ?thesis
    by (simp add: xmlEncrypt_push_def Let_def unspliced_Close)
qed

lemma failed_replace:
  assumes "failed (fst (xmlEncrypt_replace env c tmpl node))"
  shows "unspliced env c (snd (xmlEncrypt_replace env c tmpl node))"
proof -
  obtain r6 c6 where e6: "xmlSecReplaceNode env c node tmpl = (r6, c6)" by force
  have u6: "r6 = None \<Longrightarrow> unspliced env c c6"
    using failed_ReplaceNode [of env c node tmpl] e6 by simp
  obtain r7 c7 where e7: "xmlSecReplaceContent env c node tmpl = (r7, c7)" by force
  have u7: "r7 = None \<Longrightarrow> unspliced env c c7"
    using failed_ReplaceContent [of env c node tmpl] e7 by simp
  consider (element) "ctx_type c = Some xmlSecTypeEncElement"
    | (content) "ctx_type c \<noteq> Some xmlSecTypeEncElement"
        "ctx_type c = Some xmlSecTypeEncContent"
    | (other) "ctx_type c \<noteq> Some xmlSecTypeEncElement"
        "ctx_type c \<noteq> Some xmlSecTypeEncContent"
    by blast
  then show ?thesis
  proof cases
    case element
    then show ?thesis
      using assms e6 u6 by (cases r6) (simp_all add: xmlEncrypt_replace_def failed_def)
  next
    case content
    then show ?thesis
      using assms e7 u7 by (cases r7) (simp_all add: xmlEncrypt_replace_def failed_def)
  next
    case other
    then show ?thesis by (simp add: xmlEncrypt_replace_def)
  qed
qed

lemma XmlEncrypt_failed:
  assumes "failed (fst (xmlSecEncCtxXmlEncrypt env ctx tmpl node))"
  shows "unspliced env ctx (snd (xmlSecEncCtxXmlEncrypt env ctx tmpl node))"
proof (cases "encResult ctx")
  case (Some res)
  then show ?thesis by (simp add: xmlSecEncCtxXmlEncrypt_def)
next
  case None
  let ?c0 = "emit (E_AddIDs tmpl) (ctx\<lparr>encrypt := True\<rparr>)"
  have u0: "unspliced env ctx ?c0"
    by (simp add: unspliced_def emit_def)
  obtain r1 c1 where e1: "xmlSecEncCtxEncDataNodeRead env ?c0 tmpl = (r1, c1)" by force
  have u1: "unspliced env ctx c1"
    using unspliced_trans [OF u0 unspliced_EncDataNodeRead [of env ?c0 tmpl]] e1 by simp
  obtain r2 c2 where e2: "xmlSecTransformCtxPrepare env c1 = (r2, c2)" by force
  have u2: "unspliced env ctx c2"
    using unspliced_trans [OF u1 unspliced_Prepare [of env c1]] e2 by simp
  obtain r4 c4 where e4: "xmlEncrypt_push env c2 node = (r4, c4)" by force
  have u4: "unspliced env ctx c4"
    using unspliced_trans [OF u2 unspliced_push [of env c2 node]] e4 by simp
  obtain r5 c5 where e5: "xmlSecEncCtxCipherDataNodeWrite env c4 = (r5, c5)" by force
  have u5: "unspliced env ctx c5"
    using unspliced_trans [OF u4 unspliced_CipherDataNodeWrite [of env c4]] e5 by simp
  have u6: "failed (fst (xmlEncrypt_replace env c5 tmpl node)) \<Longrightarrow>
      unspliced env ctx (snd (xmlEncrypt_replace env c5 tmpl node))"
    using unspliced_trans [OF u5 failed_replace] .
  show ?thesis
    using assms None e1 e2 e4 e5 u1 u2 u4 u5 u6
    by (cases r1; cases r2; cases r4; cases r5)
      (auto simp: xmlSecEncCtxXmlEncrypt_def split: if_splits)
qed

lemma DecryptToBuffer_unspliced:
  "replaced (snd (xmlSecEncCtxDecryptToBuffer env ctx node)) = replaced ctx"
  "unspliced env ctx (snd (xmlSecEncCtxDecryptToBuffer env ctx node))"
proof -
  have "replaced (snd (xmlSecEncCtxDecryptToBuffer env ctx node)) = replaced ctx \<and>
      unspliced env ctx (snd (xmlSecEncCtxDecryptToBuffer env ctx node))"
  proof (cases "encResult ctx")
    case (Some res)
    then show ?thesis by (simp add: xmlSecEncCtxDecryptToBuffer_def)
  next
    case None
    let ?c0 = "emit (E_AddIDs node) (ctx\<lparr>encrypt := False\<rparr>)"
    obtain r0 k1 where e0: "xmlSecEncCtxEncDataNodeRead env ?c0 node = (r0, k1)" by force
    have o: "outside k1 = outside ?c0"
      using outside_EncDataNodeRead [of env ?c0 node] e0 by simp
    have u1: "replaced k1 = replaced ctx" "unspliced env ctx k1"
      using o by (simp_all add: outside_def unspliced_def emit_def)
    show ?thesis
    proof (cases r0)
      case (Inl es)
      then show ?thesis using None e0 u1 by (simp add: xmlSecEncCtxDecryptToBuffer_def)
    next
      case r0: (Inr u)
      show ?thesis
      proof (cases "cipherValueNode k1")
        case n: None
        obtain r2 k2 where e2: "xmlSecTransformCtxExecute env k1 = (r2, k2)" by force
        have u2: "replaced k2 = replaced ctx" "unspliced env ctx k2"
          using e2 u1 unspliced_trans [OF u1(2) unspliced_Execute [of env k1]]
          by (auto simp: xmlSecTransformCtxExecute_def emit_def split: exec_result.splits)
        show ?thesis
          using None e0 r0 n e2 u2
          by (cases r2; cases "tctx_result (encTransformCtx k2)")
            (simp_all add: xmlSecEncCtxDecryptToBuffer_def)
      next
        case (Some cv)
        show ?thesis
        proof (cases "xmlNodeGetContent env cv")
          case g: None
          then show ?thesis
            using None e0 r0 Some u1 by (simp add: xmlSecEncCtxDecryptToBuffer_def)
        next
          case g: (Some dat)
          obtain r3 k3 where e3: "xmlSecTransformCtxBinaryExecute env k1 dat = (r3, k3)"
            by force
          have u3: "replaced k3 = replaced ctx" "unspliced env ctx k3"
            using e3 u1 unspliced_trans [OF u1(2) unspliced_BinaryExecute [of env k1 dat]]
            by (auto simp: xmlSecTransformCtxBinaryExecute_def emit_def
                split: exec_result.splits)
          show ?thesis
            using None e0 r0 Some g e3 u3
            by (cases r3; cases "tctx_result (encTransformCtx k3)")
              (simp_all add: xmlSecEncCtxDecryptToBuffer_def)
        qed
      qed
    qed
  qed
  then show "replaced (snd (xmlSecEncCtxDecryptToBuffer env ctx node)) = replaced ctx"
    and "unspliced env ctx (snd (xmlSecEncCtxDecryptToBuffer env ctx node))"
    by simp_all
qed

lemma Decrypt_facts:
  "replaced (snd (xmlSecEncCtxDecrypt env ctx node)) =
     (replaced ctx \<or>
      (fst (xmlSecEncCtxDecrypt env ctx node) = Inr () \<and>
       (ctx_type (snd (xmlSecEncCtxDecrypt env ctx node)) = Some xmlSecTypeEncElement \<or>
        ctx_type (snd (xmlSecEncCtxDecrypt env ctx node)) = Some xmlSecTypeEncContent)))"
  "failed (fst (xmlSecEncCtxDecrypt env ctx node)) \<longrightarrow>
     unspliced env ctx (snd (xmlSecEncCtxDecrypt env ctx node))"
  "fst (xmlSecEncCtxDecrypt env ctx node) = Inr () \<and>
   (ctx_type (snd (xmlSecEncCtxDecrypt env ctx node)) = Some xmlSecTypeEncElement \<or>
    ctx_type (snd (xmlSecEncCtxDecrypt env ctx node)) = Some xmlSecTypeEncContent) \<longrightarrow>
     isSplice env (last (effects (snd (xmlSecEncCtxDecrypt env ctx node))))"
proof -
  let ?P = "\<lambda>res. replaced (snd res) =
     (replaced ctx \<or>
      (fst res = Inr () \<and>
       (ctx_type (snd res) = Some xmlSecTypeEncElement \<or>
        ctx_type (snd res) = Some xmlSecTypeEncContent))) \<and>
     (failed (fst res) \<longrightarrow> unspliced env ctx (snd res)) \<and>
     (fst res = Inr () \<and>
       (ctx_type (snd res) = Some xmlSecTypeEncElement \<or>
        ctx_type (snd res) = Some xmlSecTypeEncContent) \<longrightarrow>
      isSplice env (last (effects (snd res))))"
  obtain r1 c1 where e1: "xmlSecEncCtxDecryptToBuffer env ctx node = (r1, c1)" by force
  have f1: "replaced c1 = replaced ctx" "unspliced env ctx c1"
    using DecryptToBuffer_unspliced [of env ctx node] e1 by simp_all
  have "?P (xmlSecEncCtxDecrypt env ctx node)"
  proof (cases r1)
    case (Inl es)
    then show ?thesis using e1 f1 by (simp add: xmlSecEncCtxDecrypt_def failed_def)
  next
    case (Inr buffer)
    let ?b = "take (xmlSecBufferGetSize buffer)
                (case xmlSecBufferGetData buffer of None \<Rightarrow> [] | Some d \<Rightarrow> d)"
    obtain r2 c2 where e2: "xmlSecReplaceNodeBuffer env c1 node ?b = (r2, c2)" by force
    have ok: "r2 = Some () \<Longrightarrow> isSplice env (last (effects c2)) \<and> ctx_type c2 = ctx_type c1"
      and ko: "r2 = None \<Longrightarrow> unspliced env ctx c2 \<and> replaced c2 = replaced ctx"
      using e2 f1
      by (auto simp: xmlSecReplaceNodeBuffer_def emit_def unspliced_def split: if_splits)
    consider (element) "ctx_type c1 = Some xmlSecTypeEncElement"
      | (content) "ctx_type c1 \<noteq> Some xmlSecTypeEncElement"
          "ctx_type c1 = Some xmlSecTypeEncContent"
      | (other) "ctx_type c1 \<noteq> Some xmlSecTypeEncElement"
          "ctx_type c1 \<noteq> Some xmlSecTypeEncContent"
      by blast
    then show ?thesis
    proof cases
      case element
      then show ?thesis
        using e1 Inr e2 ok ko
        by (cases r2) (simp_all add: xmlSecEncCtxDecrypt_def failed_def)
    next
      case content
      then show ?thesis
        using e1 Inr e2 ok ko
        by (cases r2) (simp_all add: xmlSecEncCtxDecrypt_def failed_def)
    next
      case other
      then show ?thesis
        using e1 Inr f1 by (simp add: xmlSecEncCtxDecrypt_def failed_def)
    qed
  qed
  then show "replaced (snd (xmlSecEncCtxDecrypt env ctx node)) =
     (replaced ctx \<or>
      (fst (xmlSecEncCtxDecrypt env ctx node) = Inr () \<and>
       (ctx_type (snd (xmlSecEncCtxDecrypt env ctx node)) = Some xmlSecTypeEncElement \<or>
        ctx_type (snd (xmlSecEncCtxDecrypt env ctx node)) = Some xmlSecTypeEncContent)))"
    and "failed (fst (xmlSecEncCtxDecrypt env ctx node)) \<longrightarrow>
     unspliced env ctx (snd (xmlSecEncCtxDecrypt env ctx node))"
    and "fst (xmlSecEncCtxDecrypt env ctx node) = Inr () \<and>
   (ctx_type (snd (xmlSecEncCtxDecrypt env ctx node)) = Some xmlSecTypeEncElement \<or>
    ctx_type (snd (xmlSecEncCtxDecrypt env ctx node)) = Some xmlSecTypeEncContent) \<longrightarrow>
     isSplice env (last (effects (snd (xmlSecEncCtxDecrypt env ctx node))))"
    by simp_all
qed


text \<open>
  C2 (as amended). A \<open>Decrypt\<close> that fails leaves \<open>replaced\<close> as it was and has made no
  successful splice into the host document. An \<open>XmlEncrypt\<close> that fails has made no
  successful splice either, but \<open>replaced\<close> is not left alone: it is true afterwards
  exactly if it was true before or the content of the template's \<open>CipherValue\<close> node
  was set on the way, which happens before the \<open>KeyInfo\<close> node is written and before
  the splice is attempted.
\<close>

theorem failing_operation_leaves_document:
  "(failed (fst (xmlSecEncCtxDecrypt env ctx node)) \<longrightarrow>
      replaced (snd (xmlSecEncCtxDecrypt env ctx node)) = replaced ctx \<and>
      filter (isSplice env) (effects (snd (xmlSecEncCtxDecrypt env ctx node)))
        = filter (isSplice env) (effects ctx)) \<and>
   (failed (fst (xmlSecEncCtxXmlEncrypt env ctx tmpl node)) \<longrightarrow>
      filter (isSplice env) (effects (snd (xmlSecEncCtxXmlEncrypt env ctx tmpl node)))
        = filter (isSplice env) (effects ctx) \<and>
      replaced (snd (xmlSecEncCtxXmlEncrypt env ctx tmpl node)) =
        (replaced ctx \<or>
         length (filter isSetContent (effects ctx))
           < length (filter isSetContent
               (effects (snd (xmlSecEncCtxXmlEncrypt env ctx tmpl node))))))"
proof -
  have d: "failed (fst (xmlSecEncCtxDecrypt env ctx node)) \<Longrightarrow>
      fst (xmlSecEncCtxDecrypt env ctx node) \<noteq> Inr ()"
    by (auto simp: failed_def)
  show ?thesis
    using Decrypt_facts(1,2) [of env ctx node] XmlEncrypt_failed [of env ctx tmpl node] d
    by (auto simp: unspliced_def)
qed

lemma example_failing_operations:
  "failed (fst (xmlSecEncCtxDecrypt example_env_keyInfo_fails example_ctx_key example_secret))"
  "failed (fst (xmlSecEncCtxXmlEncrypt example_env_keyInfo_fails example_ctx_key
      example_tmpl_keyInfo example_secret))"
  "replaced example_ctx_key = False"
  "effects example_ctx_key = []"
  by code_simp+

theorem failing_operation_leaves_document_witness:
  "failed (fst (xmlSecEncCtxDecrypt example_env_keyInfo_fails example_ctx_key example_secret)) \<and>
   replaced (snd (xmlSecEncCtxDecrypt example_env_keyInfo_fails example_ctx_key example_secret))
     = False \<and>
   filter (isSplice example_env_keyInfo_fails)
     (effects (snd (xmlSecEncCtxDecrypt example_env_keyInfo_fails example_ctx_key
        example_secret))) = [] \<and>
   failed (fst (xmlSecEncCtxXmlEncrypt example_env_keyInfo_fails example_ctx_key
      example_tmpl_keyInfo example_secret)) \<and>
   filter (isSplice example_env_keyInfo_fails)
     (effects (snd (xmlSecEncCtxXmlEncrypt example_env_keyInfo_fails example_ctx_key
        example_tmpl_keyInfo example_secret))) = []"
  using failing_operation_leaves_document [of example_env_keyInfo_fails example_ctx_key
      example_secret example_tmpl_keyInfo]
    example_failing_operations
  by simp

theorem replaced_before_splice_counterexample:
  "failed (fst (xmlSecEncCtxXmlEncrypt example_env_keyInfo_fails example_ctx_key
      example_tmpl_keyInfo example_secret)) \<and>
   replaced example_ctx_key = False \<and>
   replaced (snd (xmlSecEncCtxXmlEncrypt example_env_keyInfo_fails example_ctx_key
      example_tmpl_keyInfo example_secret)) = True \<and>
   filter isReplacement
     (effects (snd (xmlSecEncCtxXmlEncrypt example_env_keyInfo_fails example_ctx_key
        example_tmpl_keyInfo example_secret))) = [] \<and>
   filter isSetContent
     (effects (snd (xmlSecEncCtxXmlEncrypt example_env_keyInfo_fails example_ctx_key
        example_tmpl_keyInfo example_secret)))
     = [E_NodeSetContentLen example_cipherValue ''QUJD'']"
  by code_simp

section \<open>Releasing the encryption method\<close>

lemma isDestroy_freed: "filter isDestroy (freed str) = []"
  by (cases str) (simp_all add: freed_def)

lemma Finalize_destroys:
  "filter isDestroy (effects (xmlSecEncCtxFinalize ctx)) =
     filter isDestroy (effects ctx) @
     (case encMethod ctx of
        None \<Rightarrow> []
      | Some p \<Rightarrow> if dontDestroyEncMethod ctx then [E_TransformDestroy p] else [])"
  by (cases "encMethod ctx"; cases "encKey ctx")
    (simp_all add: xmlSecEncCtxFinalize_def isDestroy_freed)

text \<open>
  C1. \<open>xmlSecEncCtxFinalize\<close> at two contexts that have encrypted the same octets with
  the same template. In the first the caller had preset the cipher (pointer 0), so that
  reading the template appended it to the chain and set \<open>dontDestroyEncMethod\<close>: the
  cipher is destroyed by \<open>xmlSecTransformDestroy\<close>. In the second the cipher was read
  from the \<open>EncryptionMethod\<close> node, the flag is clear and the context owns the cipher:
  \<open>xmlSecTransformDestroy\<close> is not called. The test of the flag is the opposite of
  what its name says.
\<close>

theorem finalize_destroys_preset_method:
  "fst (xmlSecEncCtxBinaryEncrypt example_enc_env example_ctx_preset example_tmpl_value
          ''Hello, World!'') = Inr () \<and>
   dontDestroyEncMethod (snd (xmlSecEncCtxBinaryEncrypt example_enc_env example_ctx_preset
          example_tmpl_value ''Hello, World!'')) = True \<and>
   encMethod (snd (xmlSecEncCtxBinaryEncrypt example_enc_env example_ctx_preset
          example_tmpl_value ''Hello, World!'')) = Some 0 \<and>
   filter isDestroy (effects (xmlSecEncCtxFinalize
       (snd (xmlSecEncCtxBinaryEncrypt example_enc_env example_ctx_preset example_tmpl_value
          ''Hello, World!'')))) = [E_TransformDestroy 0] \<and>
   fst (xmlSecEncCtxBinaryEncrypt example_enc_env example_ctx_key example_tmpl_value
          ''Hello, World!'') = Inr () \<and>
   dontDestroyEncMethod (snd (xmlSecEncCtxBinaryEncrypt example_enc_env example_ctx_key
          example_tmpl_value ''Hello, World!'')) = False \<and>
   encMethod (snd (xmlSecEncCtxBinaryEncrypt example_enc_env example_ctx_key
          example_tmpl_value ''Hello, World!'')) = Some 0 \<and>
   filter isDestroy (effects (xmlSecEncCtxFinalize
       (snd (xmlSecEncCtxBinaryEncrypt example_enc_env example_ctx_key example_tmpl_value
          ''Hello, World!'')))) = []"
  by code_simp

end
